(* ===== verification/Prelude.thy ===== *)
theory Prelude
  imports Complex_Main "HOL-Library.Word"
begin

text \<open>
  Shared vocabulary of the development: the types that name the data of
  \<^verbatim>\<open>src/scraper-script.py\<close> (byte strings, file paths, the filesystem, numpy
  matrices as lists of rows), the Python exceptions the script raises or catches,
  the structured log events it writes through \<^verbatim>\<open>logger\<close>, and a small
  state-and-exception monad \<open>('s, 'a) pyst\<close> in which every statement of the
  script is a function from a state to a result (an exception \<open>Inl\<close> or a value
  \<open>Inr\<close>) and the next state.  The generic lemmas on it are collected in
  \<open>pyst_simps\<close> and \<open>keeps_intros\<close>.
\<close>

named_theorems pyst_simps "evaluation rules of the state-and-exception monad"
named_theorems keeps_intros "frame rules: a statement keeps a relation between states"

section \<open>Types of the model\<close>

type_synonym bytes = "8 word list"
type_synonym path = string
type_synonym fs = "path \<rightharpoonup> bytes"
type_synonym 'a mat = "'a list list"

text \<open>The exceptions of the script, one constructor per Python exception class it meets.\<close>

datatype py_exc =
    FileNotFoundError path            \<comment> \<open>\<^verbatim>\<open>Image.open\<close> on a missing file\<close>
  | PermissionError path              \<comment> \<open>\<^verbatim>\<open>open(p, 'w')\<close> without write permission\<close>
  | IsADirectoryError path            \<comment> \<open>\<^verbatim>\<open>open(p, 'w')\<close> on a directory\<close>
  | OSError string                    \<comment> \<open>any other \<^verbatim>\<open>OSError\<close>, e.g. PIL's on truncated image data\<close>
  | UnidentifiedImageError path       \<comment> \<open>\<^verbatim>\<open>Image.open\<close>/\<^verbatim>\<open>convert\<close> on bytes that are no image\<close>
  | BroadcastError "nat \<times> nat" "nat \<times> nat" \<comment> \<open>numpy \<^verbatim>\<open>ValueError\<close>: operands could not be broadcast\<close>
  | IndexError                        \<comment> \<open>\<^verbatim>\<open>char_map[idx]\<close>, \<^verbatim>\<open>cols[i]\<close> out of range\<close>
  | TimeoutException                  \<comment> \<open>selenium \<^verbatim>\<open>WebDriverWait.until\<close>\<close>
  | NoSuchElementException string     \<comment> \<open>selenium \<^verbatim>\<open>find_element\<close>\<close>
  | WebDriverException string         \<comment> \<open>any other driver failure\<close>
  | UnboundLocalError string          \<comment> \<open>reading a Python local before its first assignment\<close>
  | LoginFailed                       \<comment> \<open>\<^verbatim>\<open>Exception("Failed to login after maximum retries")\<close>\<close>

datatype log_level = INFO | WARNING | ERROR

text \<open>The messages of the script's \<^verbatim>\<open>logger\<close> calls, with the values they format.\<close>

datatype message =
    MsgPreprocessError py_exc         \<comment> \<open>line 62\<close>
  | MsgMatchError py_exc              \<comment> \<open>line 82\<close>
  | MsgLowConfidence nat              \<comment> \<open>line 103\<close>
  | MsgSolveError py_exc              \<comment> \<open>line 109\<close>
  | MsgDriverSetupError py_exc        \<comment> \<open>line 132\<close>
  | MsgLoginAttempt nat nat           \<comment> \<open>line 139: attempt + 1, max\_retries\<close>
  | MsgCaptchaSolution string         \<comment> \<open>line 151\<close>
  | MsgLoginSuccessful                \<comment> \<open>line 165\<close>
  | MsgAttemptTimeout nat             \<comment> \<open>line 169\<close>
  | MsgAttemptFailed nat py_exc       \<comment> \<open>line 175\<close>
  | MsgExtractMarksError py_exc       \<comment> \<open>line 223\<close>
  | MsgExtractInfoError py_exc        \<comment> \<open>line 239\<close>
  | MsgSaved path                     \<comment> \<open>line 265\<close>
  | MsgMainError py_exc               \<comment> \<open>line 276\<close>

type_synonym event = "log_level \<times> message"

section \<open>Statements as state transformers with exceptions\<close>

type_synonym ('s, 'a) pyst = "'s \<Rightarrow> (py_exc + 'a) \<times> 's"

definition ret :: "'a \<Rightarrow> ('s, 'a) pyst" where
  "ret x = (\<lambda>s. (Inr x, s))"

definition throw :: "py_exc \<Rightarrow> ('s, 'a) pyst" where
  "throw e = (\<lambda>s. (Inl e, s))"

definition pbind :: "('s, 'a) pyst \<Rightarrow> ('a \<Rightarrow> ('s, 'b) pyst) \<Rightarrow> ('s, 'b) pyst" where
  "pbind m f = (\<lambda>s. case m s of (Inl e, s') \<Rightarrow> (Inl e, s') | (Inr x, s') \<Rightarrow> f x s')"

text \<open>\<^verbatim>\<open>return x\<close> of a value that raised is the exception: \<open>lift_sum\<close> turns a pure
  result of a library call into a statement.\<close>

definition lift_sum :: "py_exc + 'a \<Rightarrow> ('s, 'a) pyst" where
  "lift_sum r = (\<lambda>s. (r, s))"

text \<open>A \<^verbatim>\<open>logger\<close> call appends one event to the log.\<close>

definition emit :: "log_level \<Rightarrow> message \<Rightarrow> (event list, unit) pyst" where
  "emit lv msg = (\<lambda>l. (Inr (), l @ [(lv, msg)]))"

text \<open>
  The script's recurring handler
  \<^verbatim>\<open>except Exception as e: logger.error(...); raise\<close>:
  on an exception run the logging statement \<open>h e\<close> and re-raise \<open>e\<close>.
\<close>

definition catch_log_raise :: "(py_exc \<Rightarrow> ('s, unit) pyst) \<Rightarrow> ('s, 'a) pyst \<Rightarrow> ('s, 'a) pyst" where
  "catch_log_raise h m = (\<lambda>s. case m s of
      (Inl e, s') \<Rightarrow> (Inl e, snd (h e s'))
    | (Inr x, s') \<Rightarrow> (Inr x, s'))"

text \<open>
  \<^verbatim>\<open>try: m finally: fin\<close>: \<open>fin\<close> runs on every exit of \<open>m\<close>; an exception
  raised by \<open>fin\<close> replaces the outcome of \<open>m\<close>.
\<close>

definition py_finally :: "('s, 'a) pyst \<Rightarrow> ('s, unit) pyst \<Rightarrow> ('s, 'a) pyst" where
  "py_finally m fin = (\<lambda>s. case m s of
      (r, s1) \<Rightarrow> (case fin s1 of (Inl e, s2) \<Rightarrow> (Inl e, s2) | (Inr _, s2) \<Rightarrow> (r, s2)))"

text \<open>Python's \<^verbatim>\<open>s[i]\<close> for a non-negative index: \<^verbatim>\<open>IndexError\<close> beyond the end.\<close>

definition py_index :: "'a list \<Rightarrow> nat \<Rightarrow> py_exc + 'a" where
  "py_index xs i = (if i < length xs then Inr (xs ! i) else Inl IndexError)"

text \<open>
  \<open>keeps R m\<close>: whatever \<open>m\<close> returns or raises, its final state is related to its
  initial state by \<open>R\<close>.  With a reflexive and transitive \<open>R\<close> (for instance
  "the filesystem is unchanged" or "the log only grows") it composes along \<open>pbind\<close>.
\<close>

definition keeps :: "('s \<Rightarrow> 's \<Rightarrow> bool) \<Rightarrow> ('s, 'a) pyst \<Rightarrow> bool" where
  "keeps R m \<longleftrightarrow> (\<forall>s. R s (snd (m s)))"

text \<open>How one iteration of a Python \<^verbatim>\<open>for\<close> body ends.\<close>

datatype 'a loop_exit = Returned 'a | Raised py_exc | Continued

text \<open>Python's \<^verbatim>\<open>str(n)\<close> of a non-negative integer (used for file names).\<close>

fun py_str_nat :: "nat \<Rightarrow> string" where
  "py_str_nat n =
     (if n < 10 then [char_of (48 + n)]
      else py_str_nat (n div 10) @ [char_of (48 + n mod 10)])"

section \<open>Evaluation rules\<close>

lemma ret_apply [pyst_simps]: "ret x s = (Inr x, s)"
  by (simp add: ret_def)

lemma throw_apply [pyst_simps]: "throw e s = (Inl e, s)"
  by (simp add: throw_def)

lemma lift_sum_apply [pyst_simps]: "lift_sum r s = (r, s)"
  by (simp add: lift_sum_def)

lemma emit_apply [pyst_simps]: "emit lv msg l = (Inr (), l @ [(lv, msg)])"
  by (simp add: emit_def)

lemma pbind_apply [pyst_simps]:
  "pbind m f s = (case m s of (Inl e, s') \<Rightarrow> (Inl e, s') | (Inr x, s') \<Rightarrow> f x s')"
  by (simp add: pbind_def)

lemma catch_log_raise_apply [pyst_simps]:
  "catch_log_raise h m s = (case m s of
      (Inl e, s') \<Rightarrow> (Inl e, snd (h e s')) | (Inr x, s') \<Rightarrow> (Inr x, s'))"
  by (simp add: catch_log_raise_def)

lemma py_index_less [simp]: "i < length xs \<Longrightarrow> py_index xs i = Inr (xs ! i)"
  by (simp add: py_index_def)

lemma py_index_ge [simp]: "length xs \<le> i \<Longrightarrow> py_index xs i = Inl IndexError"
  by (simp add: py_index_def)

lemma pbind_Inr [simp]: "m s = (Inr x, s') \<Longrightarrow> pbind m f s = f x s'"
  by (simp add: pbind_def)

lemma pbind_Inl [simp]: "m s = (Inl e, s') \<Longrightarrow> pbind m f s = (Inl e, s')"
  by (simp add: pbind_def)

lemma pbind_ret_left [simp]: "pbind (ret x) f = f x"
  by (simp add: pbind_def ret_def)

lemma pbind_throw_left [simp]: "pbind (throw e) f = throw e"
  by (simp add: pbind_def throw_def)

lemma pbind_assoc: "pbind (pbind m f) g = pbind m (\<lambda>x. pbind (f x) g)"
  by (rule ext) (simp add: pbind_def split: prod.splits sum.splits)

lemma pbind_result_Inr:
  "pbind m f s = (Inr y, s'') \<Longrightarrow> \<exists>x s'. m s = (Inr x, s') \<and> f x s' = (Inr y, s'')"
  by (simp add: pbind_def split: prod.splits sum.splits)

section \<open>Frame rules\<close>

lemma keepsD: "keeps R m \<Longrightarrow> m s = (r, s') \<Longrightarrow> R s s'"
  by (metis keeps_def snd_conv)

lemma keeps_ret [keeps_intros]: "reflp R \<Longrightarrow> keeps R (ret x)"
  by (simp add: keeps_def ret_def reflpD)

lemma keeps_throw [keeps_intros]: "reflp R \<Longrightarrow> keeps R (throw e)"
  by (simp add: keeps_def throw_def reflpD)

lemma keeps_lift_sum [keeps_intros]: "reflp R \<Longrightarrow> keeps R (lift_sum r)"
  by (simp add: keeps_def lift_sum_def reflpD)

lemma keeps_mono: "keeps R m \<Longrightarrow> (\<And>s t. R s t \<Longrightarrow> R' s t) \<Longrightarrow> keeps R' m"
  by (simp add: keeps_def)

lemma keeps_pbind [keeps_intros]:
  assumes "transp R" "keeps R m" "\<And>x. keeps R (f x)"
  shows "keeps R (pbind m f)"
  unfolding keeps_def
proof
  fix s
  show "R s (snd (pbind m f s))"
  proof (cases "m s")
    case (Pair r s')
    with assms(2) have "R s s'" by (rule keepsD)
    show ?thesis
    proof (cases r)
      case (Inl e)
      with Pair \<open>R s s'\<close> show ?thesis by simp
    next
      case (Inr x)
      have "R s' (snd (f x s'))" using assms(3) by (simp add: keeps_def)
      with Pair Inr \<open>R s s'\<close> assms(1) show ?thesis by (auto dest: transpD)
    qed
  qed
qed

lemma keeps_catch_log_raise [keeps_intros]:
  assumes "transp R" "keeps R m" "\<And>e. keeps R (h e)"
  shows "keeps R (catch_log_raise h m)"
  unfolding keeps_def
proof
  fix s
  show "R s (snd (catch_log_raise h m s))"
  proof (cases "m s")
    case (Pair r s')
    with assms(2) have "R s s'" by (rule keepsD)
    show ?thesis
    proof (cases r)
      case (Inl e)
      have "R s' (snd (h e s'))" using assms(3) by (simp add: keeps_def)
      with Pair Inl \<open>R s s'\<close> assms(1) show ?thesis
        by (auto simp: catch_log_raise_def dest: transpD)
    next
      case (Inr x)
      with Pair \<open>R s s'\<close> show ?thesis by (simp add: catch_log_raise_def)
    qed
  qed
qed

lemma keeps_case_sum [keeps_intros]:
  "(\<And>e. keeps R (f e)) \<Longrightarrow> (\<And>x. keeps R (g x)) \<Longrightarrow> keeps R (case r of Inl e \<Rightarrow> f e | Inr x \<Rightarrow> g x)"
  by (cases r) simp_all

lemma keeps_case_prod [keeps_intros]: "(\<And>a b. keeps R (f a b)) \<Longrightarrow> keeps R (case p of (a, b) \<Rightarrow> f a b)"
  by (cases p) simp

text \<open>Sequencing a statement that relates its states by \<open>P\<close> with statements that relate
  them by \<open>Q\<close>, where a \<open>P\<close>-step followed by a \<open>Q\<close>-step is a \<open>P\<close>-step.\<close>

lemma keeps_pbind_seq:
  assumes "keeps P m" "\<And>x. keeps Q (f x)" "\<And>s t u. P s t \<Longrightarrow> Q t u \<Longrightarrow> P s u"
  shows "keeps P (pbind m f)"
  unfolding keeps_def
proof
  fix s
  obtain r t where mt: "m s = (r, t)" by fastforce
  with assms(1) have "P s t" by (rule keepsD)
  then show "P s (snd (pbind m f s))"
    using mt assms(2,3) by (cases r) (auto simp: pbind_def keeps_def)
qed

lemma keeps_if [keeps_intros]: "keeps R a \<Longrightarrow> keeps R b \<Longrightarrow> keeps R (if c then a else b)"
  by simp

lemma py_finally_apply [pyst_simps]:
  "py_finally m fin s = (case m s of
      (r, s1) \<Rightarrow> (case fin s1 of (Inl e, s2) \<Rightarrow> (Inl e, s2) | (Inr _, s2) \<Rightarrow> (r, s2)))"
  by (simp add: py_finally_def)

lemma keeps_py_finally [keeps_intros]:
  assumes "transp R" "keeps R m" "keeps R fin"
  shows "keeps R (py_finally m fin)"
  unfolding keeps_def py_finally_def
  using assms by (auto split: prod.splits sum.splits dest: keepsD elim: transpE)

lemma catch_log_raise_Inl: "fst (m s) = Inl e \<Longrightarrow> fst (catch_log_raise h m s) = Inl e"
  by (cases "m s") (simp add: catch_log_raise_def)

lemma py_finally_Inl: "fst (m s) = Inl e \<Longrightarrow> \<exists>e'. fst (py_finally m fin s) = Inl e'"
  by (auto simp: py_finally_def split: prod.splits sum.splits)

section \<open>Lists and matrices\<close>

lemma length_filter_eq_length: "length (filter P xs) = length xs \<longleftrightarrow> list_all P xs"
proof (induction xs)
  case Nil
  then show ?case by simp
next
  case (Cons x xs)
  have le: "length (filter P xs) \<le> length xs" by (rule length_filter_le)
  show ?case
  proof (cases "P x")
    case True
    with Cons.IH show ?thesis by simp
  next
    case False
    from le have "length (filter P xs) \<noteq> Suc (length xs)" by linarith
    with False show ?thesis by simp
  qed
qed

text \<open>Percentages \<open>s / n * 100\<close> of counts.\<close>

lemma pct_le: "0 < n \<Longrightarrow> s \<le> n \<Longrightarrow> of_nat s / of_nat n * 100 \<le> (100::rat)"
  by (simp add: pos_divide_le_eq)

lemma pct_nonneg: "0 \<le> of_nat s / of_nat n * (100::rat)"
  by simp

lemma pct_eq_100: "0 < n \<Longrightarrow> of_nat s / of_nat n * 100 = (100::rat) \<longleftrightarrow> s = n"
  by (simp add: divide_eq_eq)

lemma pct_eq_0: "0 < n \<Longrightarrow> of_nat s / of_nat n * 100 = (0::rat) \<longleftrightarrow> s = 0"
  by simp

lemma py_str_nat_nonempty: "py_str_nat n \<noteq> []"
  by (subst py_str_nat.simps) simp

declare py_str_nat.simps [simp del]

end
