(* ===== verification/Numpy.thy ===== *)
theory Numpy
  imports Prelude
begin

text \<open>
  The part of numpy's semantics that the captcha solver relies on, for
  two-dimensional arrays stored as lists of rows: the shape, the column slice
  \<^verbatim>\<open>m[:, a:b]\<close>, the elementwise comparison \<^verbatim>\<open>==\<close> with numpy's broadcasting rule
  (and its \<^verbatim>\<open>ValueError\<close> when the shapes are incompatible, the behaviour of
  numpy 1.25 and later), \<^verbatim>\<open>np.sum\<close> of a boolean array, \<^verbatim>\<open>.size\<close>, the threshold
  \<^verbatim>\<open>m > t\<close>, and the scalings \<^verbatim>\<open>bool_array * 255\<close> (to int64) and
  \<^verbatim>\<open>uint8_array * 255\<close> (in uint8, modulo 256).  A numpy array is always
  rectangular; \<open>dims m r c\<close> says that the list of rows \<open>m\<close> is an
  \<open>r \<times> c\<close> array.
\<close>

definition dims :: "'a mat \<Rightarrow> nat \<Rightarrow> nat \<Rightarrow> bool" where
  "dims m r c \<longleftrightarrow> length m = r \<and> list_all (\<lambda>row. length row = c) m"

definition np_shape :: "'a mat \<Rightarrow> nat \<times> nat" where
  "np_shape m = (length m, case m of [] \<Rightarrow> 0 | row # _ \<Rightarrow> length row)"

definition np_size :: "'a mat \<Rightarrow> nat" where
  "np_size m = fst (np_shape m) * snd (np_shape m)"

text \<open>\<^verbatim>\<open>m[:, a:b]\<close> for \<open>0 \<le> a \<le> b\<close>: Python slicing never raises, it clips at the end of a row.\<close>

definition np_cols :: "'a mat \<Rightarrow> nat \<Rightarrow> nat \<Rightarrow> 'a mat" where
  "np_cols m a b = map (\<lambda>row. take (b - a) (drop a row)) m"

text \<open>Broadcasting of one axis: equal lengths, or one of them is 1.\<close>

definition bdim :: "nat \<Rightarrow> nat \<Rightarrow> nat option" where
  "bdim a b = (if a = b then Some a else if a = 1 then Some b else if b = 1 then Some a else None)"

definition bix :: "nat \<Rightarrow> nat \<Rightarrow> nat" where
  "bix n i = (if n = 1 then 0 else i)"

definition np_eq :: "('a \<Rightarrow> 'b \<Rightarrow> bool) \<Rightarrow> 'a mat \<Rightarrow> 'b mat \<Rightarrow> py_exc + bool mat" where
  "np_eq f A B =
     (let (ra, ca) = np_shape A; (rb, cb) = np_shape B in
      case (bdim ra rb, bdim ca cb) of
        (Some r, Some c) \<Rightarrow>
          Inr (map (\<lambda>i. map (\<lambda>j. f (A ! bix ra i ! bix ca j) (B ! bix rb i ! bix cb j)) [0..<c]) [0..<r])
      | _ \<Rightarrow> Inl (BroadcastError (ra, ca) (rb, cb)))"

definition np_sum :: "bool mat \<Rightarrow> nat" where
  "np_sum m = sum_list (map (\<lambda>row. length (filter (\<lambda>b. b) row)) m)"

text \<open>\<^verbatim>\<open>m > t\<close> on a uint8 array against a Python int, then \<^verbatim>\<open>* 255\<close> on the boolean result (int64).\<close>

definition np_gt :: "8 word mat \<Rightarrow> int \<Rightarrow> bool mat" where
  "np_gt m t = map (map (\<lambda>p. t < uint p)) m"

definition np_bool_mul :: "bool mat \<Rightarrow> int \<Rightarrow> int mat" where
  "np_bool_mul m k = map (map (\<lambda>b. if b then k else 0)) m"

text \<open>\<^verbatim>\<open>np.array(..., dtype=np.uint8) * k\<close>: uint8 arithmetic, wrapping modulo 256.\<close>

definition np_u8_mul :: "8 word mat \<Rightarrow> 8 word \<Rightarrow> 8 word mat" where
  "np_u8_mul m k = map (map (\<lambda>x. x * k)) m"

section \<open>Shapes\<close>

lemma dims_nth: "dims m r c \<Longrightarrow> i < r \<Longrightarrow> length (m ! i) = c"
  by (auto simp: dims_def list_all_length)

lemma dims_map_map [simp]: "dims (map (map f) m) r c = dims m r c"
  by (simp add: dims_def list_all_length)

lemma dims_comprehension [simp]: "dims (map (\<lambda>i. map (g i) [0..<c]) [0..<r]) r c"
  by (simp add: dims_def list_all_length)

lemma np_shape_dims: "dims m r c \<Longrightarrow> 0 < r \<Longrightarrow> np_shape m = (r, c)"
  by (cases m) (auto simp: dims_def np_shape_def)

lemma np_size_dims: "dims m r c \<Longrightarrow> 0 < r \<Longrightarrow> np_size m = r * c"
  by (simp add: np_size_def np_shape_dims)

lemma dims_np_cols:
  "dims m r c \<Longrightarrow> b \<le> c \<Longrightarrow> dims (np_cols m a b) r (b - a)"
  by (auto simp: dims_def np_cols_def list_all_iff)

lemma bix_less: "i < n \<Longrightarrow> bix n i = i"
  by (simp add: bix_def)

text \<open>Cutting every row into consecutive slices of width \<open>k\<close> and joining them again gives the first \<open>k * n\<close> entries back.\<close>

lemma concat_slices: "concat (map (\<lambda>p. take k (drop (p * k) xs)) [0..<n]) = take (n * k) xs"
proof (induction n)
  case 0
  then show ?case by simp
next
  case (Suc n)
  have "concat (map (\<lambda>p. take k (drop (p * k) xs)) [0..<Suc n])
        = take (n * k) xs @ take k (drop (n * k) xs)"
    using Suc.IH by simp
  also have "\<dots> = take (n * k + k) xs"
    by (simp only: take_add)
  finally show ?case
    by (simp add: add.commute)
qed

section \<open>Comparison of arrays of one shape\<close>

lemma np_eq_same_shape:
  assumes "dims A r c" "dims B r c" "0 < r"
  shows "np_eq f A B = Inr (map2 (map2 f) A B)"
proof -
  have sA: "np_shape A = (r, c)" and sB: "np_shape B = (r, c)"
    using assms by (simp_all add: np_shape_dims)
  have "map (\<lambda>i. map (\<lambda>j. f (A ! bix r i ! bix c j) (B ! bix r i ! bix c j)) [0..<c]) [0..<r]
        = map2 (map2 f) A B"
  proof (rule nth_equalityI)
    show "length (map (\<lambda>i. map (\<lambda>j. f (A ! bix r i ! bix c j) (B ! bix r i ! bix c j)) [0..<c]) [0..<r])
          = length (map2 (map2 f) A B)"
      using assms by (simp add: dims_def)
  next
    fix i
    assume "i < length (map (\<lambda>i. map (\<lambda>j. f (A ! bix r i ! bix c j) (B ! bix r i ! bix c j)) [0..<c]) [0..<r])"
    then have i: "i < r" by simp
    with assms have la: "length (A ! i) = c" and lb: "length (B ! i) = c"
      by (simp_all add: dims_nth)
    have "length A = r" "length B = r" using assms by (simp_all add: dims_def)
    with i la lb show "map (\<lambda>i. map (\<lambda>j. f (A ! bix r i ! bix c j) (B ! bix r i ! bix c j)) [0..<c]) [0..<r] ! i
          = map2 (map2 f) A B ! i"
      by (auto simp: bix_less intro: nth_equalityI)
  qed
  then show ?thesis by (simp add: np_eq_def sA sB bdim_def)
qed

lemma np_eq_mismatch:
  "np_shape A = (ra, ca) \<Longrightarrow> np_shape B = (rb, cb) \<Longrightarrow> bdim ra rb = None \<or> bdim ca cb = None \<Longrightarrow>
   np_eq f A B = Inl (BroadcastError (ra, ca) (rb, cb))"
  by (auto simp: np_eq_def split: option.splits)

lemma dims_map2: "dims A r c \<Longrightarrow> dims B r c \<Longrightarrow> dims (map2 (map2 f) A B) r c"
  by (auto simp: dims_def list_all_length)

section \<open>Counting\<close>

lemma np_sum_Cons [simp]: "np_sum (row # m) = length (filter (\<lambda>b. b) row) + np_sum m"
  by (simp add: np_sum_def)

lemma np_sum_Nil [simp]: "np_sum [] = 0"
  by (simp add: np_sum_def)

lemma np_sum_le: "dims m r c \<Longrightarrow> np_sum m \<le> r * c"
proof (induction m arbitrary: r)
  case Nil
  then show ?case by (simp add: dims_def)
next
  case (Cons row m)
  then obtain r' where r: "r = Suc r'" and "dims m r' c" and "length row = c"
    by (auto simp: dims_def)
  with Cons.IH have "np_sum m \<le> r' * c" by simp
  moreover have "length (filter (\<lambda>b. b) row) \<le> c"
    using \<open>length row = c\<close> length_filter_le by metis
  ultimately show ?case by (simp add: r)
qed

lemma np_sum_full:
  "dims m r c \<Longrightarrow> np_sum m = r * c \<longleftrightarrow> list_all (list_all (\<lambda>b. b)) m"
proof (induction m arbitrary: r)
  case Nil
  then show ?case by (simp add: dims_def)
next
  case (Cons row m)
  then obtain r' where r: "r = Suc r'" and dm: "dims m r' c" and lr: "length row = c"
    by (auto simp: dims_def)
  have le: "np_sum m \<le> r' * c" using dm by (rule np_sum_le)
  have lf: "length (filter (\<lambda>b. b) row) \<le> c" using lr length_filter_le by metis
  have row_full: "length (filter (\<lambda>b. b) row) = c \<longleftrightarrow> list_all (\<lambda>b. b) row"
    unfolding lr [symmetric] by (rule length_filter_eq_length)
  have "length (filter (\<lambda>b. b) row) + np_sum m = c + r' * c
        \<longleftrightarrow> length (filter (\<lambda>b. b) row) = c \<and> np_sum m = r' * c"
    using le lf by arith
  then show ?case using Cons.IH[OF dm] row_full by (simp add: r)
qed

lemma np_sum_zero: "np_sum m = 0 \<longleftrightarrow> list_all (list_all Not) m"
  by (induction m) (auto simp: filter_empty_conv list_all_iff)

text \<open>\<^verbatim>\<open>np.sum\<close> of an elementwise comparison counts the positions at which it holds.\<close>

lemma np_sum_nth: "np_sum m = (\<Sum>i<length m. length (filter (\<lambda>b. b) (m ! i)))"
  unfolding np_sum_def sum_list_sum_nth lessThan_atLeast0 by simp

lemma np_sum_map2_card:
  assumes "dims A r c" "dims B r c"
  shows "np_sum (map2 (map2 f) A B) = card {(i, j). i < r \<and> j < c \<and> f (A ! i ! j) (B ! i ! j)}"
proof -
  have len: "length (map2 (map2 f) A B) = r" using assms by (simp add: dims_def)
  have row: "length (filter (\<lambda>b. b) (map2 (map2 f) A B ! i)) = card {j. j < c \<and> f (A ! i ! j) (B ! i ! j)}"
    if "i < r" for i
  proof -
    have la: "length (A ! i) = c" and lb: "length (B ! i) = c" using that assms by (simp_all add: dims_nth)
    have mi: "map2 (map2 f) A B ! i = map2 f (A ! i) (B ! i)" using that assms by (simp add: dims_def)
    show ?thesis unfolding length_filter_conv_card mi
      by (intro arg_cong [where f = card] Collect_cong) (auto simp: la lb)
  qed
  have "{(i, j). i < r \<and> j < c \<and> f (A ! i ! j) (B ! i ! j)} = Sigma {..<r} (\<lambda>i. {j. j < c \<and> f (A ! i ! j) (B ! i ! j)})"
    by auto
  then have "card {(i, j). i < r \<and> j < c \<and> f (A ! i ! j) (B ! i ! j)} = (\<Sum>i<r. card {j. j < c \<and> f (A ! i ! j) (B ! i ! j)})"
    by (simp add: card_SigmaI)
  moreover have "np_sum (map2 (map2 f) A B) = (\<Sum>i<r. length (filter (\<lambda>b. b) (map2 (map2 f) A B ! i)))"
    by (simp only: np_sum_nth len)
  ultimately show ?thesis using row by simp
qed

section \<open>Thresholding and scaling\<close>

lemma np_bool_mul_values:
  "list_all (list_all (\<lambda>x. x = 0 \<or> x = k)) (np_bool_mul m k)"
  by (auto simp: np_bool_mul_def list_all_iff)

lemma unat_u8_mul_255: "x \<in> {0, 1} \<Longrightarrow> unat (x * (255 :: 8 word)) = unat x * 255"
  by auto

end
