(* ===== verification/Templates.thy ===== *)
theory Templates
  imports Numpy
begin

text \<open>
  The template library of \<^verbatim>\<open>CaptchaSolver\<close> (\<^verbatim>\<open>src/scraper-script.py\<close>, lines 23--50):
  the solver object is a record of its two attributes, \<^verbatim>\<open>test_set\<close> (the list of
  templates, uint8 arrays) and \<^verbatim>\<open>char_map\<close> (the label of the template at each
  index).  \<^verbatim>\<open>_load_test_set\<close> builds the single seed template for the digit 0 as a
  10 \<open>\<times>\<close> 8 array of bits scaled by 255 in uint8 arithmetic.
\<close>

record captcha_solver =
  test_set :: "8 word mat list"
  char_map :: string

definition template_0_bits :: "8 word mat" where
  "template_0_bits =
    [[0, 1, 1, 1, 1, 1, 1, 0],
     [1, 1, 1, 1, 1, 1, 1, 1],
     [1, 1, 0, 0, 0, 0, 1, 1],
     [1, 1, 0, 0, 0, 0, 1, 1],
     [1, 1, 0, 0, 0, 0, 1, 1],
     [1, 1, 0, 0, 0, 0, 1, 1],
     [1, 1, 0, 0, 0, 0, 1, 1],
     [1, 1, 0, 0, 0, 0, 1, 1],
     [1, 1, 1, 1, 1, 1, 1, 1],
     [0, 1, 1, 1, 1, 1, 1, 0]]"

definition template_0 :: "8 word mat" where
  "template_0 = np_u8_mul template_0_bits 255"

definition load_test_set :: "8 word mat list" where
  "load_test_set = [template_0]"

definition char_map_default :: string where
  "char_map_default = ''0123456789ABCDEFGHIJKLMNOPQRSTUVWXYZ''"

definition captcha_solver_init :: captcha_solver where
  "captcha_solver_init = \<lparr>test_set = load_test_set, char_map = char_map_default\<rparr>"

lemma template_0_bits_binary: "list_all (list_all (\<lambda>x. x \<in> {0, 1})) template_0_bits"
  by (simp add: template_0_bits_def)

lemma dims_template_0_bits: "dims template_0_bits 10 8"
  by (simp add: template_0_bits_def dims_def)

lemma dims_template_0: "dims template_0 10 8"
  using dims_template_0_bits by (simp add: template_0_def np_u8_mul_def)

lemma length_char_map_default [simp]: "length char_map_default = 36"
  by (simp add: char_map_default_def)

lemma unat_template_0:
  "map (map unat) template_0 = map (map (\<lambda>b. unat b * 255)) template_0_bits"
  using template_0_bits_binary
  by (simp add: template_0_def np_u8_mul_def list_all_iff unat_u8_mul_255)

end
