(* ===== verification/Matcher.thy ===== *)
theory Matcher
  imports Templates
begin

text \<open>
  Template matching of one character cell (\<^verbatim>\<open>src/scraper-script.py\<close>):
  \<^verbatim>\<open>_calculate_match_percentage\<close> (lines 75--83) and the inner loop of
  \<^verbatim>\<open>solve\<close> over the templates (lines 93--100), which keeps the running best
  score and its label and replaces them only on a strictly greater score.
  Scores are exact rationals: the float64 division of the source differs from
  them by rounding only, and no comparison of the script can tell the two apart
  for cells of at most \<open>2^52\<close> pixels.  \<open>match_score\<close> is the score of two arrays
  of one shape, \<open>classify_spec\<close> the reference: the first template of maximal
  score, if that score is positive.
\<close>

definition pixel_eq :: "int \<Rightarrow> 8 word \<Rightarrow> bool" where
  "pixel_eq c t \<longleftrightarrow> c = uint t"

definition calculate_match_percentage :: "int mat \<Rightarrow> 8 word mat \<Rightarrow> (event list, rat) pyst" where
  "calculate_match_percentage char_matrix test_matrix =
     catch_log_raise (\<lambda>e. emit ERROR (MsgMatchError e))
       (pbind (lift_sum (np_eq pixel_eq char_matrix test_matrix)) (\<lambda>eq.
          let matching_pixels = np_sum eq;
              total_pixels = np_size char_matrix
          in ret (of_nat matching_pixels / of_nat total_pixels * 100)))"

fun match_templates ::
  "string \<Rightarrow> int mat \<Rightarrow> nat \<Rightarrow> 8 word mat list \<Rightarrow> rat \<times> string \<Rightarrow> (event list, rat \<times> string) pyst" where
  "match_templates cm char_matrix idx [] best = ret best"
| "match_templates cm char_matrix idx (test_matrix # ts) best =
     pbind (calculate_match_percentage char_matrix test_matrix) (\<lambda>match_percent.
       if fst best < match_percent
       then pbind (lift_sum (py_index cm idx)) (\<lambda>c.
              match_templates cm char_matrix (Suc idx) ts (match_percent, [c]))
       else match_templates cm char_matrix (Suc idx) ts best)"

definition match_score :: "int mat \<Rightarrow> 8 word mat \<Rightarrow> rat" where
  "match_score cell t = of_nat (np_sum (map2 (map2 pixel_eq) cell t)) / of_nat (np_size cell) * 100"

definition classify_step :: "string \<Rightarrow> rat \<times> string \<Rightarrow> nat \<times> rat \<Rightarrow> rat \<times> string" where
  "classify_step cm best is = (case is of (i, s) \<Rightarrow> if fst best < s then (s, [cm ! i]) else best)"

definition best_score :: "rat list \<Rightarrow> rat" where
  "best_score ss = Max (insert 0 (set ss))"

definition classify_spec :: "string \<Rightarrow> rat list \<Rightarrow> rat \<times> string" where
  "classify_spec cm ss =
     (let m = best_score ss in
      if m = 0 then (0, [])
      else (case find (\<lambda>i. ss ! i = m) [0..<length ss] of
              None \<Rightarrow> (0, [])
            | Some i \<Rightarrow> (m, [cm ! i])))"

section \<open>Scores of arrays of one shape\<close>

lemma calculate_match_percentage_same_shape:
  "dims cell r c \<Longrightarrow> dims t r c \<Longrightarrow> 0 < r \<Longrightarrow>
   calculate_match_percentage cell t l = (Inr (match_score cell t), l)"
  by (simp add: calculate_match_percentage_def match_score_def np_eq_same_shape pyst_simps Let_def)

lemma row_pixels_eq:
  "length a = length b \<Longrightarrow> list_all (\<lambda>x. x) (map2 pixel_eq a b) \<longleftrightarrow> a = map uint b"
proof (induction a arbitrary: b)
  case Nil
  then show ?case by simp
next
  case (Cons x a)
  then obtain y b' where "b = y # b'" by (cases b) auto
  with Cons show ?case by (auto simp: pixel_eq_def)
qed

lemma all_pixels_eq:
  "dims A r c \<Longrightarrow> dims B r c \<Longrightarrow>
   list_all (list_all (\<lambda>b. b)) (map2 (map2 pixel_eq) A B) \<longleftrightarrow> A = map (map uint) B"
proof (induction A arbitrary: B r)
  case Nil
  then show ?case by (simp add: dims_def)
next
  case (Cons a A)
  then obtain b B' r' where B: "B = b # B'" and r: "r = Suc r'" by (cases B) (auto simp: dims_def)
  with Cons.prems have "dims A r' c" "dims B' r' c" "length a = c" "length b = c"
    by (auto simp: dims_def)
  with Cons.IH B show ?case by (simp add: row_pixels_eq)
qed

lemma no_pixel_eq:
  "dims A r c \<Longrightarrow> dims B r c \<Longrightarrow>
   list_all (list_all Not) (map2 (map2 pixel_eq) A B) \<longleftrightarrow> (\<forall>y<r. \<forall>x<c. A ! y ! x \<noteq> uint (B ! y ! x))"
  by (auto simp: dims_def list_all_length pixel_eq_def)

lemma match_score_eq:
  "dims cell r c \<Longrightarrow> 0 < r \<Longrightarrow>
   match_score cell t = of_nat (np_sum (map2 (map2 pixel_eq) cell t)) / of_nat (r * c) * 100"
  by (simp add: match_score_def np_size_dims del: of_nat_mult)

lemma match_score_bounds:
  assumes "dims cell r c" "dims t r c" "0 < r" "0 < c"
  shows "0 \<le> match_score cell t \<and> match_score cell t \<le> 100"
proof -
  have "np_sum (map2 (map2 pixel_eq) cell t) \<le> r * c"
    using assms by (simp add: np_sum_le dims_map2)
  then have "of_nat (np_sum (map2 (map2 pixel_eq) cell t)) / of_nat (r * c) * 100 \<le> (100::rat)"
    using assms by (intro pct_le) simp_all
  moreover have "match_score cell t = of_nat (np_sum (map2 (map2 pixel_eq) cell t)) / of_nat (r * c) * 100"
    by (rule match_score_eq [OF assms(1,3)])
  ultimately show ?thesis by (simp only: pct_nonneg)
qed

section \<open>The matching loop against the first-maximum specification\<close>

lemma match_templates_fold:
  assumes "dims cell r c" "0 < r" "list_all (\<lambda>t. dims t r c) ts" "idx + length ts \<le> length cm"
  shows "match_templates cm cell idx ts best l =
         (Inr (foldl (classify_step cm) best (enumerate idx (map (match_score cell) ts))), l)"
  using assms(3,4)
proof (induction ts arbitrary: idx best)
  case Nil
  then show ?case by (simp add: pyst_simps)
next
  case (Cons t ts)
  have "dims t r c" "list_all (\<lambda>t. dims t r c) ts" using Cons.prems by simp_all
  moreover have "idx < length cm" "Suc idx + length ts \<le> length cm" using Cons.prems by simp_all
  ultimately show ?case
    using assms(1,2) Cons.IH
    by (simp add: calculate_match_percentage_same_shape classify_step_def pyst_simps)
qed

lemma best_score_snoc: "best_score (ss @ [x]) = max x (best_score ss)"
proof -
  have "insert 0 (set (ss @ [x])) = insert x (insert 0 (set ss))" by auto
  then show ?thesis by (simp add: best_score_def)
qed

lemma best_score_ge: "s \<in> set ss \<Longrightarrow> s \<le> best_score ss"
  by (simp add: best_score_def)

lemma best_score_nonneg: "0 \<le> best_score ss"
  by (simp add: best_score_def)

lemma best_score_in: "best_score ss \<noteq> 0 \<Longrightarrow> best_score ss \<in> set ss"
  using Max_in [of "insert 0 (set ss)"] by (auto simp: best_score_def)

lemma find_upt_Some:
  "find P [0..<n] = Some i \<longleftrightarrow> i < n \<and> P i \<and> (\<forall>j<i. \<not> P j)"
  by (auto simp: find_Some_iff)

lemma classify_spec_alt:
  "classify_spec cm ss =
     (if best_score ss = 0 then (0, [])
      else case find (\<lambda>i. ss ! i = best_score ss) [0..<length ss] of
             None \<Rightarrow> (0, []) | Some i \<Rightarrow> (best_score ss, [cm ! i]))"
  unfolding classify_spec_def Let_def by simp

lemma classify_spec_found:
  assumes "best_score ss \<noteq> 0"
  obtains i where "find (\<lambda>i. ss ! i = best_score ss) [0..<length ss] = Some i"
    "classify_spec cm ss = (best_score ss, [cm ! i])"
proof -
  from best_score_in [OF assms] obtain k where "k < length ss" "ss ! k = best_score ss"
    by (auto simp: in_set_conv_nth)
  then have "find (\<lambda>i. ss ! i = best_score ss) [0..<length ss] \<noteq> None"
    by (auto simp: find_None_iff)
  then obtain i where "find (\<lambda>i. ss ! i = best_score ss) [0..<length ss] = Some i" by blast
  with assms that show ?thesis by (simp add: classify_spec_alt)
qed

lemma fst_classify_spec: "fst (classify_spec cm ss) = best_score ss"
proof (cases "best_score ss = 0")
  case True
  then show ?thesis by (simp add: classify_spec_alt)
next
  case False
  then show ?thesis by (rule classify_spec_found [of ss cm]) simp
qed

lemma classify_spec_snoc:
  "classify_step cm (classify_spec cm ss) (length ss, x) = classify_spec cm (ss @ [x])"
proof (cases "best_score ss < x")
  case True
  let ?P = "\<lambda>i. (ss @ [x]) ! i = best_score (ss @ [x])"
  have b: "best_score (ss @ [x]) = x" using True by (simp add: best_score_snoc)
  have "x \<noteq> 0" using True best_score_nonneg [of ss] by simp
  have "\<forall>j<length ss. ss ! j \<le> best_score ss"
    using best_score_ge nth_mem by blast
  then have "\<forall>j<length ss. \<not> ?P j"
    using True by (auto simp: b nth_append)
  then have "find ?P [0..<Suc (length ss)] = Some (length ss)"
    unfolding find_upt_Some by (simp add: b nth_append)
  with b \<open>x \<noteq> 0\<close> have "classify_spec cm (ss @ [x]) = (x, [cm ! length ss])"
    by (simp add: classify_spec_alt [of cm "ss @ [x]"])
  moreover have "classify_step cm (classify_spec cm ss) (length ss, x) = (x, [cm ! length ss])"
    using True by (simp add: classify_step_def fst_classify_spec)
  ultimately show ?thesis by simp
next
  case False
  have b: "best_score (ss @ [x]) = best_score ss" using False by (simp add: best_score_snoc)
  show ?thesis
  proof (cases "best_score ss = 0")
    case True
    with False b show ?thesis by (simp add: classify_step_def fst_classify_spec classify_spec_alt)
  next
    case nz: False
    then obtain i where f: "find (\<lambda>i. ss ! i = best_score ss) [0..<length ss] = Some i"
      and c: "classify_spec cm ss = (best_score ss, [cm ! i])"
      by (rule classify_spec_found)
    from f have "i < length ss" "ss ! i = best_score ss" "\<forall>j<i. ss ! j \<noteq> best_score ss"
      by (simp_all add: find_upt_Some)
    then have "find (\<lambda>j. (ss @ [x]) ! j = best_score (ss @ [x])) [0..<Suc (length ss)] = Some i"
      unfolding find_upt_Some by (simp add: b nth_append)
    with False c nz b show ?thesis
      by (simp add: classify_step_def classify_spec_alt)
  qed
qed

lemma classify_fold_spec:
  "foldl (classify_step cm) (0, []) (enumerate 0 ss) = classify_spec cm ss"
proof (induction ss rule: rev_induct)
  case Nil
  then show ?case by (simp add: classify_spec_def best_score_def)
next
  case (snoc x ss)
  then show ?case by (simp add: enumerate_append_eq classify_spec_snoc)
qed


lemma classify_spec_first_max:
  assumes "i < length ss" "0 < ss ! i" "\<forall>k<length ss. ss ! k \<le> ss ! i" "\<forall>k<i. ss ! k < ss ! i"
  shows "classify_spec cm ss = (ss ! i, [cm ! i])"
proof -
  have "ss ! i \<in> set ss" using assms(1) by simp
  moreover have "\<forall>s\<in>set ss. s \<le> ss ! i" using assms(3) by (auto simp: in_set_conv_nth)
  ultimately have b: "best_score ss = ss ! i"
    using assms(2) by (auto simp: best_score_def intro!: Max_eqI)
  have "find (\<lambda>j. ss ! j = best_score ss) [0..<length ss] = Some i"
    using assms(1,4) by (auto simp: find_upt_Some b)
  with b assms(2) show ?thesis by (simp add: classify_spec_alt)
qed

lemma match_score_ex1: "match_score [[255, 0]] [[255, 255]] = 50"
  by (simp add: match_score_def np_size_def np_shape_def pixel_eq_def)

lemma match_score_ex2: "match_score [[255, 0]] [[255, 0]] = 100"
  by (simp add: match_score_def np_size_def np_shape_def pixel_eq_def)

lemma match_score_eq_100:
  assumes "dims cell r c" "dims t r c" "0 < r" "0 < c"
  shows "match_score cell t = 100 \<longleftrightarrow> cell = map (map uint) t"
proof -
  have "match_score cell t = of_nat (np_sum (map2 (map2 pixel_eq) cell t)) / of_nat (r * c) * 100"
    by (rule match_score_eq [OF assms(1,3)])
  also have "\<dots> = 100 \<longleftrightarrow> np_sum (map2 (map2 pixel_eq) cell t) = r * c"
    using assms by (intro pct_eq_100) simp
  also have "\<dots> \<longleftrightarrow> cell = map (map uint) t"
    using assms by (simp add: np_sum_full dims_map2 all_pixels_eq)
  finally show ?thesis .
qed

lemma map_map_uint_inj: "map (map uint) t = map (map uint) t' \<Longrightarrow> t = t'"
  for t t' :: "8 word mat"
  by (simp add: inj_map_eq_map inj_on_def word_uint_eq_iff)

lemma match_score_self: "dims t r c \<Longrightarrow> 0 < r \<Longrightarrow> 0 < c \<Longrightarrow> match_score (map (map uint) t) t = 100"
  by (simp add: match_score_eq_100)

lemma match_score_other:
  assumes "dims t r c" "dims t' r c" "0 < r" "0 < c" "t' \<noteq> t"
  shows "match_score (map (map uint) t) t' < 100"
proof -
  have d: "dims (map (map uint) t) r c" using assms(1) by simp
  have "match_score (map (map uint) t) t' \<le> 100" using match_score_bounds [OF d assms(2-4)] by simp
  moreover have "match_score (map (map uint) t) t' \<noteq> 100"
    using match_score_eq_100 [OF d assms(2-4)] assms(5) map_map_uint_inj by metis
  ultimately show ?thesis by simp
qed

section \<open>Properties of the matcher\<close>

text \<open>
  Claim C19 (equivalence).  When every template has the shape of the cell and
  \<^verbatim>\<open>char_map\<close> has a label for every template, the matching loop of \<^verbatim>\<open>solve\<close>
  computes the reference classification: the first template of maximal score,
  or no label at all when no template scores above 0.
\<close>

theorem match_templates_first_max:
  assumes "dims cell r c" "0 < r" "list_all (\<lambda>t. dims t r c) ts" "length ts \<le> length cm"
  shows "match_templates cm cell 0 ts (0, []) l = (Inr (classify_spec cm (map (match_score cell) ts)), l)"
  using match_templates_fold [OF assms(1-3), of 0 cm] assms(4) by (simp add: classify_fold_spec)

theorem match_templates_first_max_witness:
  "dims [[255::int, 0]] 1 2 \<and> list_all (\<lambda>t. dims t 1 2) [[[255::8 word, 255]], [[255, 0]]]
   \<and> match_templates ''AB'' [[255, 0]] 0 [[[255, 255]], [[255, 0]]] (0, []) []
       = (Inr (classify_spec ''AB'' (map (match_score [[255, 0]]) [[[255, 255]], [[255, 0]]])), [])"
  using match_templates_first_max [of "[[255::int, 0]]" 1 2 "[[[255::8 word, 255]], [[255, 0]]]" "''AB''" "[]"]
  by (simp add: dims_def)

text \<open>
  Claim C20 (functional, tie-break).  If template \<open>i\<close> reaches the top score,
  that score is positive, and every earlier template scores strictly less, the
  loop returns template \<open>i\<close>'s score and label, whatever later templates tie with it.
\<close>

theorem match_templates_tie_first:
  assumes "dims cell r c" "0 < r" "list_all (\<lambda>t. dims t r c) ts" "length ts \<le> length cm"
    and "i < length ts" "0 < match_score cell (ts ! i)"
    and "\<forall>k<length ts. match_score cell (ts ! k) \<le> match_score cell (ts ! i)"
    and "\<forall>k<i. match_score cell (ts ! k) < match_score cell (ts ! i)"
  shows "match_templates cm cell 0 ts (0, []) l = (Inr (match_score cell (ts ! i), [cm ! i]), l)"
proof -
  have "classify_spec cm (map (match_score cell) ts) = (map (match_score cell) ts ! i, [cm ! i])"
    by (rule classify_spec_first_max) (use assms(5-8) in simp_all)
  with match_templates_fold [OF assms(1-3), of 0 cm] assms(4,5) show ?thesis
    by (simp add: classify_fold_spec)
qed

theorem match_templates_tie_first_witness:
  "match_templates ''ABC'' [[255, 0]] 0 [[[255, 255]], [[255, 0]], [[255, 0]]] (0, []) []
     = (Inr (100, ''B''), [])"
proof -
  have "match_templates ''ABC'' [[255, 0]] 0 [[[255, 255]], [[255, 0]], [[255, 0]]] (0, []) []
     = (Inr (match_score [[255, 0]] ([[[255, 255]], [[255, 0]], [[255, 0]]] ! 1), [''ABC'' ! 1]), [])"
    by (rule match_templates_tie_first [of _ 1 2])
       (simp_all add: dims_def match_score_ex1 match_score_ex2 less_Suc_eq nth_Cons')
  then show ?thesis by (simp add: match_score_ex2)
qed

text \<open>
  Claim C21 (functional and bounds).  For a cell and a template of one non-empty
  shape \<open>r \<times> c\<close>, \<^verbatim>\<open>_calculate_match_percentage\<close> returns without raising or logging,
  and its confidence is the number of pixel positions at which the cell equals the
  template, divided by \<open>r * c\<close>, times 100; it lies in \<open>[0, 100]\<close>.
\<close>

theorem calculate_match_percentage_exact:
  assumes "dims cell r c" "dims t r c" "0 < r" "0 < c"
  shows "\<exists>p. calculate_match_percentage cell t l = (Inr p, l)
           \<and> p = of_nat (card {(i, j). i < r \<and> j < c \<and> cell ! i ! j = uint (t ! i ! j)}) / of_nat (r * c) * 100
           \<and> 0 \<le> p \<and> p \<le> 100"
  using calculate_match_percentage_same_shape [OF assms(1-3)] match_score_bounds [OF assms]
        match_score_eq [OF assms(1,3)] np_sum_map2_card [OF assms(1,2), of pixel_eq]
  by (simp add: pixel_eq_def)

theorem calculate_match_percentage_exact_witness:
  "calculate_match_percentage [[255, 0]] [[255, 255]] [] = (Inr 50, [])"
proof -
  have "card {(i, j). i < (1::nat) \<and> j < (2::nat) \<and> [[255::int, 0]] ! i ! j = uint ([[255::8 word, 255]] ! i ! j)} = 1"
  proof -
    have "{(i, j). i < (1::nat) \<and> j < (2::nat) \<and> [[255::int, 0]] ! i ! j = uint ([[255::8 word, 255]] ! i ! j)} = {(0, 0)}"
      by (auto simp: less_2_cases_iff)
    then show ?thesis by simp
  qed
  then show ?thesis
    using calculate_match_percentage_exact [of "[[255, 0]]" 1 2 "[[255, 255]]" "[]"] by (simp add: dims_def)
qed
text \<open>
  Claim C22 (functional).  On one shape the confidence is 100 exactly when the
  cell is pixel-identical to the template.
\<close>

theorem match_score_100_iff:
  assumes "dims cell r c" "dims t r c" "0 < r" "0 < c"
  shows "match_score cell t = 100 \<longleftrightarrow> cell = map (map uint) t"
  using assms by (rule match_score_eq_100)

theorem match_score_100_iff_witness:
  "match_score [[255, 0]] [[255, 0]] = 100 \<and> match_score [[255, 0]] [[255, 255]] \<noteq> 100"
  using match_score_100_iff [of "[[255, 0]]" 1 2 "[[255, 0]]"]
        match_score_100_iff [of "[[255, 0]]" 1 2 "[[255, 255]]"]
  by (simp add: dims_def)

text \<open>
  Claim C23 (functional).  On one shape the confidence is 0 exactly when no
  pixel of the cell equals the template's pixel at the same position.
\<close>

theorem match_score_0_iff:
  assumes "dims cell r c" "dims t r c" "0 < r" "0 < c"
  shows "match_score cell t = 0 \<longleftrightarrow> (\<forall>y<r. \<forall>x<c. cell ! y ! x \<noteq> uint (t ! y ! x))"
proof -
  have "match_score cell t = of_nat (np_sum (map2 (map2 pixel_eq) cell t)) / of_nat (r * c) * 100"
    by (rule match_score_eq [OF assms(1,3)])
  also have "\<dots> = 0 \<longleftrightarrow> np_sum (map2 (map2 pixel_eq) cell t) = 0"
    using assms by (intro pct_eq_0) simp
  also have "\<dots> \<longleftrightarrow> (\<forall>y<r. \<forall>x<c. cell ! y ! x \<noteq> uint (t ! y ! x))"
    using assms by (simp add: np_sum_zero no_pixel_eq)
  finally show ?thesis .
qed

theorem match_score_0_iff_witness:
  "match_score [[255, 0]] [[0, 255]] = 0"
  using match_score_0_iff [of "[[255, 0]]" 1 2 "[[0, 255]]"]
  by (simp add: dims_def less_Suc_eq nth_Cons')

text \<open>
  Claim C24 (error).  A 20 \<open>\<times>\<close> 10 cell, as \<^verbatim>\<open>_extract_character\<close> cuts it,
  compared with a 10 \<open>\<times>\<close> 8 template, as \<^verbatim>\<open>_load_test_set\<close> builds it, makes numpy
  raise \<^verbatim>\<open>ValueError\<close> (shapes cannot be broadcast); the method logs it and re-raises.
\<close>

theorem calculate_match_percentage_shape_mismatch:
  assumes "dims cell 20 10" "dims t 10 8"
  shows "calculate_match_percentage cell t l =
           (Inl (BroadcastError (20, 10) (10, 8)), l @ [(ERROR, MsgMatchError (BroadcastError (20, 10) (10, 8)))])"
proof -
  have "np_eq pixel_eq cell t = Inl (BroadcastError (20, 10) (10, 8))"
    using assms by (intro np_eq_mismatch) (simp_all add: np_shape_dims bdim_def)
  then show ?thesis by (simp add: calculate_match_percentage_def pyst_simps)
qed

theorem calculate_match_percentage_shape_mismatch_witness:
  "calculate_match_percentage (replicate 20 (replicate 10 0)) template_0 [] =
     (Inl (BroadcastError (20, 10) (10, 8)), [(ERROR, MsgMatchError (BroadcastError (20, 10) (10, 8)))])"
proof -
  have d: "dims (replicate 20 (replicate 10 (0::int))) 20 10"
    by (simp add: dims_def list_all_iff)
  show ?thesis
    using calculate_match_percentage_shape_mismatch [OF d dims_template_0, of "[]"] by simp
qed

end
