(* ===== verification/Preprocess.thy ===== *)
theory Preprocess
  imports Numpy
begin

text \<open>
  \<^verbatim>\<open>CaptchaSolver._preprocess_image\<close> (\<^verbatim>\<open>src/scraper-script.py\<close>, lines 52--63).  The
  imaging library PIL is an external collaborator: \<open>pil_backend\<close> holds what it
  computes and the script does not, namely \<open>pil_decode\<close> (\<^verbatim>\<open>Image.open\<close> of a present
  file's bytes followed by \<^verbatim>\<open>convert('L')\<close>, which loads the data: the image, or the
  exception PIL raises, \<^verbatim>\<open>UnidentifiedImageError\<close> for an unknown format, an
  \<^verbatim>\<open>OSError\<close> for truncated data, or any other) and \<open>pil_resample\<close> (the value of
  the target pixel \<open>(x, y)\<close> when an image is resized to \<open>w \<times> h\<close>, whatever the
  resampling filter).  What Python and PIL guarantee and the script relies on is
  modelled exactly: a missing file raises \<^verbatim>\<open>FileNotFoundError\<close>, the resized image has
  the requested size, and \<^verbatim>\<open>np.array\<close> of an L image is its \<open>h \<times> w\<close> uint8 matrix.
  The threshold and the scaling are numpy's.  The working directory is a map of
  files; a directory in place of the capture is not modelled.
\<close>

record pil_image =
  im_width :: nat
  im_height :: nat
  im_pixels :: "8 word mat"

record pil_backend =
  pil_decode :: "path \<Rightarrow> bytes \<Rightarrow> py_exc + pil_image"
  pil_resample :: "pil_image \<Rightarrow> nat \<Rightarrow> nat \<Rightarrow> nat \<Rightarrow> nat \<Rightarrow> 8 word"

text \<open>\<^verbatim>\<open>Image.open(image_path).convert('L')\<close>\<close>

definition pil_open_L :: "pil_backend \<Rightarrow> fs \<Rightarrow> path \<Rightarrow> py_exc + pil_image" where
  "pil_open_L be fs p =
     (case fs p of
        None \<Rightarrow> Inl (FileNotFoundError p)
      | Some b \<Rightarrow> pil_decode be p b)"

text \<open>\<^verbatim>\<open>img.resize((w, h))\<close>\<close>

definition pil_resize :: "pil_backend \<Rightarrow> pil_image \<Rightarrow> nat \<times> nat \<Rightarrow> pil_image" where
  "pil_resize be img wh =
     (case wh of (w, h) \<Rightarrow>
       \<lparr>im_width = w, im_height = h,
        im_pixels = map (\<lambda>y. map (\<lambda>x. pil_resample be img w h x y) [0..<w]) [0..<h]\<rparr>)"

text \<open>\<^verbatim>\<open>np.array(img)\<close> of a single-channel image\<close>

definition np_array_L :: "pil_image \<Rightarrow> 8 word mat" where
  "np_array_L img = im_pixels img"

definition preprocess_image :: "pil_backend \<Rightarrow> fs \<Rightarrow> path \<Rightarrow> (event list, int mat) pyst" where
  "preprocess_image be fs image_path =
     catch_log_raise (\<lambda>e. emit ERROR (MsgPreprocessError e))
       (pbind (lift_sum (pil_open_L be fs image_path)) (\<lambda>img.
          let img = pil_resize be img (70, 20);
              matrix = np_array_L img;
              matrix = np_bool_mul (np_gt matrix 128) 255
          in ret matrix))"

text \<open>The normalized matrix of a decoded image, as a pure function.\<close>

definition normalized :: "pil_backend \<Rightarrow> pil_image \<Rightarrow> int mat" where
  "normalized be img = np_bool_mul (np_gt (np_array_L (pil_resize be img (70, 20))) 128) 255"

text \<open>A backend for concrete runs: every non-empty byte string decodes to a one-pixel
  image of luminance \<open>v\<close>, the empty one is no image, and resizing repeats the pixel.\<close>

definition be_grey :: "8 word \<Rightarrow> pil_backend" where
  "be_grey v = \<lparr>pil_decode = (\<lambda>p b. if b = [] then Inl (UnidentifiedImageError p)
                                        else Inr \<lparr>im_width = 1, im_height = 1, im_pixels = [[v]]\<rparr>),
                pil_resample = (\<lambda>img w h x y. hd (hd (im_pixels img)))\<rparr>"

lemma preprocess_image_cases:
  "preprocess_image be fs p l =
     (case pil_open_L be fs p of
        Inl e \<Rightarrow> (Inl e, l @ [(ERROR, MsgPreprocessError e)])
      | Inr img \<Rightarrow> (Inr (normalized be img), l))"
  by (simp add: preprocess_image_def normalized_def pyst_simps split: sum.splits)

lemma dims_normalized: "dims (normalized be img) 20 70"
  by (simp add: normalized_def np_bool_mul_def np_gt_def np_array_L_def pil_resize_def
      dims_def list_all_length)

lemma normalized_binary:
  "list_all (list_all (\<lambda>x. x = 0 \<or> x = 255)) (normalized be img)"
  by (simp add: normalized_def np_bool_mul_values)

lemma normalized_nth:
  "y < 20 \<Longrightarrow> x < 70 \<Longrightarrow>
   normalized be img ! y ! x = (if 128 < uint (pil_resample be img 70 20 x y) then 255 else 0)"
  unfolding normalized_def np_bool_mul_def np_gt_def np_array_L_def pil_resize_def
  by (simp only: nth_map length_map length_upt nth_upt prod.case pil_image.simps) simp

section \<open>Properties of the preprocessor\<close>

text \<open>
  Claim C25 (type).  Whenever \<^verbatim>\<open>_preprocess_image\<close> returns, it has logged nothing
  and its matrix is 20 rows of 70 pixels, each 0 or 255, whatever PIL decoded.
\<close>

theorem preprocess_image_normalized:
  assumes "preprocess_image be fs p l = (Inr m, l')"
  shows "l' = l \<and> dims m 20 70 \<and> list_all (list_all (\<lambda>x. x = 0 \<or> x = 255)) m"
  using assms dims_normalized normalized_binary
  by (auto simp: preprocess_image_cases split: sum.splits)

theorem preprocess_image_normalized_witness:
  "preprocess_image (be_grey 7) [''c.png'' \<mapsto> [1]] ''c.png'' [] =
     (Inr (normalized (be_grey 7) \<lparr>im_width = 1, im_height = 1, im_pixels = [[7]]\<rparr>), []) \<and>
   dims (normalized (be_grey 7) \<lparr>im_width = 1, im_height = 1, im_pixels = [[7]]\<rparr>) 20 70"
proof -
  have h: "preprocess_image (be_grey 7) [''c.png'' \<mapsto> [1]] ''c.png'' [] =
     (Inr (normalized (be_grey 7) \<lparr>im_width = 1, im_height = 1, im_pixels = [[7]]\<rparr>), [])"
    by (simp add: preprocess_image_cases pil_open_L_def be_grey_def)
  show ?thesis using preprocess_image_normalized [OF h] h by blast
qed

text \<open>
  Claim C26 (functional).  Binarization: the normalized pixel is 255 when the
  resized luminance is strictly above 128 and 0 otherwise (128 itself maps to 0).
\<close>

theorem preprocess_image_threshold:
  assumes "fs p = Some b" "pil_decode be p b = Inr img" "y < 20" "x < 70"
  shows "\<exists>m. preprocess_image be fs p l = (Inr m, l) \<and>
             m ! y ! x = (if 128 < uint (pil_resample be img 70 20 x y) then 255 else 0)"
  using assms normalized_nth [OF assms(3,4)]
  by (simp add: preprocess_image_cases pil_open_L_def)

theorem preprocess_image_threshold_witness:
  "\<exists>m. preprocess_image (be_grey 128) [''c.png'' \<mapsto> [1]] ''c.png'' [] = (Inr m, []) \<and> m ! 0 ! 0 = 0"
  using preprocess_image_threshold [of "[''c.png'' \<mapsto> [1]]" "''c.png''" "[1]" "be_grey 128"
          "\<lparr>im_width = 1, im_height = 1, im_pixels = [[128]]\<rparr>" 0 0 "[]"]
  by (simp add: be_grey_def)

end
