(* ===== verification/Segment.thy ===== *)
theory Segment
  imports Numpy
begin

text \<open>
  \<^verbatim>\<open>CaptchaSolver._extract_character\<close> (\<^verbatim>\<open>src/scraper-script.py\<close>, lines 65--73):
  the cell at \<open>position\<close> is the column slice \<^verbatim>\<open>matrix[:, 10p : 10p + 10]\<close>.  numpy
  slicing clips at the border and never raises, so the \<^verbatim>\<open>except\<close> branch of the
  source is unreachable and the model is a pure function.
\<close>

definition extract_character :: "'a mat \<Rightarrow> nat \<Rightarrow> 'a mat" where
  "extract_character matrix position =
     (let start_x = position * 10 in np_cols matrix start_x (start_x + 10))"

lemma extract_character_row:
  "y < length m \<Longrightarrow> extract_character m p ! y = take 10 (drop (p * 10) (m ! y))"
  by (simp add: extract_character_def np_cols_def)

lemma dims_extract_character:
  "dims m r 70 \<Longrightarrow> position \<le> 6 \<Longrightarrow> dims (extract_character m position) r 10"
  using dims_np_cols [of m r 70 "position * 10 + 10" "position * 10"]
  by (simp add: extract_character_def Let_def)

section \<open>Properties of the segmenter\<close>

text \<open>
  Claim C27 (functional).  On a matrix of width 70, every position 0..6 gives a
  cell of the full height and width 10 whose pixel \<open>(y, x)\<close> is the matrix pixel
  \<open>(y, 10 \<cdot> position + x)\<close>.
\<close>

theorem extract_character_cells:
  assumes "dims m r 70" "position \<le> 6"
  shows "dims (extract_character m position) r 10 \<and>
         (\<forall>y<r. \<forall>x<10. extract_character m position ! y ! x = m ! y ! (position * 10 + x))"
proof -
  have "\<forall>y<r. length (m ! y) = 70" using assms(1) by (simp add: dims_nth)
  moreover have "length m = r" using assms(1) by (simp add: dims_def list_all_iff)
  ultimately have "\<forall>y<r. \<forall>x<10. extract_character m position ! y ! x = m ! y ! (position * 10 + x)"
    using assms(2) by (simp add: extract_character_row)
  with dims_extract_character [OF assms] show ?thesis by simp
qed

theorem extract_character_cells_witness:
  "extract_character (replicate 2 [0..<70]) 3 ! 1 ! 4 = (34::nat)"
  using extract_character_cells [of "replicate 2 [0..<70]" 2 3]
  by (simp add: dims_def list_all_iff)

text \<open>
  Claim C28 (roundtrip).  The seven cells of a row, joined left to right, give
  the row back: the segmentation loses and duplicates no column.
\<close>

theorem extract_character_roundtrip:
  assumes "dims m r 70" "y < r"
  shows "concat (map (\<lambda>p. extract_character m p ! y) [0..<7]) = m ! y"
proof -
  have "length m = r" "length (m ! y) = 70" using assms by (simp_all add: dims_def dims_nth)
  then have "map (\<lambda>p. extract_character m p ! y) [0..<7] = map (\<lambda>p. take 10 (drop (p * 10) (m ! y))) [0..<7]"
    using assms(2) by (simp add: extract_character_row)
  also have "concat \<dots> = take (7 * 10) (m ! y)" by (rule concat_slices)
  finally show ?thesis using \<open>length (m ! y) = 70\<close> by simp
qed

theorem extract_character_roundtrip_witness:
  "concat (map (\<lambda>p. extract_character (replicate 2 [0..<70]) p ! 1) [0..<7]) = [0..<70]"
  using extract_character_roundtrip [of "replicate 2 [0..<70]" 2 1]
  by (simp add: dims_def list_all_iff)

text \<open>
  Claim C37 (error path).  A position beyond the last cell does not raise: numpy
  clips the slice and the cell has no columns at all.
\<close>

theorem extract_character_out_of_range:
  assumes "dims m r 70" "7 \<le> position"
  shows "extract_character m position = replicate r []"
proof -
  have "length m = r" "\<forall>row\<in>set m. length row = 70" using assms(1) by (simp_all add: dims_def list_all_iff)
  with assms(2) show ?thesis
    by (simp add: extract_character_def np_cols_def map_replicate_const cong: map_cong)
qed

theorem extract_character_out_of_range_witness:
  "extract_character (replicate 20 (replicate 70 (0::int))) 7 = replicate 20 []"
  using extract_character_out_of_range [of "replicate 20 (replicate 70 (0::int))" 20 7]
  by (simp add: dims_def list_all_iff)

end
