(* ===== verification/Solver.thy ===== *)
theory Solver
  imports Matcher Preprocess Segment
begin

text \<open>
  \<^verbatim>\<open>CaptchaSolver.solve\<close> (\<^verbatim>\<open>src/scraper-script.py\<close>, lines 85--110): preprocess the
  captured image once, then for the positions 0..5 cut the cell, run the
  template loop of \<^theory_text>\<open>Matcher\<close>, log a warning when the best score is below 50,
  and append the winning label (\<^verbatim>\<open>''\<close> when no template scored above 0); any
  exception is logged and re-raised.  \<open>solve_positions\<close> is the \<^verbatim>\<open>for i in range(6)\<close>
  loop over the list of positions, the log being the state.
\<close>

fun solve_positions :: "captcha_solver \<Rightarrow> int mat \<Rightarrow> nat list \<Rightarrow> (event list, string list) pyst" where
  "solve_positions s matrix [] = ret []"
| "solve_positions s matrix (i # is) =
     (let char_matrix = extract_character matrix i in
      pbind (match_templates (char_map s) char_matrix 0 (test_set s) (0, [])) (\<lambda>(best_match, best_char).
      pbind (if best_match < 50 then emit WARNING (MsgLowConfidence i) else ret ()) (\<lambda>_.
      pbind (solve_positions s matrix is) (\<lambda>result. ret (best_char # result)))))"

definition solve :: "pil_backend \<Rightarrow> captcha_solver \<Rightarrow> fs \<Rightarrow> path \<Rightarrow> (event list, string) pyst" where
  "solve be s fs captcha_path =
     catch_log_raise (\<lambda>e. emit ERROR (MsgSolveError e))
       (pbind (preprocess_image be fs captcha_path) (\<lambda>matrix.
          pbind (solve_positions s matrix [0..<6]) (\<lambda>result. ret (concat result))))"

text \<open>
  The reference for one position: the first template of maximal score and that
  score (\<open>(0, [])\<close> when every score is 0), and the warnings the loop should log.
\<close>

definition cell_classify :: "captcha_solver \<Rightarrow> int mat \<Rightarrow> nat \<Rightarrow> rat \<times> string" where
  "cell_classify s m i = classify_spec (char_map s) (map (match_score (extract_character m i)) (test_set s))"

definition low_confidence_warnings :: "captcha_solver \<Rightarrow> int mat \<Rightarrow> nat list \<Rightarrow> event list" where
  "low_confidence_warnings s m ps =
     concat (map (\<lambda>i. if fst (cell_classify s m i) < 50 then [(WARNING, MsgLowConfidence i)] else []) ps)"

lemma solve_cases:
  "solve be s fs p l =
     (case pil_open_L be fs p of
        Inl e \<Rightarrow> (Inl e, l @ [(ERROR, MsgPreprocessError e), (ERROR, MsgSolveError e)])
      | Inr img \<Rightarrow>
          (case solve_positions s (normalized be img) [0..<6] l of
             (Inl e, l') \<Rightarrow> (Inl e, l' @ [(ERROR, MsgSolveError e)])
           | (Inr r, l') \<Rightarrow> (Inr (concat r), l')))"
  by (simp add: solve_def preprocess_image_cases pyst_simps split: sum.splits prod.splits)

lemma match_templates_shipped:
  "dims cell 20 10 \<Longrightarrow>
   match_templates cm cell 0 load_test_set best l =
     (Inl (BroadcastError (20, 10) (10, 8)), l @ [(ERROR, MsgMatchError (BroadcastError (20, 10) (10, 8)))])"
proof -
  assume "dims cell 20 10"
  then have "np_eq pixel_eq cell template_0 = Inl (BroadcastError (20, 10) (10, 8))"
    using dims_template_0 by (intro np_eq_mismatch) (simp_all add: np_shape_dims bdim_def)
  then show ?thesis
    by (simp add: load_test_set_def calculate_match_percentage_def pyst_simps)
qed

lemma solve_positions_shipped:
  "dims m 20 70 \<Longrightarrow> i \<le> 6 \<Longrightarrow>
   solve_positions captcha_solver_init m (i # ps) l =
     (Inl (BroadcastError (20, 10) (10, 8)), l @ [(ERROR, MsgMatchError (BroadcastError (20, 10) (10, 8)))])"
  by (simp add: captcha_solver_init_def match_templates_shipped dims_extract_character Let_def)

lemma solve_positions_empty_library:
  "solve_positions \<lparr>test_set = [], char_map = cm\<rparr> m ps l =
     (Inr (map (\<lambda>_. []) ps), l @ map (\<lambda>i. (WARNING, MsgLowConfidence i)) ps)"
  by (induction ps arbitrary: l) (simp_all add: pyst_simps Let_def)

lemma upt_0_6: "[0..<6] = 0 # [1..<6]"
  by (simp add: upt_rec)

lemma solve_positions_shipped_6:
  "solve_positions captcha_solver_init (normalized be img) [0..<6] l =
     (Inl (BroadcastError (20, 10) (10, 8)), l @ [(ERROR, MsgMatchError (BroadcastError (20, 10) (10, 8)))])"
  unfolding upt_0_6 by (rule solve_positions_shipped [OF dims_normalized]) simp

lemma solve_shipped_raises:
  "\<exists>e. fst (solve be captcha_solver_init fs p l) = Inl e"
proof (cases "pil_open_L be fs p")
  case (Inl e)
  then show ?thesis by (simp add: solve_cases)
next
  case (Inr img)
  note solve_positions_shipped_6 [of be img l]
  with Inr show ?thesis by (simp add: solve_cases del: solve_positions.simps)
qed

lemma solve_shipped_decoded:
  "fs p = Some b \<Longrightarrow> pil_decode be p b = Inr img \<Longrightarrow>
   solve be captcha_solver_init fs p l =
     (Inl (BroadcastError (20, 10) (10, 8)),
      l @ [(ERROR, MsgMatchError (BroadcastError (20, 10) (10, 8))), (ERROR, MsgSolveError (BroadcastError (20, 10) (10, 8)))])"
proof -
  assume "fs p = Some b" "pil_decode be p b = Inr img"
  then have o: "pil_open_L be fs p = Inr img" by (simp add: pil_open_L_def)
  note solve_positions_shipped_6 [of be img l]
  with o show ?thesis by (simp add: solve_cases del: solve_positions.simps)
qed

lemma solve_empty_decoded:
  "fs p = Some b \<Longrightarrow> pil_decode be p b = Inr img \<Longrightarrow>
   solve be \<lparr>test_set = [], char_map = cm\<rparr> fs p l = (Inr [], l @ map (\<lambda>i. (WARNING, MsgLowConfidence i)) [0..<6])"
  by (simp add: solve_cases pil_open_L_def solve_positions_empty_library)

lemma match_templates_exact:
  assumes ts: "list_all (\<lambda>t. dims t r c) ts" "distinct ts" "length ts \<le> length cm"
    and rc: "0 < r" "0 < c" and k: "k < length ts"
  shows "match_templates cm (map (map uint) (ts ! k)) 0 ts (0, []) l = (Inr (100, [cm ! k]), l)"
proof -
  have dk: "dims (ts ! k) r c" using ts(1) k by (simp add: list_all_length)
  then have dc: "dims (map (map uint) (ts ! k)) r c" by simp
  let ?ss = "map (match_score (map (map uint) (ts ! k))) ts"
  have sk: "?ss ! k = 100" using k dk rc by (simp add: match_score_self)
  have le: "\<forall>j<length ?ss. ?ss ! j \<le> ?ss ! k"
  proof (intro allI impI)
    fix j assume "j < length ?ss"
    then have j: "j < length ts" by simp
    have "dims (ts ! j) r c" using ts(1) j by (simp add: list_all_length)
    then show "?ss ! j \<le> ?ss ! k" using j sk match_score_bounds [OF dc _ rc] by simp
  qed
  have lt: "\<forall>j<k. ?ss ! j < ?ss ! k"
  proof (intro allI impI)
    fix j assume j: "j < k"
    have "ts ! j \<noteq> ts ! k" using ts(2) j k by (simp add: nth_eq_iff_index_eq)
    moreover have "dims (ts ! j) r c" using ts(1) j k by (simp add: list_all_length)
    ultimately show "?ss ! j < ?ss ! k" using j k sk match_score_other [OF dk _ rc] by simp
  qed
  have "classify_spec cm ?ss = (?ss ! k, [cm ! k])"
    by (rule classify_spec_first_max) (use k sk le lt in simp_all)
  with match_templates_fold [OF dc rc(1) ts(1), of 0 cm "(0, [])" l] ts(3) sk show ?thesis
    by (simp add: classify_fold_spec)
qed

lemma solve_positions_exact:
  assumes ts: "list_all (\<lambda>t. dims t 20 10) (test_set s)" "distinct (test_set s)"
      "length (test_set s) \<le> length (char_map s)"
    and cells: "\<forall>i\<in>set ps. k i < length (test_set s) \<and>
                   extract_character m i = map (map uint) (test_set s ! k i)"
  shows "solve_positions s m ps l = (Inr (map (\<lambda>i. [char_map s ! k i]) ps), l)"
  using cells
proof (induction ps)
  case Nil
  then show ?case by (simp add: pyst_simps)
next
  case (Cons i ps)
  then have "match_templates (char_map s) (extract_character m i) 0 (test_set s) (0, []) l =
               (Inr (100, [char_map s ! k i]), l)"
    using match_templates_exact [OF ts, of "k i" l] by simp
  with Cons show ?case by (simp add: pyst_simps Let_def)
qed

lemma normalized_grey:
  "normalized (be_grey v) img =
     replicate 20 (replicate 70 (if 128 < uint (hd (hd (im_pixels img))) then 255 else 0))"
  by (simp add: normalized_def np_bool_mul_def np_gt_def np_array_L_def pil_resize_def be_grey_def
      map_replicate_const)

lemma extract_character_replicate:
  "i < 7 \<Longrightarrow> extract_character (replicate r (replicate 70 x)) i = replicate r (replicate 10 x)"
  by (simp add: extract_character_def np_cols_def)

lemma solve_positions_spec:
  assumes "dims m 20 70" "list_all (\<lambda>t. dims t 20 10) (test_set s)" "length (test_set s) \<le> length (char_map s)"
  shows "\<forall>i\<in>set ps. i \<le> 6 \<Longrightarrow>
         solve_positions s m ps l = (Inr (map (\<lambda>i. snd (cell_classify s m i)) ps), l @ low_confidence_warnings s m ps)"
proof (induction ps arbitrary: l)
  case Nil
  then show ?case by (simp add: pyst_simps low_confidence_warnings_def)
next
  case (Cons i ps)
  have "match_templates (char_map s) (extract_character m i) 0 (test_set s) (0, []) l =
          (Inr (cell_classify s m i), l)"
    using match_templates_fold [OF dims_extract_character [OF assms(1)] _ assms(2), of i 0 "char_map s" "(0, [])" l]
          Cons.prems assms(3)
    by (simp add: cell_classify_def classify_fold_spec)
  with Cons show ?case
    by (cases "cell_classify s m i") (simp add: pyst_simps Let_def low_confidence_warnings_def)
qed

lemma length_filter_replicate: "length (filter P (replicate n x)) = (if P x then n else 0)"
  by (induction n) simp_all

lemma match_score_uniform:
  "match_score (replicate 20 (replicate 10 255)) (replicate 20 (replicate 10 x)) = (if x = 255 then 100 else 0)"
  using match_score_eq [of "replicate 20 (replicate 10 255)" 20 10 "replicate 20 (replicate 10 x)"]
  by (simp add: dims_def list_all_iff sum_list_replicate pixel_eq_def np_sum_def length_filter_replicate word_uint_eq_iff)

section \<open>Properties of the solver\<close>

text \<open>
  Claim C2 (error, a defect of the code).  With the library the script ships,
  \<^verbatim>\<open>solve\<close> never returns: it raises the preprocessing error when the capture is
  missing or undecodable, and numpy's broadcast \<^verbatim>\<open>ValueError\<close> otherwise, since the
  first 20 \<open>\<times>\<close> 10 cell is compared with the 10 \<open>\<times>\<close> 8 template.
\<close>

theorem solve_shipped_library_raises:
  "fst (solve be captcha_solver_init fs p l) =
     Inl (case pil_open_L be fs p of Inl e \<Rightarrow> e | Inr _ \<Rightarrow> BroadcastError (20, 10) (10, 8))"
proof (cases "pil_open_L be fs p")
  case (Inl e)
  then show ?thesis by (simp add: solve_cases)
next
  case (Inr img)
  note solve_positions_shipped_6 [of be img l]
  with Inr show ?thesis by (simp add: solve_cases del: solve_positions.simps)
qed

text \<open>
  Claim C30 (functional, divergence from the spec).  An empty template library
  raises no configuration error: \<^verbatim>\<open>solve\<close> reads and decodes the image, logs a
  low-confidence warning for each of the six positions and returns the empty string.
\<close>

theorem solve_empty_library:
  assumes "pil_open_L be fs p = Inr img"
  shows "solve be \<lparr>test_set = [], char_map = cm\<rparr> fs p l =
           (Inr [], l @ map (\<lambda>i. (WARNING, MsgLowConfidence i)) [0..<6])"
  using assms by (simp add: solve_cases solve_positions_empty_library)

theorem solve_empty_library_witness:
  "solve (be_grey 7) \<lparr>test_set = [], char_map = char_map_default\<rparr> [''c.png'' \<mapsto> [1]] ''c.png'' [] =
     (Inr [], map (\<lambda>i. (WARNING, MsgLowConfidence i)) [0..<6])"
  using solve_empty_library [of "be_grey 7" "[''c.png'' \<mapsto> [1]]" "''c.png''"
          "\<lparr>im_width = 1, im_height = 1, im_pixels = [[7]]\<rparr>" char_map_default "[]"]
  by (simp add: pil_open_L_def be_grey_def)

text \<open>
  Claim C31 (equivalence).  For any library of 20 \<open>\<times>\<close> 10 templates, each labelled,
  and a capture that opens, \<^verbatim>\<open>solve\<close> computes its specification: position by
  position, the label of the first template of maximal score (nothing when every score
  is 0), concatenated in position order, while the log receives a low-confidence
  warning exactly for the positions whose best score is below 50, in position order.
\<close>

theorem solve_classifies:
  assumes "pil_open_L be fs p = Inr img"
    and "list_all (\<lambda>t. dims t 20 10) (test_set s)" "length (test_set s) \<le> length (char_map s)"
  shows "solve be s fs p l =
           (Inr (concat (map (\<lambda>i. snd (cell_classify s (normalized be img) i)) [0..<6])),
            l @ low_confidence_warnings s (normalized be img) [0..<6])"
  using assms(1) solve_positions_spec [OF dims_normalized assms(2,3), where ps = "[0..<6]" and l = l]
  by (simp add: solve_cases del: solve_positions.simps)

theorem solve_classifies_witness:
  "solve (be_grey 200) \<lparr>test_set = [replicate 20 (replicate 10 0), replicate 20 (replicate 10 255)], char_map = ''AB''\<rparr>
     [''c.png'' \<mapsto> [1]] ''c.png'' [] = (Inr ''BBBBBB'', [])"
proof -
  have o: "pil_open_L (be_grey 200) [''c.png'' \<mapsto> [1]] ''c.png'' = Inr \<lparr>im_width = 1, im_height = 1, im_pixels = [[200]]\<rparr>"
    by (simp add: pil_open_L_def be_grey_def)
  have n: "normalized (be_grey 200) \<lparr>im_width = 1, im_height = 1, im_pixels = [[200]]\<rparr> = replicate 20 (replicate 70 255)"
    by (simp add: normalized_grey)
  have c: "cell_classify \<lparr>test_set = [replicate 20 (replicate 10 0), replicate 20 (replicate 10 255)], char_map = ''AB''\<rparr>
             (replicate 20 (replicate 70 255)) i = (100, ''B'')" if "i < 6" for i
    using that by (simp add: cell_classify_def extract_character_replicate match_score_uniform
                     classify_spec_def best_score_def)
  show ?thesis
    using solve_classifies [OF o, where s = "\<lparr>test_set = [replicate 20 (replicate 10 0), replicate 20 (replicate 10 255)], char_map = ''AB''\<rparr>" and l = "[]"]
    unfolding n by (simp add: dims_def list_all_iff c low_confidence_warnings_def upt_rec)
qed
text \<open>
  Claim C29 (functional, the spec's recognition scenario).  With a library of
  distinct 20 \<open>\<times>\<close> 10 templates, each labelled, if every one of the six cells of the
  decoded image is pixel-identical to some template, \<^verbatim>\<open>solve\<close> returns the labels of
  those templates in position order, six characters, and logs nothing (every
  confidence is 100).
\<close>

theorem solve_exact_match:
  assumes "pil_open_L be fs p = Inr img"
    and "list_all (\<lambda>t. dims t 20 10) (test_set s)" "distinct (test_set s)"
      "length (test_set s) \<le> length (char_map s)"
    and "\<forall>i<6. k i < length (test_set s) \<and>
               extract_character (normalized be img) i = map (map uint) (test_set s ! k i)"
  shows "solve be s fs p l = (Inr (map (\<lambda>i. char_map s ! k i) [0..<6]), l)"
proof -
  have "solve_positions s (normalized be img) [0..<6] l = (Inr (map (\<lambda>i. [char_map s ! k i]) [0..<6]), l)"
    by (rule solve_positions_exact [OF assms(2-4)]) (use assms(5) in auto)
  moreover have "concat (map (\<lambda>i. [char_map s ! k i]) [0..<6]) = map (\<lambda>i. char_map s ! k i) [0..<6]"
    by (induction "[0..<6]") simp_all
  ultimately show ?thesis using assms(1) by (simp add: solve_cases del: solve_positions.simps)
qed

theorem solve_exact_match_witness:
  "solve (be_grey 200) \<lparr>test_set = [replicate 20 (replicate 10 255)], char_map = ''A''\<rparr>
     [''c.png'' \<mapsto> [1]] ''c.png'' [] = (Inr ''AAAAAA'', [])"
proof -
  have o: "pil_open_L (be_grey 200) [''c.png'' \<mapsto> [1]] ''c.png'' = Inr \<lparr>im_width = 1, im_height = 1, im_pixels = [[200]]\<rparr>"
    by (simp add: pil_open_L_def be_grey_def)
  show ?thesis
    using solve_exact_match [where k = "\<lambda>_. 0" and s = "\<lparr>test_set = [replicate 20 (replicate 10 255)], char_map = ''A''\<rparr>"
        and l = "[]", OF o]
    by (simp add: dims_def list_all_iff normalized_grey extract_character_replicate upt_rec)
qed

end
