(* ===== verification/Driver.thy ===== *)
theory Driver
  imports Prelude
begin

text \<open>
  The external collaborators of \<^verbatim>\<open>AUInfoExtractor\<close> (\<^verbatim>\<open>src/scraper-script.py\<close>): the
  selenium web driver and the filesystem.  The driver is an interface: a record
  \<open>'d webdriver\<close> of the calls the script makes, each a statement over the driver's own
  state \<open>'d\<close> that may raise (\<^verbatim>\<open>TimeoutException\<close> from a bounded wait,
  \<^verbatim>\<open>NoSuchElementException\<close>, \<^verbatim>\<open>WebDriverException\<close>).  Elements are handles returned
  by \<^verbatim>\<open>find_element\<close>.  Every theorem about the orchestrator holds for every
  driver, unless it states what the driver does.  The state the script changes is a
  \<open>'d world\<close>: the driver, the filesystem (a map from paths to bytes), the log, and
  what the operating system answers to \<^verbatim>\<open>open(p, 'w')\<close>: \<open>w_open_err\<close> maps a path
  to the \<^verbatim>\<open>OSError\<close> that opening it for writing raises (a missing directory,
  missing permission, a directory of that name), and is \<open>None\<close> where the file can be
  created or truncated.  The script never changes it.
\<close>

datatype locator =
    By_NAME string | By_ID string | By_CLASS_NAME string | By_XPATH string | By_TAG_NAME string

type_synonym elem = "nat list"   \<comment> \<open>a \<^verbatim>\<open>WebElement\<close> handle, named by its position in the page\<close>

record 'd webdriver =
  drv_get :: "string \<Rightarrow> ('d, unit) pyst"                    \<comment> \<open>\<^verbatim>\<open>driver.get(url)\<close>\<close>
  drv_wait_present :: "locator \<Rightarrow> nat \<Rightarrow> ('d, unit) pyst"    \<comment> \<open>\<^verbatim>\<open>WebDriverWait(driver, t).until(presence_of_element_located(loc))\<close>\<close>
  drv_find_element :: "locator \<Rightarrow> ('d, elem) pyst"           \<comment> \<open>\<^verbatim>\<open>driver.find_element(loc)\<close>\<close>
  drv_find_elements_in :: "elem \<Rightarrow> locator \<Rightarrow> ('d, elem list) pyst"  \<comment> \<open>\<^verbatim>\<open>element.find_elements(loc)\<close>\<close>
  drv_text :: "elem \<Rightarrow> ('d, string) pyst"                   \<comment> \<open>\<^verbatim>\<open>element.text\<close>\<close>
  drv_screenshot :: "elem \<Rightarrow> ('d, bytes) pyst"              \<comment> \<open>the PNG bytes \<^verbatim>\<open>element.screenshot\<close> writes\<close>
  drv_send_keys :: "elem \<Rightarrow> string \<Rightarrow> ('d, unit) pyst"      \<comment> \<open>\<^verbatim>\<open>element.send_keys(text)\<close>\<close>
  drv_click :: "elem \<Rightarrow> ('d, unit) pyst"                    \<comment> \<open>\<^verbatim>\<open>element.click()\<close>\<close>
  drv_quit :: "('d, unit) pyst"                             \<comment> \<open>\<^verbatim>\<open>driver.quit()\<close>\<close>

record 'd world =
  w_drv :: 'd
  w_fs :: fs
  w_log :: "event list"
  w_open_err :: "path \<rightharpoonup> py_exc"

text \<open>Running a driver call, a logging statement, or a computation that reads the
  filesystem and writes the log (the captcha solver) inside the world.\<close>

definition on_drv :: "('d, 'a) pyst \<Rightarrow> (('d, 'x) world_scheme, 'a) pyst" where
  "on_drv m = (\<lambda>w. case m (w_drv w) of (r, d') \<Rightarrow> (r, w\<lparr>w_drv := d'\<rparr>))"

definition with_fs :: "(fs \<Rightarrow> (event list, 'a) pyst) \<Rightarrow> (('d, 'x) world_scheme, 'a) pyst" where
  "with_fs f = (\<lambda>w. case f (w_fs w) (w_log w) of (r, l') \<Rightarrow> (r, w\<lparr>w_log := l'\<rparr>))"

definition wlog :: "log_level \<Rightarrow> message \<Rightarrow> (('d, 'x) world_scheme, unit) pyst" where
  "wlog lv msg = with_fs (\<lambda>_. emit lv msg)"

text \<open>\<^verbatim>\<open>with open(p, 'w') as f: ...\<close> writing the bytes \<open>b\<close>: the \<^verbatim>\<open>OSError\<close> of
  \<^verbatim>\<open>open\<close>, if any, is raised and nothing is written.\<close>

definition write_file :: "path \<Rightarrow> bytes \<Rightarrow> (('d, 'x) world_scheme, unit) pyst" where
  "write_file p b =
     (\<lambda>w. case w_open_err w p of
            None \<Rightarrow> (Inr (), w\<lparr>w_fs := (w_fs w)(p \<mapsto> b)\<rparr>)
          | Some e \<Rightarrow> (Inl e, w))"

text \<open>selenium's \<^verbatim>\<open>WebElement.screenshot(filename)\<close> writes the PNG it fetched; when
  \<^verbatim>\<open>open\<close> fails it catches the \<^verbatim>\<open>OSError\<close> and returns \<^verbatim>\<open>False\<close>, which the
  script ignores: nothing is written and nothing is raised.\<close>

definition save_screenshot :: "path \<Rightarrow> bytes \<Rightarrow> (('d, 'x) world_scheme, unit) pyst" where
  "save_screenshot p png =
     (\<lambda>w. case w_open_err w p of
            None \<Rightarrow> (Inr (), w\<lparr>w_fs := (w_fs w)(p \<mapsto> png)\<rparr>)
          | Some e \<Rightarrow> (Inr (), w))"

text \<open>\<^verbatim>\<open>if os.path.exists(p): os.remove(p)\<close>\<close>

definition remove_if_exists :: "path \<Rightarrow> fs \<Rightarrow> fs" where
  "remove_if_exists p fs = (if p \<in> dom fs then fs(p := None) else fs)"

definition same_fs :: "('d, 'x) world_scheme \<Rightarrow> ('d, 'x) world_scheme \<Rightarrow> bool" where
  "same_fs w w' \<longleftrightarrow> w_fs w' = w_fs w"

lemma on_drv_apply [pyst_simps]:
  "on_drv m w = (case m (w_drv w) of (r, d') \<Rightarrow> (r, w\<lparr>w_drv := d'\<rparr>))"
  by (simp add: on_drv_def)

lemma with_fs_apply [pyst_simps]:
  "with_fs f w = (case f (w_fs w) (w_log w) of (r, l') \<Rightarrow> (r, w\<lparr>w_log := l'\<rparr>))"
  by (simp add: with_fs_def)

lemma wlog_apply [pyst_simps]:
  "wlog lv msg w = (Inr (), w\<lparr>w_log := w_log w @ [(lv, msg)]\<rparr>)"
  by (simp add: wlog_def with_fs_def emit_def)

lemma write_file_apply [pyst_simps]:
  "write_file p b w =
     (case w_open_err w p of None \<Rightarrow> (Inr (), w\<lparr>w_fs := (w_fs w)(p \<mapsto> b)\<rparr>) | Some e \<Rightarrow> (Inl e, w))"
  by (simp add: write_file_def)

lemma save_screenshot_apply [pyst_simps]:
  "save_screenshot p png w =
     (case w_open_err w p of None \<Rightarrow> (Inr (), w\<lparr>w_fs := (w_fs w)(p \<mapsto> png)\<rparr>) | Some e \<Rightarrow> (Inr (), w))"
  by (simp add: save_screenshot_def)

lemma remove_if_exists_le: "remove_if_exists p fs \<subseteq>\<^sub>m fs"
  by (auto simp: remove_if_exists_def map_le_def)

lemma remove_if_exists_upd: "remove_if_exists p (fs(p \<mapsto> b)) = fs(p := None)"
  by (simp add: remove_if_exists_def)

lemma remove_if_exists_absent: "p \<notin> dom (remove_if_exists p fs)"
  by (simp add: remove_if_exists_def)

lemma reflp_same_fs [simp]: "reflp same_fs" and transp_same_fs [simp]: "transp same_fs"
  by (auto simp: reflp_def transp_def same_fs_def)

lemma keeps_on_drv [keeps_intros]: "keeps same_fs (on_drv m)"
  by (simp add: keeps_def on_drv_def same_fs_def split: prod.splits)

lemma keeps_with_fs [keeps_intros]: "keeps same_fs (with_fs f)"
  by (simp add: keeps_def with_fs_def same_fs_def split: prod.splits)

lemma keeps_wlog [keeps_intros]: "keeps same_fs (wlog lv msg)"
  by (simp add: wlog_def keeps_with_fs)

end
