(* ===== verification/Login.thy ===== *)
theory Login
  imports Solver Driver
begin

text \<open>
  \<^verbatim>\<open>AUInfoExtractor.login\<close> (\<^verbatim>\<open>src/scraper-script.py\<close>, lines 135--184), the retry
  loop around one login attempt.  The attempt body (the \<^verbatim>\<open>try\<close> block) is split along
  the phases of the spec's state machine: \<open>login_navigate\<close> (lines 139--146),
  \<open>login_capture\<close> (147--148), \<open>login_solve\<close> (150--151), \<open>login_submit\<close>
  (154--158) and \<open>login_await\<close> (161--166).  \<open>login_attempt\<close> adds the two
  \<^verbatim>\<open>except\<close> clauses (168--178) and the \<^verbatim>\<open>finally\<close> clause (180--182), and
  \<open>login_loop\<close> is \<^verbatim>\<open>for attempt in range(max_retries)\<close> followed by
  \<^verbatim>\<open>return False\<close>.  Python's local variable \<^verbatim>\<open>captcha_path\<close> lives across
  iterations and is unbound until its first assignment: it is the field
  \<open>captcha_path\<close> of the loop's frame, \<open>None\<close> while unbound, and reading it
  unbound in the \<^verbatim>\<open>finally\<close> clause raises \<^verbatim>\<open>UnboundLocalError\<close>, which replaces
  whatever the attempt was doing (returning, continuing or raising).
\<close>

record au_extractor =
  captcha_solver_of :: captcha_solver
  base_url :: string
  login_url :: string
  marks_url :: string

definition au_extractor_init :: au_extractor where
  "au_extractor_init =
     \<lparr>captcha_solver_of = captcha_solver_init,
      base_url = ''https://coe.annauniv.edu'',
      login_url = ''https://coe.annauniv.edu'' @ ''/login.php'',
      marks_url = ''https://coe.annauniv.edu'' @ ''/student/marks.php''\<rparr>"

record 'd login_frame = "'d world" +
  captcha_path :: "path option"

definition temp_captcha_path :: "nat \<Rightarrow> path" where
  "temp_captcha_path attempt = ''temp_captcha_'' @ py_str_nat attempt @ ''.png''"

definition set_captcha_path :: "path \<Rightarrow> ('d login_frame, unit) pyst" where
  "set_captcha_path p = (\<lambda>f. (Inr (), f\<lparr>captcha_path := Some p\<rparr>))"

definition login_navigate :: "au_extractor \<Rightarrow> 'd webdriver \<Rightarrow> nat \<Rightarrow> nat \<Rightarrow> ('d login_frame, elem) pyst" where
  "login_navigate ext drv max_retries attempt =
     pbind (wlog INFO (MsgLoginAttempt (Suc attempt) max_retries)) (\<lambda>_.
     pbind (on_drv (drv_get drv (login_url ext))) (\<lambda>_.
     pbind (on_drv (drv_wait_present drv (By_NAME ''username'') 10)) (\<lambda>_.
     on_drv (drv_find_element drv (By_ID ''captchaImage'')))))"

definition login_capture :: "'d webdriver \<Rightarrow> elem \<Rightarrow> nat \<Rightarrow> ('d login_frame, unit) pyst" where
  "login_capture drv captcha_elem attempt =
     pbind (set_captcha_path (temp_captcha_path attempt)) (\<lambda>_.
     pbind (on_drv (drv_screenshot drv captcha_elem)) (\<lambda>png.
     save_screenshot (temp_captcha_path attempt) png))"

definition login_solve :: "pil_backend \<Rightarrow> au_extractor \<Rightarrow> nat \<Rightarrow> ('d login_frame, string) pyst" where
  "login_solve be ext attempt =
     pbind (with_fs (\<lambda>fs. solve be (captcha_solver_of ext) fs (temp_captcha_path attempt))) (\<lambda>captcha_solution.
     pbind (wlog INFO (MsgCaptchaSolution captcha_solution)) (\<lambda>_.
     ret captcha_solution))"

definition login_submit :: "'d webdriver \<Rightarrow> string \<Rightarrow> string \<Rightarrow> string \<Rightarrow> ('d login_frame, unit) pyst" where
  "login_submit drv username password captcha_solution =
     pbind (on_drv (drv_find_element drv (By_NAME ''username''))) (\<lambda>el.
     pbind (on_drv (drv_send_keys drv el username)) (\<lambda>_.
     pbind (on_drv (drv_find_element drv (By_NAME ''password''))) (\<lambda>el.
     pbind (on_drv (drv_send_keys drv el password)) (\<lambda>_.
     pbind (on_drv (drv_find_element drv (By_NAME ''captcha''))) (\<lambda>el.
     pbind (on_drv (drv_send_keys drv el captcha_solution)) (\<lambda>_.
     pbind (on_drv (drv_find_element drv (By_NAME ''login''))) (\<lambda>el.
     on_drv (drv_click drv el))))))))"

definition login_await :: "'d webdriver \<Rightarrow> ('d login_frame, bool) pyst" where
  "login_await drv =
     pbind (on_drv (drv_wait_present drv (By_CLASS_NAME ''dashboard'') 5)) (\<lambda>_.
     pbind (wlog INFO MsgLoginSuccessful) (\<lambda>_.
     ret True))"

definition login_try ::
  "pil_backend \<Rightarrow> au_extractor \<Rightarrow> 'd webdriver \<Rightarrow> string \<Rightarrow> string \<Rightarrow> nat \<Rightarrow> nat \<Rightarrow> ('d login_frame, bool) pyst" where
  "login_try be ext drv username password max_retries attempt =
     pbind (login_navigate ext drv max_retries attempt) (\<lambda>captcha_elem.
     pbind (login_capture drv captcha_elem attempt) (\<lambda>_.
     pbind (login_solve be ext attempt) (\<lambda>captcha_solution.
     pbind (login_submit drv username password captcha_solution) (\<lambda>_.
     login_await drv))))"

text \<open>The two \<^verbatim>\<open>except\<close> clauses: log, then re-raise on the last attempt, else \<^verbatim>\<open>continue\<close>.\<close>

definition login_except :: "nat \<Rightarrow> nat \<Rightarrow> py_exc \<Rightarrow> 'd login_frame \<Rightarrow> bool loop_exit \<times> 'd login_frame" where
  "login_except max_retries attempt e f =
     (let f' = snd ((if e = TimeoutException
                     then wlog WARNING (MsgAttemptTimeout (Suc attempt))
                     else wlog ERROR (MsgAttemptFailed (Suc attempt) e)) f)
      in (if attempt = max_retries - 1 then Raised e else Continued, f'))"

text \<open>The \<^verbatim>\<open>finally\<close> clause: it reads \<^verbatim>\<open>captcha_path\<close>, and removes the file if it exists.\<close>

definition login_finally :: "bool loop_exit \<Rightarrow> 'd login_frame \<Rightarrow> bool loop_exit \<times> 'd login_frame" where
  "login_finally ex f =
     (case captcha_path f of
        None \<Rightarrow> (Raised (UnboundLocalError ''captcha_path''), f)
      | Some p \<Rightarrow> (ex, f\<lparr>w_fs := remove_if_exists p (w_fs f)\<rparr>))"

definition login_attempt ::
  "pil_backend \<Rightarrow> au_extractor \<Rightarrow> 'd webdriver \<Rightarrow> string \<Rightarrow> string \<Rightarrow> nat \<Rightarrow> nat \<Rightarrow>
   'd login_frame \<Rightarrow> bool loop_exit \<times> 'd login_frame" where
  "login_attempt be ext drv username password max_retries attempt f =
     (case login_try be ext drv username password max_retries attempt f of
        (Inr b, f1) \<Rightarrow> login_finally (Returned b) f1
      | (Inl e, f1) \<Rightarrow> (case login_except max_retries attempt e f1 of (ex, f2) \<Rightarrow> login_finally ex f2))"

function login_loop ::
  "pil_backend \<Rightarrow> au_extractor \<Rightarrow> 'd webdriver \<Rightarrow> string \<Rightarrow> string \<Rightarrow> nat \<Rightarrow> nat \<Rightarrow>
   'd login_frame \<Rightarrow> (py_exc + bool) \<times> 'd login_frame" where
  "login_loop be ext drv username password max_retries attempt f =
     (if attempt < max_retries then
        (case login_attempt be ext drv username password max_retries attempt f of
           (Returned b, f') \<Rightarrow> (Inr b, f')
         | (Raised e, f') \<Rightarrow> (Inl e, f')
         | (Continued, f') \<Rightarrow> login_loop be ext drv username password max_retries (Suc attempt) f')
      else (Inr False, f))"
  by pat_completeness auto
termination
  by (relation "measure (\<lambda>(be, ext, drv, username, password, max_retries, attempt, f). max_retries - attempt)") auto

definition login ::
  "pil_backend \<Rightarrow> au_extractor \<Rightarrow> 'd webdriver \<Rightarrow> string \<Rightarrow> string \<Rightarrow> nat \<Rightarrow> ('d world, bool) pyst" where
  "login be ext drv username password max_retries =
     (\<lambda>w. case login_loop be ext drv username password max_retries 0
                  (world.extend w (login_frame.fields None)) of
            (r, f) \<Rightarrow> (r, world.truncate f))"

text \<open>Drivers for concrete runs: \<open>ok_driver\<close> finds every element and returns the
  same one-byte screenshot; \<open>dashboard_after k\<close> counts the dashboard waits and lets
  the dashboard appear only after \<open>k\<close> timeouts.  \<open>attempts_logged\<close> reads the attempt
  numbers of the \<^verbatim>\<open>Login attempt i/n\<close> lines back from the log.\<close>

definition ok_driver :: "'d webdriver" where
  "ok_driver =
     \<lparr>drv_get = (\<lambda>url. ret ()), drv_wait_present = (\<lambda>loc t. ret ()),
      drv_find_element = (\<lambda>loc. ret []), drv_find_elements_in = (\<lambda>el loc. ret []),
      drv_text = (\<lambda>el. ret []), drv_screenshot = (\<lambda>el. ret [1]),
      drv_send_keys = (\<lambda>el txt. ret ()), drv_click = (\<lambda>el. ret ()), drv_quit = ret ()\<rparr>"

definition dashboard_after :: "nat \<Rightarrow> nat webdriver" where
  "dashboard_after k = ok_driver\<lparr>drv_wait_present := (\<lambda>loc t d.
      if loc = By_CLASS_NAME ''dashboard''
      then (if d < k then (Inl TimeoutException, Suc d) else (Inr (), Suc d))
      else (Inr (), d))\<rparr>"

fun attempts_logged :: "event list \<Rightarrow> nat list" where
  "attempts_logged [] = []"
| "attempts_logged ((INFO, MsgLoginAttempt a m) # l) = a # attempts_logged l"
| "attempts_logged (ev # l) = attempts_logged l"

text \<open>Two relations between the frame before and after a statement, used to follow the
  temporary file: nothing of the file system and of \<^verbatim>\<open>captcha_path\<close> changes, or
  the attempt binds \<^verbatim>\<open>captcha_path\<close> to its file name and may write that one file.\<close>

definition same_frame :: "'d login_frame \<Rightarrow> 'd login_frame \<Rightarrow> bool" where
  "same_frame f f' \<longleftrightarrow> w_fs f' = w_fs f \<and> captcha_path f' = captcha_path f"

definition try_effect :: "path \<Rightarrow> 'd login_frame \<Rightarrow> 'd login_frame \<Rightarrow> bool" where
  "try_effect tp f f' \<longleftrightarrow>
     (captcha_path f' = captcha_path f \<or> captcha_path f' = Some tp) \<and>
     (w_fs f' = w_fs f \<or> (captcha_path f' = Some tp \<and> (\<exists>png. w_fs f' = (w_fs f)(tp \<mapsto> png))))"

declare login_loop.simps [simp del]

section \<open>The temporary file\<close>

lemma reflp_same_frame [simp]: "reflp same_frame" and transp_same_frame [simp]: "transp same_frame"
  by (auto simp: reflp_def transp_def same_frame_def)

lemma reflp_try_effect [simp]: "reflp (try_effect tp)"
  by (simp add: reflp_def try_effect_def)

lemma transp_try_effect [simp]: "transp (try_effect tp)"
  unfolding transp_def try_effect_def by (auto simp: fun_upd_twist)

lemma same_frame_try_effect: "same_frame f f' \<Longrightarrow> try_effect tp f f'"
  by (simp add: same_frame_def try_effect_def)

lemma keeps_frame_on_drv [keeps_intros]: "keeps same_frame (on_drv m)"
  by (simp add: keeps_def on_drv_def same_frame_def split: prod.splits)

lemma keeps_frame_with_fs [keeps_intros]: "keeps same_frame (with_fs g)"
  by (simp add: keeps_def with_fs_def same_frame_def split: prod.splits)

lemma keeps_frame_wlog [keeps_intros]: "keeps same_frame (wlog lv msg)"
  by (simp add: wlog_def keeps_frame_with_fs)

lemma keeps_frame_navigate: "keeps same_frame (login_navigate ext drv n a)"
  unfolding login_navigate_def by (intro keeps_intros reflp_same_frame transp_same_frame)

lemma keeps_frame_solve: "keeps same_frame (login_solve be ext a)"
  unfolding login_solve_def by (intro keeps_intros reflp_same_frame transp_same_frame)

lemma keeps_frame_submit: "keeps same_frame (login_submit drv u pw sol)"
  unfolding login_submit_def by (intro keeps_intros reflp_same_frame transp_same_frame)

lemma keeps_frame_await: "keeps same_frame (login_await drv)"
  unfolding login_await_def by (intro keeps_intros reflp_same_frame transp_same_frame)

lemma keeps_try_effect_capture: "keeps (try_effect (temp_captcha_path a)) (login_capture drv el a)"
  by (auto simp: keeps_def login_capture_def try_effect_def set_captcha_path_def pyst_simps
           split: prod.splits sum.splits option.splits)

lemma keeps_try_effect_try:
  "keeps (try_effect (temp_captcha_path a)) (login_try be ext drv u pw n a)"
proof -
  have sf: "keeps (try_effect tp) m" if "keeps same_frame m" for m :: "('d login_frame, 'b) pyst" and tp
    using that same_frame_try_effect keeps_mono by blast
  show ?thesis
    unfolding login_try_def
    by (intro keeps_pbind transp_try_effect keeps_try_effect_capture sf
          keeps_frame_navigate keeps_frame_solve keeps_frame_submit keeps_frame_await)
qed

lemma login_except_frame: "login_except n a e f = (ex, f') \<Longrightarrow> same_frame f f'"
  by (auto simp: login_except_def same_frame_def Let_def pyst_simps)

lemma upd_None_le: "fs(p := None) \<subseteq>\<^sub>m fs"
  by (auto simp: map_le_def)

lemma login_attempt_fs:
  assumes "login_attempt be ext drv u pw n a f = (ex, f')"
  shows "w_fs f' \<subseteq>\<^sub>m w_fs f"
proof -
  obtain r f1 where t: "login_try be ext drv u pw n a f = (r, f1)" by fastforce
  then have eff: "try_effect (temp_captcha_path a) f f1"
    using keeps_try_effect_try keepsD by metis
  obtain ex2 f2 where f2: "login_finally ex2 f2 = (ex, f')" and s: "same_frame f1 f2"
    using assms t by (cases r) (auto simp: login_attempt_def same_frame_def split: prod.splits
                                    dest: login_except_frame)
  show ?thesis
  proof (cases "captcha_path f2")
    case None
    with s eff f2 show ?thesis by (auto simp: login_finally_def same_frame_def try_effect_def)
  next
    case (Some p)
    with f2 have fs': "w_fs f' = remove_if_exists p (w_fs f2)" by (auto simp: login_finally_def)
    from eff s Some show ?thesis
      unfolding fs' same_frame_def try_effect_def
      by (auto simp: remove_if_exists_upd remove_if_exists_le intro: map_le_trans)
         (metis option.inject remove_if_exists_upd upd_None_le)
  qed
qed

lemma login_loop_unfold:
  "login_loop be ext drv u pw n a f =
     (if a < n then
        (case login_attempt be ext drv u pw n a f of
           (Returned b, f') \<Rightarrow> (Inr b, f')
         | (Raised e, f') \<Rightarrow> (Inl e, f')
         | (Continued, f') \<Rightarrow> login_loop be ext drv u pw n (Suc a) f')
      else (Inr False, f))"
  by (rule login_loop.simps)

text \<open>A relation kept by every attempt is kept by the whole loop.\<close>

lemma login_loop_keeps:
  assumes "reflp R" "transp R" "\<And>a f. R f (snd (login_attempt be ext drv u pw n a f))"
  shows "R f (snd (login_loop be ext drv u pw n a f))"
proof (induction "n - a" arbitrary: a f)
  case 0
  then show ?case by (simp add: login_loop_unfold [of be ext drv u pw n a f] reflpD [OF assms(1)])
next
  case (Suc k)
  then have lt: "a < n" and k: "k = n - Suc a" by simp_all
  obtain ex f1 where at: "login_attempt be ext drv u pw n a f = (ex, f1)" by fastforce
  have r1: "R f f1" using assms(3) [where a = a and f = f] at by simp
  show ?case
  proof (cases ex)
    case Continued
    have "R f1 (snd (login_loop be ext drv u pw n (Suc a) f1))" using Suc.hyps(1) [OF k] .
    with r1 lt at Continued show ?thesis
      by (simp add: login_loop_unfold [of be ext drv u pw n a f]) (metis assms(2) transpD)
  qed (use r1 lt at in \<open>simp_all add: login_loop_unfold [of be ext drv u pw n a f]\<close>)
qed

lemma login_loop_fs:
  "login_loop be ext drv u pw n a f = (r, f') \<Longrightarrow> w_fs f' \<subseteq>\<^sub>m w_fs f"
proof -
  have "w_fs (snd (login_attempt be ext drv u pw n a' g)) \<subseteq>\<^sub>m w_fs g" for a' g
    using login_attempt_fs [of be ext drv u pw n a' g "fst (login_attempt be ext drv u pw n a' g)"] by simp
  then have "w_fs (snd (login_loop be ext drv u pw n a f)) \<subseteq>\<^sub>m w_fs f"
    by (intro login_loop_keeps [where R = "\<lambda>f f'. w_fs f' \<subseteq>\<^sub>m w_fs f"])
       (auto simp: reflp_def transp_def intro: map_le_trans)
  then show "login_loop be ext drv u pw n a f = (r, f') \<Longrightarrow> w_fs f' \<subseteq>\<^sub>m w_fs f" by simp
qed

lemma w_fs_truncate [simp]: "w_fs (world.truncate f) = w_fs f"
  by (simp add: world.truncate_def)

lemma w_fs_extend [simp]: "w_fs (world.extend w x) = w_fs w"
  by (simp add: world.extend_def)

lemma w_drv_truncate [simp]: "w_drv (world.truncate f) = w_drv f"
  by (simp add: world.truncate_def)

lemma w_drv_extend [simp]: "w_drv (world.extend w x) = w_drv w"
  by (simp add: world.extend_def)

section \<open>How attempts end\<close>

lemma attempts_logged_append [simp]:
  "attempts_logged (l @ l') = attempts_logged l @ attempts_logged l'"
  by (induction l rule: attempts_logged.induct) simp_all

lemma attempts_logged_warnings [simp]:
  "attempts_logged (map (\<lambda>i. (WARNING, MsgLowConfidence i)) xs) = []"
  by (induction xs) simp_all

lemma login_await_result: "fst (login_await drv f) = Inr b \<Longrightarrow> b"
  by (auto simp: login_await_def pyst_simps split: prod.splits sum.splits)

lemma login_try_result: "fst (login_try be ext drv u pw n a f) = Inr b \<Longrightarrow> b"
  by (auto simp: login_try_def pyst_simps split: prod.splits sum.splits dest: login_await_result)

lemma login_attempt_exit:
  assumes "login_attempt be ext drv u pw n a f = (ex, f')" "a < n"
  shows "(ex = Returned True \<and> fst (login_try be ext drv u pw n a f) = Inr True) \<or>
         (\<exists>e. ex = Raised e) \<or> (ex = Continued \<and> Suc a < n)"
  using assms login_try_result [of be ext drv u pw n a f]
  by (auto simp: login_attempt_def login_except_def login_finally_def Let_def
           split: prod.splits sum.splits option.splits if_splits)

lemma login_loop_not_false:
  "a < n \<Longrightarrow> fst (login_loop be ext drv u pw n a f) \<noteq> Inr False"
proof (induction be ext drv u pw n a f rule: login_loop.induct)
  case (1 be ext drv u pw n a f)
  obtain ex f1 where at: "login_attempt be ext drv u pw n a f = (ex, f1)" by fastforce
  from login_attempt_exit [OF at "1.prems"] "1.IH" [OF "1.prems" at [symmetric]] at "1.prems"
  show ?case by (auto simp: login_loop_unfold [of be ext drv u pw n a f])
qed

lemma login_try_shipped: "fst (login_try be au_extractor_init drv u pw n a f) \<noteq> Inr b"
proof -
  have h: "\<exists>e. fst (login_solve be au_extractor_init a f') = Inl e" for f' :: "'d login_frame"
    using solve_shipped_raises [of be "w_fs f'" "temp_captcha_path a" "w_log f'"]
    by (auto simp: login_solve_def au_extractor_init_def pyst_simps split: prod.splits sum.splits)
  have "login_solve be au_extractor_init a f' \<noteq> (Inr x, f'')" for f' :: "'d login_frame" and x f''
    using h [of f'] by auto
  then show ?thesis
    by (auto simp: login_try_def pyst_simps split: prod.splits sum.splits)
qed

lemma login_loop_shipped:
  "ext = au_extractor_init \<Longrightarrow> fst (login_loop be ext drv u pw n a f) \<noteq> Inr True"
proof (induction be ext drv u pw n a f rule: login_loop.induct)
  case (1 be ext drv u pw n a f)
  show ?case
  proof (cases "a < n")
    case True
    obtain ex f1 where at: "login_attempt be ext drv u pw n a f = (ex, f1)" by fastforce
    from login_attempt_exit [OF at True] login_try_shipped [of be drv u pw n a f True]
      "1.IH" [OF True at [symmetric] _ "1.prems"] at True "1.prems"
    show ?thesis by (auto simp: login_loop_unfold [of be au_extractor_init drv u pw n a f])
  next
    case False
    then show ?thesis by (simp add: login_loop_unfold)
  qed
qed

lemma login_shipped_raises: "0 < n \<Longrightarrow> \<exists>e. fst (login be au_extractor_init drv u pw n w) = Inl e"
  using login_loop_shipped [of au_extractor_init be drv u pw n 0 "world.extend w (login_frame.fields None)"]
        login_loop_not_false [of 0 n be au_extractor_init drv u pw "world.extend w (login_frame.fields None)"]
  by (cases "fst (login be au_extractor_init drv u pw n w)") (auto simp: login_def split: prod.splits)

lemma captcha_solver_of_init [simp]: "captcha_solver_of au_extractor_init = captcha_solver_init"
  by (simp add: au_extractor_init_def)

text \<open>The shipped solver raises on every capture and logs no attempt line.\<close>

lemma solve_shipped_log:
  "\<exists>e xs. solve be captcha_solver_init fs p l = (Inl e, l @ xs) \<and> attempts_logged xs = []"
proof (cases "pil_open_L be fs p")
  case (Inl e)
  then show ?thesis by (simp add: solve_cases)
next
  case (Inr img)
  then show ?thesis by (simp add: solve_cases solve_positions_shipped_6 del: solve_positions.simps)
qed

lemma login_attempt_shipped:
  assumes get: "\<And>d. fst (drv_get drv (login_url au_extractor_init) d) = Inr ()"
    and wait: "\<And>d. fst (drv_wait_present drv (By_NAME ''username'') 10 d) = Inr ()"
    and find: "\<And>d. \<exists>el. fst (drv_find_element drv (By_ID ''captchaImage'') d) = Inr el"
    and shot: "\<And>el d. \<exists>png img. fst (drv_screenshot drv el d) = Inr png \<and> (\<forall>p. pil_decode be p png = Inr img)"
  shows "\<exists>e f'. login_attempt be au_extractor_init drv u pw n a f = (if a = n - 1 then Raised e else Continued, f')
             \<and> attempts_logged (w_log f') = attempts_logged (w_log f) @ [Suc a]
             \<and> w_open_err f' = w_open_err f
             \<and> (w_open_err f (temp_captcha_path a) = None \<longrightarrow> e = BroadcastError (20, 10) (10, 8))"
proof -
  obtain d1 where 1: "drv_get drv (login_url au_extractor_init) (w_drv f) = (Inr (), d1)"
    using get [of "w_drv f"] by (cases "drv_get drv (login_url au_extractor_init) (w_drv f)") auto
  obtain d2 where 2: "drv_wait_present drv (By_NAME ''username'') 10 d1 = (Inr (), d2)"
    using wait [of d1] by (cases "drv_wait_present drv (By_NAME ''username'') 10 d1") auto
  obtain el d3 where 3: "drv_find_element drv (By_ID ''captchaImage'') d2 = (Inr el, d3)"
    using find [of d2] by (cases "drv_find_element drv (By_ID ''captchaImage'') d2") auto
  obtain png img d4 where 4: "drv_screenshot drv el d3 = (Inr png, d4)"
      and dec: "\<And>p. pil_decode be p png = Inr img"
    using shot [of el d3] by (cases "drv_screenshot drv el d3") auto
  show ?thesis
  proof (cases "w_open_err f (temp_captcha_path a)")
    case None
    with 1 2 3 4 dec show ?thesis
      by (simp add: login_attempt_def login_try_def login_navigate_def login_capture_def login_solve_def
          set_captcha_path_def login_except_def login_finally_def pyst_simps solve_shipped_decoded Let_def)
  next
    case (Some err)
    let ?l = "w_log f @ [(INFO, MsgLoginAttempt (Suc a) n)]"
    obtain e xs where sv: "solve be captcha_solver_init (w_fs f) (temp_captcha_path a) ?l = (Inl e, ?l @ xs)"
        and q: "attempts_logged xs = []"
      using solve_shipped_log by blast
    with Some 1 2 3 4 show ?thesis
      by (simp add: login_attempt_def login_try_def login_navigate_def login_capture_def login_solve_def
          set_captcha_path_def login_except_def login_finally_def pyst_simps Let_def)
  qed
qed

lemma login_loop_shipped_budget:
  assumes get: "\<And>d. fst (drv_get drv (login_url au_extractor_init) d) = Inr ()"
    and wait: "\<And>d. fst (drv_wait_present drv (By_NAME ''username'') 10 d) = Inr ()"
    and find: "\<And>d. \<exists>el. fst (drv_find_element drv (By_ID ''captchaImage'') d) = Inr el"
    and shot: "\<And>el d. \<exists>png img. fst (drv_screenshot drv el d) = Inr png \<and> (\<forall>p. pil_decode be p png = Inr img)"
  shows "a < n \<Longrightarrow>
         \<exists>e f'. login_loop be au_extractor_init drv u pw n a f = (Inl e, f')
              \<and> attempts_logged (w_log f') = attempts_logged (w_log f) @ [Suc a..<Suc n]
              \<and> (w_open_err f (temp_captcha_path (n - 1)) = None \<longrightarrow> e = BroadcastError (20, 10) (10, 8))"
proof (induction "n - a" arbitrary: a f)
  case 0
  then show ?case by simp
next
  case (Suc k)
  obtain e f1 where at: "login_attempt be au_extractor_init drv u pw n a f = (if a = n - 1 then Raised e else Continued, f1)"
      and lg: "attempts_logged (w_log f1) = attempts_logged (w_log f) @ [Suc a]"
      and oe: "w_open_err f1 = w_open_err f"
      and be: "w_open_err f (temp_captcha_path a) = None \<longrightarrow> e = BroadcastError (20, 10) (10, 8)"
    using login_attempt_shipped [OF get wait find shot] by blast
  show ?case
  proof (cases "a = n - 1")
    case True
    have "login_loop be au_extractor_init drv u pw n a f = (Inl e, f1)"
      using Suc.prems True at by (subst login_loop_unfold) simp
    moreover have "[Suc a..<Suc n] = [Suc a]" using Suc.prems True by simp
    ultimately show ?thesis using lg be True by simp
  next
    case False
    with Suc.prems have lt: "Suc a < n" by simp
    with Suc.hyps(2) have "k = n - Suc a" by simp
    from Suc.hyps(1) [OF this lt, of f1]
    obtain e' f' where rec: "login_loop be au_extractor_init drv u pw n (Suc a) f1 = (Inl e', f')"
        and lg': "attempts_logged (w_log f') = attempts_logged (w_log f1) @ [Suc (Suc a)..<Suc n]"
        and be': "w_open_err f1 (temp_captcha_path (n - 1)) = None \<longrightarrow> e' = BroadcastError (20, 10) (10, 8)"
      by auto
    have "[Suc a..<Suc n] = Suc a # [Suc (Suc a)..<Suc n]" using lt by (simp add: upt_conv_Cons)
    with Suc.prems False at rec lg lg' be' oe show ?thesis
      by (simp add: login_loop_unfold [of _ au_extractor_init _ _ _ n a f])
  qed
qed

text \<open>One attempt against \<open>dashboard_after k\<close> with a solver of empty library: it times
  out while fewer than \<open>k\<close> dashboard waits were made, and succeeds afterwards.\<close>

lemma login_attempt_dashboard:
  assumes dec: "\<And>p. pil_decode be p [1] = Inr img" and wo: "w_open_err f (temp_captcha_path a) = None"
  shows "\<exists>f'. login_attempt be (au_extractor_init\<lparr>captcha_solver_of := \<lparr>test_set = [], char_map = cm\<rparr>\<rparr>)
                 (dashboard_after k) u pw n a f =
               (if w_drv f < k then (if a = n - 1 then Raised TimeoutException else Continued) else Returned True, f')
             \<and> w_drv f' = Suc (w_drv f) \<and> attempts_logged (w_log f') = attempts_logged (w_log f) @ [Suc a]
             \<and> w_open_err f' = w_open_err f"
  using wo
  by (cases "w_drv f < k")
     (simp_all add: login_attempt_def login_try_def login_navigate_def login_capture_def login_solve_def
       login_submit_def login_await_def set_captcha_path_def login_except_def login_finally_def pyst_simps
       Let_def dashboard_after_def ok_driver_def solve_empty_decoded dec)

lemma login_loop_dashboard:
  assumes dec: "\<And>p. pil_decode be p [1] = Inr img"
  shows "a < n \<Longrightarrow> w_drv f = a \<Longrightarrow> a \<le> k \<Longrightarrow> \<forall>i. w_open_err f (temp_captcha_path i) = None \<Longrightarrow>
         \<exists>f'. login_loop be (au_extractor_init\<lparr>captcha_solver_of := \<lparr>test_set = [], char_map = cm\<rparr>\<rparr>)
                (dashboard_after k) u pw n a f = (if k < n then Inr True else Inl TimeoutException, f')
              \<and> attempts_logged (w_log f') = attempts_logged (w_log f) @ [Suc a..<Suc (min (Suc k) n)]"
proof (induction "n - a" arbitrary: a f)
  case 0
  then show ?case by simp
next
  case (Suc j)
  let ?ext = "au_extractor_init\<lparr>captcha_solver_of := \<lparr>test_set = [], char_map = cm\<rparr>\<rparr>"
  have wo: "w_open_err f (temp_captcha_path a) = None" using Suc.prems(4) by simp
  obtain f1 where at: "login_attempt be ?ext (dashboard_after k) u pw n a f =
        (if w_drv f < k then (if a = n - 1 then Raised TimeoutException else Continued) else Returned True, f1)"
      and d1: "w_drv f1 = Suc (w_drv f)" and lg: "attempts_logged (w_log f1) = attempts_logged (w_log f) @ [Suc a]"
      and oe: "w_open_err f1 = w_open_err f"
    using login_attempt_dashboard [OF dec wo] by blast
  have unf: "login_loop be ?ext (dashboard_after k) u pw n a f =
               (case fst (login_attempt be ?ext (dashboard_after k) u pw n a f) of
                  Returned b \<Rightarrow> (Inr b, f1) | Raised e \<Rightarrow> (Inl e, f1)
                | Continued \<Rightarrow> login_loop be ?ext (dashboard_after k) u pw n (Suc a) f1)"
    using Suc.prems(1) at by (simp add: login_loop_unfold [of be ?ext _ u pw n a f] split: loop_exit.split)
  show ?case
  proof (cases "a < k")
    case False
    with Suc.prems have "a = k" "k < n" "min (Suc k) n = Suc a" by simp_all
    with unf at lg Suc.prems(2) show ?thesis by simp
  next
    case True
    show ?thesis
    proof (cases "a = n - 1")
      case True
      with \<open>a < k\<close> Suc.prems have "\<not> k < n" "min (Suc k) n = Suc a" by simp_all
      with unf at lg True \<open>a < k\<close> Suc.prems show ?thesis by simp
    next
      case False
      with Suc.prems have lt: "Suc a < n" by simp
      with Suc.hyps(2) have "j = n - Suc a" by simp
      from Suc.hyps(1) [OF this lt, of f1] d1 Suc.prems(2,4) \<open>a < k\<close> oe
      obtain f' where rec: "login_loop be ?ext (dashboard_after k) u pw n (Suc a) f1 =
                              (if k < n then Inr True else Inl TimeoutException, f')"
          and lg': "attempts_logged (w_log f') = attempts_logged (w_log f1) @ [Suc (Suc a)..<Suc (min (Suc k) n)]"
        by auto
      have "[Suc a..<Suc (min (Suc k) n)] = Suc a # [Suc (Suc a)..<Suc (min (Suc k) n)]"
        using lt \<open>a < k\<close> by (simp add: upt_conv_Cons)
      with unf at rec lg lg' False \<open>a < k\<close> Suc.prems(2) show ?thesis by simp
    qed
  qed
qed

section \<open>Properties of the login loop\<close>

text \<open>
  Claim C3 (safety).  On every exit path (success, an exception re-raised on the
  last attempt, the \<^verbatim>\<open>UnboundLocalError\<close> of the \<^verbatim>\<open>finally\<close> clause, or the end of
  the loop) \<^verbatim>\<open>login\<close> leaves the file system with no file it did not find: every
  captured captcha image has been removed, for every driver and every solver.
\<close>

theorem login_no_temp_file_left:
  "w_fs (snd (login be ext drv u pw n w)) \<subseteq>\<^sub>m w_fs w"
proof -
  obtain r f where l: "login_loop be ext drv u pw n 0 (world.extend w (login_frame.fields None)) = (r, f)"
    by fastforce
  then have "w_fs f \<subseteq>\<^sub>m w_fs (world.extend w (login_frame.fields None))"
    by (rule login_loop_fs)
  with l show ?thesis by (simp add: login_def)
qed


text \<open>
  Claim C1 (safety, a defect of the code).  With the template library the script ships,
  \<^verbatim>\<open>login\<close> never returns \<^verbatim>\<open>True\<close>, for every driver, image library and credentials:
  no attempt gets past the captcha solver.
\<close>

theorem login_shipped_never_succeeds:
  "fst (login be au_extractor_init drv u pw n w) \<noteq> Inr True"
  using login_loop_shipped [of au_extractor_init be drv u pw n 0 "world.extend w (login_frame.fields None)"]
  by (cases "login_loop be au_extractor_init drv u pw n 0 (world.extend w (login_frame.fields None))")
     (simp add: login_def)

text \<open>
  Claim C4 (error, a defect of the code).  If in the first attempt the login page loads but
  the username field does not appear within 10 s, \<^verbatim>\<open>login\<close> does not retry: the
  \<^verbatim>\<open>finally\<close> clause reads the still unbound \<^verbatim>\<open>captcha_path\<close> and the
  \<^verbatim>\<open>UnboundLocalError\<close> escapes, after one attempt, whatever \<^verbatim>\<open>max_retries\<close> is.
\<close>

theorem login_first_attempt_unbound:
  assumes "drv_get drv (login_url ext) (w_drv w) = (Inr (), d1)"
    and "drv_wait_present drv (By_NAME ''username'') 10 d1 = (Inl TimeoutException, d2)"
    and "0 < n"
  shows "login be ext drv u pw n w =
           (Inl (UnboundLocalError ''captcha_path''),
            w\<lparr>w_drv := d2, w_log := w_log w @ [(INFO, MsgLoginAttempt 1 n), (WARNING, MsgAttemptTimeout 1)]\<rparr>)"
  using assms
  by (simp add: login_def login_loop_unfold login_attempt_def login_try_def login_navigate_def
      login_except_def login_finally_def pyst_simps world.extend_def world.truncate_def
      login_frame.fields_def)

theorem login_first_attempt_unbound_witness:
  "login (be_grey 7) au_extractor_init (ok_driver\<lparr>drv_wait_present := (\<lambda>loc t. throw TimeoutException)\<rparr>)
     ''user'' ''pw'' 3 \<lparr>w_drv = (), w_fs = Map.empty, w_log = [], w_open_err = Map.empty\<rparr> =
   (Inl (UnboundLocalError ''captcha_path''),
    \<lparr>w_drv = (), w_fs = Map.empty, w_log = [(INFO, MsgLoginAttempt 1 3), (WARNING, MsgAttemptTimeout 1)], w_open_err = Map.empty\<rparr>)"
  using login_first_attempt_unbound [of "ok_driver\<lparr>drv_wait_present := (\<lambda>loc t. throw TimeoutException)\<rparr>"
      au_extractor_init "\<lparr>w_drv = (), w_fs = Map.empty, w_log = [], w_open_err = Map.empty\<rparr>" "()" "()" 3 "be_grey 7" "''user''" "''pw''"]
  by (simp add: ok_driver_def pyst_simps)

text \<open>
  Claim C5 (liveness, retry budget).  With the shipped library and any driver that lets
  every attempt reach the captcha (page, field and image element present, a decodable
  screenshot), \<^verbatim>\<open>login\<close> makes exactly \<^verbatim>\<open>max_retries\<close> attempts, logging attempt
  numbers 1 to \<^verbatim>\<open>max_retries\<close>, and then raises the solver's \<^verbatim>\<open>ValueError\<close>.
\<close>

theorem login_retry_budget:
  assumes "\<And>d. fst (drv_get drv (login_url au_extractor_init) d) = Inr ()"
    and "\<And>d. fst (drv_wait_present drv (By_NAME ''username'') 10 d) = Inr ()"
    and "\<And>d. \<exists>el. fst (drv_find_element drv (By_ID ''captchaImage'') d) = Inr el"
    and "\<And>el d. \<exists>png img. fst (drv_screenshot drv el d) = Inr png \<and> (\<forall>p. pil_decode be p png = Inr img)"
    and "0 < n"
  shows "\<exists>e w'. login be au_extractor_init drv u pw n w = (Inl e, w')
              \<and> attempts_logged (w_log w') = attempts_logged (w_log w) @ [1..<Suc n]
              \<and> (w_open_err w (temp_captcha_path (n - 1)) = None \<longrightarrow> e = BroadcastError (20, 10) (10, 8))"
proof -
  from login_loop_shipped_budget [OF assms(1-4) assms(5),
      of u pw "world.extend w (login_frame.fields None)"]
  obtain e f' where "login_loop be au_extractor_init drv u pw n 0 (world.extend w (login_frame.fields None)) = (Inl e, f')"
      and "attempts_logged (w_log f') = attempts_logged (w_log w) @ [1..<Suc n]"
      and "w_open_err w (temp_captcha_path (n - 1)) = None \<longrightarrow> e = BroadcastError (20, 10) (10, 8)"
    by (auto simp: world.extend_def)
  then show ?thesis by (simp add: login_def world.truncate_def)
qed

theorem login_retry_budget_witness:
  "\<exists>e w'. login (be_grey 7) au_extractor_init (ok_driver :: unit webdriver) ''user'' ''pw'' 3
          \<lparr>w_drv = (), w_fs = Map.empty, w_log = [], w_open_err = Map.empty\<rparr> = (Inl e, w')
        \<and> attempts_logged (w_log w') = [1..<Suc 3] \<and> e = BroadcastError (20, 10) (10, 8)"
  using login_retry_budget [of "ok_driver :: unit webdriver" "be_grey 7" 3 "''user''" "''pw''"
      "\<lparr>w_drv = (), w_fs = Map.empty, w_log = [], w_open_err = Map.empty\<rparr>"]
  by (simp add: ok_driver_def be_grey_def pyst_simps)

text \<open>
  Claim C6 (functional, the spec's scenario for every budget).  With a solver that
  returns (an empty library) and a site whose dashboard appears only after \<open>k\<close>
  timed-out waits, \<^verbatim>\<open>login\<close> with \<open>n\<close> retries returns \<^verbatim>\<open>True\<close> at attempt \<open>k + 1\<close> when
  \<open>k < n\<close>, and otherwise raises the last \<^verbatim>\<open>TimeoutException\<close> after \<open>n\<close> attempts;
  the attempts are logged in order and no new file is left.
\<close>

theorem login_dashboard_after:
  assumes "\<And>p. pil_decode be p [1] = Inr img" "\<forall>i. w_open_err w (temp_captcha_path i) = None"
    and "w_drv w = 0" "0 < n"
  shows "\<exists>w'. login be (au_extractor_init\<lparr>captcha_solver_of := \<lparr>test_set = [], char_map = cm\<rparr>\<rparr>)
                (dashboard_after k) u pw n w = (if k < n then Inr True else Inl TimeoutException, w')
              \<and> attempts_logged (w_log w') = attempts_logged (w_log w) @ [1..<Suc (min (Suc k) n)]
              \<and> w_fs w' \<subseteq>\<^sub>m w_fs w"
proof -
  let ?ext = "au_extractor_init\<lparr>captcha_solver_of := \<lparr>test_set = [], char_map = cm\<rparr>\<rparr>"
  let ?f = "world.extend w (login_frame.fields None)"
  from login_loop_dashboard [OF assms(1) assms(4), of ?f k cm u pw] assms(2,3)
  obtain f' where lp: "login_loop be ?ext (dashboard_after k) u pw n 0 ?f = (if k < n then Inr True else Inl TimeoutException, f')"
      and lg: "attempts_logged (w_log f') = attempts_logged (w_log w) @ [1..<Suc (min (Suc k) n)]"
    by (auto simp: world.extend_def)
  have "w_fs f' \<subseteq>\<^sub>m w_fs ?f" using lp by (rule login_loop_fs)
  with lp lg show ?thesis by (simp add: login_def world.truncate_def world.extend_def)
qed

theorem login_dashboard_after_witness:
  "(\<forall>p. pil_decode (be_grey 7) p [1] = Inr \<lparr>im_width = 1, im_height = 1, im_pixels = [[7]]\<rparr>) \<and>
   (\<exists>w'. login (be_grey 7) (au_extractor_init\<lparr>captcha_solver_of := \<lparr>test_set = [], char_map = char_map_default\<rparr>\<rparr>)
           (dashboard_after 2) ''user'' ''pw'' 3 \<lparr>w_drv = 0, w_fs = Map.empty, w_log = [], w_open_err = Map.empty\<rparr> = (Inr True, w')
         \<and> attempts_logged (w_log w') = [1, 2, 3] \<and> w_fs w' \<subseteq>\<^sub>m Map.empty)"
proof -
  have dec: "\<And>p. pil_decode (be_grey 7) p [1] = Inr \<lparr>im_width = 1, im_height = 1, im_pixels = [[7]]\<rparr>"
    by (simp add: be_grey_def)
  have "[1..<Suc (min (Suc 2) 3)] = [1, 2, (3::nat)]" by (simp add: upt_rec)
  with login_dashboard_after [OF dec, of "\<lparr>w_drv = 0, w_fs = Map.empty, w_log = [], w_open_err = Map.empty\<rparr>" 3
      char_map_default 2 "''user''" "''pw''"] dec
  show ?thesis by simp
qed

text \<open>
  Claim C32 (functional, divergence from the spec).  \<^verbatim>\<open>login\<close> returns \<^verbatim>\<open>False\<close>
  exactly when \<^verbatim>\<open>max_retries\<close> is 0: with at least one attempt the last failure is
  re-raised, so the \<^verbatim>\<open>return False\<close> of line 184 and the check of line 232 are dead
  code for the default of 3.
\<close>

theorem login_false_iff_no_retries:
  "fst (login be ext drv u pw n w) = Inr False \<longleftrightarrow> n = 0"
proof
  assume "fst (login be ext drv u pw n w) = Inr False"
  then have "fst (login_loop be ext drv u pw n 0 (world.extend w (login_frame.fields None))) = Inr False"
    by (simp add: login_def split: prod.splits)
  with login_loop_not_false show "n = 0" by blast
next
  assume "n = 0"
  then show "fst (login be ext drv u pw n w) = Inr False"
    by (simp add: login_def login_loop_unfold)
qed

theorem login_false_iff_no_retries_witness:
  "fst (login (be_grey 7) au_extractor_init ok_driver ''user'' ''pw'' 0
         \<lparr>w_drv = (0::nat), w_fs = Map.empty, w_log = [], w_open_err = Map.empty\<rparr>) = Inr False"
  using login_false_iff_no_retries [of "be_grey 7" au_extractor_init ok_driver "''user''" "''pw''" 0
          "\<lparr>w_drv = (0::nat), w_fs = Map.empty, w_log = [], w_open_err = Map.empty\<rparr>"]
  by simp

end
