(* ===== verification/Extract.thy ===== *)
theory Extract
  imports Login
begin

text \<open>
  The rest of \<^verbatim>\<open>AUInfoExtractor\<close> (\<^verbatim>\<open>src/scraper-script.py\<close>, lines 119--244):
  \<^verbatim>\<open>setup_driver\<close>, \<^verbatim>\<open>extract_marks\<close> (the marks table read row by row through the
  driver) and \<^verbatim>\<open>extract_info\<close>, which launches the browser, logs in with the default
  budget of three attempts, extracts the marks and quits the browser in its
  \<^verbatim>\<open>finally\<close> clause.  The local \<^verbatim>\<open>driver\<close> of \<^verbatim>\<open>extract_info\<close> (\<^verbatim>\<open>None\<close> until
  \<^verbatim>\<open>setup_driver\<close> returns) is the flag \<open>driver_bound\<close> of the frame.  The browser
  launched by \<^verbatim>\<open>webdriver.Chrome(options=...)\<close> and \<^verbatim>\<open>implicitly_wait(10)\<close> is a
  parameter \<open>chrome\<close> acting on the driver state: its options are not observable here.
\<close>

text \<open>The dictionary built for one table row (lines 210--217).\<close>

record subject =
  subj_code :: string
  subj_name :: string
  subj_internal :: string
  subj_external :: string
  subj_total :: string
  subj_result :: string

text \<open>\<^verbatim>\<open>cols[i].text\<close>: \<^verbatim>\<open>IndexError\<close> past the end of the row, else a driver call.\<close>

definition col_text :: "'d webdriver \<Rightarrow> elem list \<Rightarrow> nat \<Rightarrow> (('d, 'x) world_scheme, string) pyst" where
  "col_text drv cols i = pbind (lift_sum (py_index cols i)) (\<lambda>c. on_drv (drv_text drv c))"

definition subject_data :: "'d webdriver \<Rightarrow> elem list \<Rightarrow> (('d, 'x) world_scheme, subject) pyst" where
  "subject_data drv cols =
     pbind (col_text drv cols 0) (\<lambda>code.
     pbind (col_text drv cols 1) (\<lambda>name.
     pbind (col_text drv cols 2) (\<lambda>internal.
     pbind (col_text drv cols 3) (\<lambda>external.
     pbind (col_text drv cols 4) (\<lambda>total.
     pbind (col_text drv cols 5) (\<lambda>result.
     ret \<lparr>subj_code = code, subj_name = name, subj_internal = internal,
          subj_external = external, subj_total = total, subj_result = result\<rparr>))))))"

text \<open>\<^verbatim>\<open>for row in rows[1:]\<close>: the cells of the row, its dictionary, appended in order.\<close>

fun marks_rows :: "'d webdriver \<Rightarrow> elem list \<Rightarrow> (('d, 'x) world_scheme, subject list) pyst" where
  "marks_rows drv [] = ret []"
| "marks_rows drv (row # rows) =
     pbind (on_drv (drv_find_elements_in drv row (By_TAG_NAME ''td''))) (\<lambda>cols.
     pbind (subject_data drv cols) (\<lambda>subject.
     pbind (marks_rows drv rows) (\<lambda>marks_data. ret (subject # marks_data))))"

definition semester_xpath :: "string \<Rightarrow> string" where
  "semester_xpath semester = ''//option[text()='' @ [CHR 0x27] @ semester @ [CHR 0x27] @ '']''"

text \<open>A reader of XPath 1.0 string literals: \<^verbatim>\<open>'...'\<close> holding no apostrophe or
  \<^verbatim>\<open>"..."\<close> holding no double quote (XPath 1.0 has no escapes inside a literal), and the
  text after it.\<close>

definition xpath_literal :: "string \<Rightarrow> (string \<times> string) option" where
  "xpath_literal x =
     (case x of
        [] \<Rightarrow> None
      | q # r \<Rightarrow>
          (if q = CHR 0x27 \<or> q = CHR 0x22 then
             (let lit = takeWhile (\<lambda>c. c \<noteq> q) r in
              case drop (length lit) r of [] \<Rightarrow> None | _ # rest \<Rightarrow> Some (lit, rest))
           else None))"

text \<open>A reader of the selector shape \<^verbatim>\<open>//option[text()=L]\<close>: the value of the literal
  \<open>L\<close>, when the string is exactly one option-text test with one literal.\<close>

definition option_text_literal :: "string \<Rightarrow> string option" where
  "option_text_literal x =
     (if take 16 x = ''//option[text()='' then
        (case xpath_literal (drop 16 x) of Some (lit, rest) \<Rightarrow> if rest = '']'' then Some lit else None | None \<Rightarrow> None)
      else None)"

text \<open>\<^verbatim>\<open>if semester:\<close> is false for \<^verbatim>\<open>None\<close> and for the empty string.\<close>

definition select_semester :: "'d webdriver \<Rightarrow> string option \<Rightarrow> (('d, 'x) world_scheme, unit) pyst" where
  "select_semester drv semester =
     (case semester of
        None \<Rightarrow> ret ()
      | Some s \<Rightarrow>
          (if s = [] then ret ()
           else pbind (on_drv (drv_find_element drv (By_NAME ''semester''))) (\<lambda>semester_select.
                pbind (on_drv (drv_click drv semester_select)) (\<lambda>_.
                pbind (on_drv (drv_find_element drv (By_XPATH (semester_xpath s)))) (\<lambda>semester_option.
                on_drv (drv_click drv semester_option))))))"

definition extract_marks ::
  "au_extractor \<Rightarrow> 'd webdriver \<Rightarrow> string option \<Rightarrow> (('d, 'x) world_scheme, subject list) pyst" where
  "extract_marks ext drv semester =
     catch_log_raise (\<lambda>e. wlog ERROR (MsgExtractMarksError e))
       (pbind (on_drv (drv_get drv (marks_url ext))) (\<lambda>_.
        pbind (select_semester drv semester) (\<lambda>_.
        pbind (on_drv (drv_wait_present drv (By_CLASS_NAME ''marks-table'') 10)) (\<lambda>_.
        pbind (on_drv (drv_find_element drv (By_CLASS_NAME ''marks-table''))) (\<lambda>marks_table.
        pbind (on_drv (drv_find_elements_in drv marks_table (By_TAG_NAME ''tr''))) (\<lambda>rows.
        marks_rows drv (drop 1 rows)))))))"

definition setup_driver :: "('d, unit) pyst \<Rightarrow> (('d, 'x) world_scheme, unit) pyst" where
  "setup_driver chrome = catch_log_raise (\<lambda>e. wlog ERROR (MsgDriverSetupError e)) (on_drv chrome)"

record 'd info_frame = "'d world" +
  driver_bound :: bool

text \<open>Running a statement over the world (\<^verbatim>\<open>login\<close>, \<^verbatim>\<open>extract_info\<close>) inside a frame
  that extends it with the caller's locals.\<close>

definition in_world :: "('d world, 'a) pyst \<Rightarrow> (('d, 'x) world_scheme, 'a) pyst" where
  "in_world m = (\<lambda>f. case m (world.truncate f) of (r, w) \<Rightarrow> (r, world.extend w (world.more f)))"

definition bind_driver :: "('d info_frame, unit) pyst" where
  "bind_driver = (\<lambda>f. (Inr (), f\<lparr>driver_bound := True\<rparr>))"

definition extract_info_try ::
  "pil_backend \<Rightarrow> au_extractor \<Rightarrow> ('d, unit) pyst \<Rightarrow> 'd webdriver \<Rightarrow> string \<Rightarrow> string \<Rightarrow> string option \<Rightarrow>
   ('d info_frame, subject list) pyst" where
  "extract_info_try be ext chrome drv username password semester =
     pbind (setup_driver chrome) (\<lambda>_.
     pbind bind_driver (\<lambda>_.
     pbind (in_world (login be ext drv username password 3)) (\<lambda>logged_in.
     pbind (if \<not> logged_in then throw LoginFailed else ret ()) (\<lambda>_.
     pbind (extract_marks ext drv semester) (\<lambda>marks_data.
     ret marks_data)))))"

text \<open>\<^verbatim>\<open>finally: if driver: driver.quit()\<close>\<close>

definition extract_info_finally :: "'d webdriver \<Rightarrow> ('d info_frame, unit) pyst" where
  "extract_info_finally drv = (\<lambda>f. if driver_bound f then on_drv (drv_quit drv) f else (Inr (), f))"

definition extract_info ::
  "pil_backend \<Rightarrow> au_extractor \<Rightarrow> ('d, unit) pyst \<Rightarrow> 'd webdriver \<Rightarrow> string \<Rightarrow> string \<Rightarrow> string option \<Rightarrow>
   ('d world, subject list) pyst" where
  "extract_info be ext chrome drv username password semester =
     (\<lambda>w. case py_finally
                 (catch_log_raise (\<lambda>e. wlog ERROR (MsgExtractInfoError e))
                    (extract_info_try be ext chrome drv username password semester))
                 (extract_info_finally drv)
                 (world.extend w (info_frame.fields False)) of
            (r, f) \<Rightarrow> (r, world.truncate f))"

text \<open>Fixtures for the properties: \<open>page_driver tbl\<close> serves a page whose only table has the
  rows \<open>tbl\<close> and a one-byte captcha screenshot (element \<open>[]\<close> is the table, \<open>[i]\<close> its row \<open>i\<close>, \<open>[i, j]\<close> a cell);
  \<open>counting drv\<close> behaves as \<open>drv\<close> and counts the calls of \<^verbatim>\<open>quit()\<close> beside
  the driver state.\<close>

definition page_driver :: "string list list \<Rightarrow> unit webdriver" where
  "page_driver tbl =
     \<lparr>drv_get = (\<lambda>url. ret ()), drv_wait_present = (\<lambda>loc t. ret ()),
      drv_find_element = (\<lambda>loc. ret []),
      drv_find_elements_in = (\<lambda>el loc. ret (case el of
          [] \<Rightarrow> map (\<lambda>i. [i]) [0..<length tbl]
        | [i] \<Rightarrow> map (\<lambda>j. [i, j]) [0..<length (tbl ! i)]
        | _ \<Rightarrow> [])),
      drv_text = (\<lambda>el. ret (case el of [i, j] \<Rightarrow> tbl ! i ! j | _ \<Rightarrow> [])),
      drv_screenshot = (\<lambda>el. ret [1]), drv_send_keys = (\<lambda>el txt. ret ()),
      drv_click = (\<lambda>el. ret ()), drv_quit = ret ()\<rparr>"

definition row_subject :: "string list \<Rightarrow> subject" where
  "row_subject r = \<lparr>subj_code = r ! 0, subj_name = r ! 1, subj_internal = r ! 2,
     subj_external = r ! 3, subj_total = r ! 4, subj_result = r ! 5\<rparr>"

definition on_fst :: "('d, 'a) pyst \<Rightarrow> ('d \<times> nat, 'a) pyst" where
  "on_fst m = (\<lambda>(d, k). case m d of (r, d') \<Rightarrow> (r, (d', k)))"

definition counting :: "'d webdriver \<Rightarrow> ('d \<times> nat) webdriver" where
  "counting drv =
     \<lparr>drv_get = (\<lambda>url. on_fst (drv_get drv url)),
      drv_wait_present = (\<lambda>loc t. on_fst (drv_wait_present drv loc t)),
      drv_find_element = (\<lambda>loc. on_fst (drv_find_element drv loc)),
      drv_find_elements_in = (\<lambda>el loc. on_fst (drv_find_elements_in drv el loc)),
      drv_text = (\<lambda>el. on_fst (drv_text drv el)),
      drv_screenshot = (\<lambda>el. on_fst (drv_screenshot drv el)),
      drv_send_keys = (\<lambda>el txt. on_fst (drv_send_keys drv el txt)),
      drv_click = (\<lambda>el. on_fst (drv_click drv el)),
      drv_quit = (\<lambda>(d, k). case drv_quit drv d of (r, d') \<Rightarrow> (r, (d', Suc k)))\<rparr>"

definition quits :: "('d \<times> nat, 'x) world_scheme \<Rightarrow> nat" where
  "quits w = snd (w_drv w)"

definition same_quits :: "('d \<times> nat, 'x) world_scheme \<Rightarrow> ('d \<times> nat, 'x) world_scheme \<Rightarrow> bool" where
  "same_quits w w' \<longleftrightarrow> quits w' = quits w"

definition same_more :: "('d, 'x) world_scheme \<Rightarrow> ('d, 'x) world_scheme \<Rightarrow> bool" where
  "same_more w w' \<longleftrightarrow> world.more w' = world.more w"

definition drv_ops_keep :: "(('d, 'x) world_scheme \<Rightarrow> ('d, 'x) world_scheme \<Rightarrow> bool) \<Rightarrow> 'd webdriver \<Rightarrow> bool" where
  "drv_ops_keep R drv \<longleftrightarrow>
     (\<forall>url. keeps R (on_drv (drv_get drv url))) \<and>
     (\<forall>loc t. keeps R (on_drv (drv_wait_present drv loc t))) \<and>
     (\<forall>loc. keeps R (on_drv (drv_find_element drv loc))) \<and>
     (\<forall>el loc. keeps R (on_drv (drv_find_elements_in drv el loc))) \<and>
     (\<forall>el. keeps R (on_drv (drv_text drv el))) \<and>
     (\<forall>el. keeps R (on_drv (drv_click drv el))) \<and>
     (\<forall>lv msg. keeps R (wlog lv msg))"

definition fs_le :: "('d, 'x) world_scheme \<Rightarrow> ('d, 'x) world_scheme \<Rightarrow> bool" where
  "fs_le f f' \<longleftrightarrow> w_fs f' \<subseteq>\<^sub>m w_fs f"

section \<open>Frames\<close>

lemma w_drv_unit [simp]: "(w :: (unit, 'x) world_scheme)\<lparr>w_drv := d\<rparr> = w"
  by (cases w) simp

lemma page_driver_ops [simp]:
  "drv_find_elements_in (page_driver tbl) [] loc = ret (map (\<lambda>i. [i]) [0..<length tbl])"
  "drv_find_elements_in (page_driver tbl) [i] loc = ret (map (\<lambda>j. [i, j]) [0..<length (tbl ! i)])"
  "drv_text (page_driver tbl) [i, j] = ret (tbl ! i ! j)"
  "drv_get (page_driver tbl) u = ret ()"
  "drv_wait_present (page_driver tbl) loc t = ret ()"
  "drv_find_element (page_driver tbl) loc = ret []"
  "drv_click (page_driver tbl) el = ret ()"
  "drv_screenshot (page_driver tbl) el = ret [1]"
  "drv_send_keys (page_driver tbl) el txt = ret ()"
  "drv_quit (page_driver tbl) = ret ()"
  by (simp_all add: page_driver_def)

lemma subject_data_page:
  "subject_data (page_driver tbl) (map (\<lambda>j. [i, j]) [0..<length (tbl ! i)]) w =
     (if 6 \<le> length (tbl ! i) then (Inr (row_subject (tbl ! i)), w) else (Inl IndexError, w))"
  by (simp add: subject_data_def col_text_def row_subject_def pyst_simps py_index_def numeral_eq_Suc)

lemma marks_rows_page:
  "marks_rows (page_driver tbl) (map (\<lambda>i. [i]) is) w =
     (if list_all (\<lambda>i. 6 \<le> length (tbl ! i)) is then (Inr (map (\<lambda>i. row_subject (tbl ! i)) is), w)
      else (Inl IndexError, w))"
proof (induction "is")
  case Nil
  then show ?case by (simp add: pyst_simps)
next
  case (Cons i "is")
  then show ?case
    by (simp add: pyst_simps subject_data_page)
qed

lemma map_nth_upt_drop: "map (\<lambda>i. f (xs ! i)) [k..<length xs] = map f (drop k xs)"
  by (rule nth_equalityI) simp_all

lemma list_all_nth_upt_drop: "list_all (\<lambda>i. P (xs ! i)) [k..<length xs] = list_all P (drop k xs)"
  by (auto simp: list_all_length)

lemma select_semester_page: "select_semester (page_driver tbl) sem w = (Inr (), w)"
  by (simp add: select_semester_def pyst_simps split: option.splits)

lemma extract_marks_page:
  "extract_marks ext (page_driver tbl) sem w =
     catch_log_raise (\<lambda>e. wlog ERROR (MsgExtractMarksError e))
       (marks_rows (page_driver tbl) (map (\<lambda>i. [i]) [1..<length tbl])) w"
  by (simp add: extract_marks_def pyst_simps select_semester_page drop_map upt_rec)



lemma reflp_same_quits [simp]: "reflp same_quits" and transp_same_quits [simp]: "transp same_quits"
  by (auto simp: reflp_def transp_def same_quits_def)

lemma reflp_same_more [simp]: "reflp same_more" and transp_same_more [simp]: "transp same_more"
  by (auto simp: reflp_def transp_def same_more_def)

lemma counting_ops [simp]:
  "drv_get (counting drv) url = on_fst (drv_get drv url)"
  "drv_wait_present (counting drv) loc t = on_fst (drv_wait_present drv loc t)"
  "drv_find_element (counting drv) loc = on_fst (drv_find_element drv loc)"
  "drv_find_elements_in (counting drv) el loc = on_fst (drv_find_elements_in drv el loc)"
  "drv_text (counting drv) el = on_fst (drv_text drv el)"
  "drv_screenshot (counting drv) el = on_fst (drv_screenshot drv el)"
  "drv_send_keys (counting drv) el txt = on_fst (drv_send_keys drv el txt)"
  "drv_click (counting drv) el = on_fst (drv_click drv el)"
  "drv_quit (counting drv) = (\<lambda>(d, k). case drv_quit drv d of (r, d') \<Rightarrow> (r, (d', Suc k)))"
  by (simp_all add: counting_def)

lemma keeps_quits_on_fst [keeps_intros]: "keeps same_quits (on_drv (on_fst m))"
  by (simp add: keeps_def on_drv_def on_fst_def same_quits_def quits_def split: prod.splits)

lemma keeps_quits_with_fs [keeps_intros]: "keeps same_quits (with_fs g)"
  by (simp add: keeps_def with_fs_def same_quits_def quits_def split: prod.splits)

lemma keeps_quits_wlog [keeps_intros]: "keeps same_quits (wlog lv msg)"
  by (simp add: wlog_def keeps_quits_with_fs)

lemma keeps_quits_login_try: "keeps same_quits (login_try be ext (counting drv) u pw n a)"
proof -
  have sc: "keeps same_quits (set_captcha_path p)" for p :: path
    by (simp add: keeps_def set_captcha_path_def same_quits_def quits_def)
  have wf: "keeps same_quits (save_screenshot p b)" for p b
    by (simp add: keeps_def save_screenshot_def same_quits_def quits_def split: option.splits)
  show ?thesis
    unfolding login_try_def login_navigate_def login_capture_def login_solve_def login_submit_def
      login_await_def counting_ops
    by (intro keeps_intros sc wf reflp_same_quits transp_same_quits)
qed

lemma quits_login_attempt:
  "quits (snd (login_attempt be ext drv u pw n a f)) = quits (snd (login_try be ext drv u pw n a f))"
  by (simp add: login_attempt_def login_except_def login_finally_def quits_def Let_def pyst_simps
      split: prod.splits sum.splits option.splits)

lemma keeps_quits_login: "keeps same_quits (login be ext (counting (drv :: 'd webdriver)) u pw n)"
  unfolding keeps_def
proof
  fix w :: "('d \<times> nat) world"
  have lp: "same_quits f (snd (login_loop be ext (counting drv) u pw n 0 f))" for f
    using keeps_quits_login_try [of be ext drv u pw n]
    by (intro login_loop_keeps [OF reflp_same_quits transp_same_quits])
       (simp add: keeps_def same_quits_def quits_login_attempt)
  obtain r f where "login_loop be ext (counting drv) u pw n 0 (world.extend w (login_frame.fields None)) = (r, f)"
    by fastforce
  with lp [of "world.extend w (login_frame.fields None)"]
  show "same_quits w (snd (login be ext (counting drv) u pw n w))"
    by (simp add: login_def same_quits_def quits_def)
qed

lemma drv_ops_keep_counting: "drv_ops_keep same_quits (counting drv)"
  by (simp add: drv_ops_keep_def keeps_quits_on_fst keeps_quits_wlog)

lemma drv_ops_keep_more: "drv_ops_keep same_more drv"
  by (simp add: drv_ops_keep_def keeps_def on_drv_def wlog_def with_fs_def same_more_def split: prod.splits)

lemma keeps_extract_marks:
  assumes R: "reflp R" "transp R" and ops: "drv_ops_keep R drv"
  shows "keeps R (extract_marks ext drv sem)"
proof -
  note o = ops [unfolded drv_ops_keep_def]
  have ct: "keeps R (col_text drv cols i)" for cols i
    unfolding col_text_def using o by (intro keeps_intros R) auto
  have sd: "keeps R (subject_data drv cols)" for cols
    unfolding subject_data_def by (intro keeps_intros R ct)
  have mr: "keeps R (marks_rows drv rows)" for rows
  proof (induction rows)
    case (Cons row rows)
    then show ?case using o by (auto intro!: keeps_intros R sd)
  qed (simp add: R keeps_intros)
  have ss: "keeps R (select_semester drv sem)"
    unfolding select_semester_def using o by (cases sem) (auto intro!: keeps_intros R)
  show ?thesis
    unfolding extract_marks_def using o by (intro keeps_intros R mr ss) auto
qed

lemma same_more_bound: "same_more f f' \<Longrightarrow> driver_bound f' = driver_bound f"
  by (cases f, cases f') (simp add: same_more_def)

lemma keeps_quits_in_world:
  assumes "keeps same_quits (m :: (('d \<times> nat) world, 'a) pyst)"
  shows "keeps same_quits (in_world m)"
  unfolding keeps_def
proof
  fix f :: "('d \<times> nat, 'x) world_scheme"
  obtain r w where mw: "m (world.truncate f) = (r, w)" by fastforce
  with assms have "quits w = quits (world.truncate f)" by (auto simp: same_quits_def dest: keepsD)
  with mw show "same_quits f (snd (in_world m f))"
    by (simp add: in_world_def same_quits_def quits_def)
qed

lemma keeps_more_in_world: "keeps same_more (in_world m)"
  by (simp add: keeps_def in_world_def same_more_def world.extend_def split: prod.splits)

lemma quits_extract_info_try:
  "quits (snd (extract_info_try be ext (on_fst chrome) (counting (drv :: 'd webdriver)) u pw sem f)) = quits f"
proof -
  have bd: "keeps same_quits (bind_driver :: (('d \<times> nat) info_frame, unit) pyst)"
    by (simp add: keeps_def bind_driver_def same_quits_def quits_def)
  have "keeps same_quits (extract_info_try be ext (on_fst chrome) (counting drv) u pw sem)"
    unfolding extract_info_try_def setup_driver_def
    by (intro keeps_intros bd keeps_quits_in_world keeps_quits_login keeps_extract_marks drv_ops_keep_counting
          reflp_same_quits transp_same_quits)
  then show ?thesis by (simp add: keeps_def same_quits_def)
qed

lemma bound_extract_info_try:
  "driver_bound (snd (extract_info_try be ext chrome drv u pw sem f)) =
     (driver_bound f \<or> fst (chrome (w_drv f)) = Inr ())"
proof (cases "chrome (w_drv f)")
  case (Pair res d')
  show ?thesis
  proof (cases res)
    case (Inl e)
    with Pair show ?thesis
      by (simp add: extract_info_try_def setup_driver_def pyst_simps wlog_def with_fs_def)
  next
    case (Inr u0)
    let ?rest = "pbind (in_world (login be ext drv u pw 3) :: (_ info_frame, bool) pyst) (\<lambda>logged_in.
                 pbind (if \<not> logged_in then throw LoginFailed else ret ()) (\<lambda>_.
                 pbind (extract_marks ext drv sem) (\<lambda>marks_data. ret marks_data)))"
    have s1: "setup_driver chrome f = (Inr (), f\<lparr>w_drv := d'\<rparr>)"
      using Pair Inr by (simp add: setup_driver_def pyst_simps)
    have s2: "bind_driver (f\<lparr>w_drv := d'\<rparr>) = (Inr (), f\<lparr>w_drv := d', driver_bound := True\<rparr>)"
      by (simp add: bind_driver_def)
    have eq: "extract_info_try be ext chrome drv u pw sem f = ?rest (f\<lparr>w_drv := d', driver_bound := True\<rparr>)"
      by (simp only: extract_info_try_def pbind_Inr [where m = "setup_driver chrome", OF s1]
          pbind_Inr [where m = bind_driver, OF s2])
    have "keeps same_more ?rest"
      by (intro keeps_intros keeps_more_in_world keeps_extract_marks drv_ops_keep_more
            reflp_same_more transp_same_more)
    then have "same_more (f\<lparr>w_drv := d', driver_bound := True\<rparr>) (snd (?rest (f\<lparr>w_drv := d', driver_bound := True\<rparr>)))"
      by (simp add: keeps_def)
    then show ?thesis using Pair Inr eq by (simp add: same_more_bound)
  qed
qed

lemma fst_in_world: "fst (in_world m f) = fst (m (world.truncate f))"
  by (simp add: in_world_def split: prod.splits)

lemma extract_info_try_shipped:
  "\<exists>e. fst (extract_info_try be au_extractor_init chrome drv u pw sem f) = Inl e"
proof (cases "setup_driver chrome f")
  case (Pair r f1)
  show ?thesis
  proof (cases r)
    case (Inl e)
    with Pair have "extract_info_try be au_extractor_init chrome drv u pw sem f = (Inl e, f1)"
      unfolding extract_info_try_def by (intro pbind_Inl) simp
    then show ?thesis by simp
  next
    case (Inr x)
    define f2 where "f2 = f1\<lparr>driver_bound := True\<rparr>"
    have "\<exists>e. fst (login be au_extractor_init drv u pw 3 (world.truncate f2)) = Inl e"
      by (rule login_shipped_raises) simp
    then obtain e where "fst (login be au_extractor_init drv u pw 3 (world.truncate f2)) = Inl e" ..
    moreover obtain r3 f3 where il0: "in_world (login be au_extractor_init drv u pw 3) f2 = (r3, f3)"
      by (cases "in_world (login be au_extractor_init drv u pw 3) f2")
    ultimately have il: "in_world (login be au_extractor_init drv u pw 3) f2 = (Inl e, f3)"
      using fst_in_world [of "login be au_extractor_init drv u pw 3" f2] by simp
    have s1: "setup_driver chrome f = (Inr (), f1)" using Pair Inr by simp
    have s2: "bind_driver f1 = (Inr (), f2)" by (simp add: bind_driver_def f2_def)
    have "extract_info_try be au_extractor_init chrome drv u pw sem f = (Inl e, f3)"
      unfolding extract_info_try_def
      by (simp only: pbind_Inr [where m = "setup_driver chrome", OF s1]
            pbind_Inr [where m = bind_driver, OF s2] pbind_Inl [where m = "in_world _", OF il])
    then show ?thesis by simp
  qed
qed

lemma extract_info_shipped: "\<exists>e. fst (extract_info be au_extractor_init chrome drv u pw sem w) = Inl e"
proof -
  define body where "body = catch_log_raise (\<lambda>e. wlog ERROR (MsgExtractInfoError e))
                              (extract_info_try be au_extractor_init chrome drv u pw sem)"
  define f0 :: "_ info_frame" where "f0 = world.extend w (info_frame.fields False)"
  obtain e where "fst (extract_info_try be au_extractor_init chrome drv u pw sem f0) = Inl e"
    using extract_info_try_shipped by blast
  then have b: "fst (body f0) = Inl e" unfolding body_def by (rule catch_log_raise_Inl)
  obtain e' where e': "fst (py_finally body (extract_info_finally drv) f0) = Inl e'"
    using py_finally_Inl [where m = body, OF b] by blast
  obtain r f' where pf: "py_finally body (extract_info_finally drv) f0 = (r, f')"
    by (cases "py_finally body (extract_info_finally drv) f0")
  have "extract_info be au_extractor_init chrome drv u pw sem w = (r, world.truncate f')"
    using pf unfolding extract_info_def body_def f0_def by (simp only: prod.case)
  with e' pf show ?thesis by simp
qed

lemma reflp_fs_le [simp]: "reflp fs_le" and transp_fs_le [simp]: "transp fs_le"
  by (auto simp: reflp_def transp_def fs_le_def intro: map_le_trans)

lemma drv_ops_keep_fs: "drv_ops_keep fs_le drv"
  by (simp add: drv_ops_keep_def keeps_def on_drv_def wlog_def with_fs_def fs_le_def split: prod.splits)

lemma keeps_fs_on_drv: "keeps fs_le (on_drv m)" and keeps_fs_wlog: "keeps fs_le (wlog lv msg)"
  by (simp_all add: keeps_def on_drv_def wlog_def with_fs_def fs_le_def split: prod.splits)

lemma keeps_fs_in_world_login:
  "keeps fs_le (in_world (login be ext (drv :: 'd webdriver) u pw n) :: (('d, 'x) world_scheme, bool) pyst)"
  unfolding keeps_def
proof
  fix f :: "('d, 'x) world_scheme"
  obtain r g where lp: "login_loop be ext drv u pw n 0 (world.extend (world.truncate f) (login_frame.fields None)) = (r, g)"
    by fastforce
  then have "w_fs g \<subseteq>\<^sub>m w_fs f" using login_loop_fs by fastforce
  with lp show "fs_le f (snd (in_world (login be ext drv u pw n) f))"
    by (simp add: in_world_def login_def fs_le_def)
qed

lemma extract_info_fs: "w_fs (snd (extract_info be ext chrome drv u pw sem w)) \<subseteq>\<^sub>m w_fs w"
proof -
  have sd: "keeps fs_le (setup_driver chrome)"
    unfolding setup_driver_def by (intro keeps_intros keeps_fs_on_drv keeps_fs_wlog reflp_fs_le transp_fs_le)
  have bd: "keeps fs_le (bind_driver :: ('d info_frame, unit) pyst)"
    by (simp add: keeps_def bind_driver_def fs_le_def)
  have fin: "keeps fs_le (extract_info_finally drv)"
    using keeps_fs_on_drv by (auto simp: keeps_def extract_info_finally_def fs_le_def)
  define body where "body = py_finally (catch_log_raise (\<lambda>e. wlog ERROR (MsgExtractInfoError e))
          (extract_info_try be ext chrome drv u pw sem)) (extract_info_finally drv)"
  have k: "keeps fs_le body"
    unfolding body_def extract_info_try_def
    by (intro keeps_intros sd bd fin keeps_fs_in_world_login keeps_fs_wlog keeps_extract_marks drv_ops_keep_fs
          reflp_fs_le transp_fs_le)
  obtain r x where pf: "body (world.extend w (info_frame.fields False)) = (r, x)"
    by (cases "body (world.extend w (info_frame.fields False))")
  have "fs_le (world.extend w (info_frame.fields False)) x" using keepsD [OF k pf] .
  moreover have "extract_info be ext chrome drv u pw sem w = (r, world.truncate x)"
    using pf unfolding extract_info_def body_def by (simp only: prod.case)
  ultimately show ?thesis by (simp add: fs_le_def)
qed

section \<open>Properties of the extraction\<close>

text \<open>
  Claim C7 (safety).  Whatever the driver, the browser and the site do, \<^verbatim>\<open>extract_info\<close>
  calls \<^verbatim>\<open>driver.quit()\<close> exactly once when \<^verbatim>\<open>setup_driver\<close> returned a driver, and
  never when the launch failed.  The calls are counted by the wrapper \<open>counting\<close>.
\<close>

theorem extract_info_quits_once:
  "quits (snd (extract_info be ext (on_fst chrome) (counting drv) u pw sem w)) =
     quits w + (if fst (chrome (fst (w_drv w))) = Inr () then 1 else 0)"
proof -
  let ?f0 = "world.extend w (info_frame.fields False)"
  obtain r f1 where t: "extract_info_try be ext (on_fst chrome) (counting drv) u pw sem ?f0 = (r, f1)"
    by fastforce
  have q1: "quits f1 = quits w"
    using quits_extract_info_try [of be ext chrome drv u pw sem ?f0] t by (simp add: quits_def)
  have b1: "driver_bound f1 = (fst (chrome (fst (w_drv w))) = Inr ())"
    using bound_extract_info_try [of be ext "on_fst chrome" "counting drv" u pw sem ?f0] t
    by (simp add: on_fst_def world.extend_def info_frame.fields_def split: prod.splits)
  obtain f2 where c: "catch_log_raise (\<lambda>e. wlog ERROR (MsgExtractInfoError e))
                        (extract_info_try be ext (on_fst chrome) (counting drv) u pw sem) ?f0 = (r, f2)"
      and q2: "quits f2 = quits f1" and b2: "driver_bound f2 = driver_bound f1"
    by (cases r) (auto simp: pyst_simps t wlog_def with_fs_def quits_def)
  show ?thesis
    using c q1 q2 b1 b2
    by (auto simp: extract_info_def pyst_simps extract_info_finally_def quits_def split: prod.splits sum.splits)
qed

text \<open>
  Claim C33 (functional).  On a page whose marks table has a header row and data rows of at
  least six cells, \<^verbatim>\<open>extract_marks\<close> returns one record per data row, in order,
  with the texts of its first six cells; nothing is logged.
\<close>

theorem extract_marks_table:
  assumes "list_all (\<lambda>r. 6 \<le> length r) (drop 1 tbl)"
  shows "extract_marks ext (page_driver tbl) sem w = (Inr (map row_subject (drop 1 tbl)), w)"
  using assms
  by (simp add: extract_marks_page marks_rows_page pyst_simps map_nth_upt_drop list_all_nth_upt_drop [where P = "\<lambda>r. 6 \<le> length r"])

theorem extract_marks_table_witness:
  "extract_marks au_extractor_init (page_driver [[''Code'', ''Subject''], [''CS3251'', ''Programming in C'', ''38'', ''52'', ''90'', ''PASS'']]) None \<lparr>w_drv = (), w_fs = Map.empty, w_log = [], w_open_err = Map.empty\<rparr> =
     (Inr [\<lparr>subj_code = ''CS3251'', subj_name = ''Programming in C'', subj_internal = ''38'',
            subj_external = ''52'', subj_total = ''90'', subj_result = ''PASS''\<rparr>], \<lparr>w_drv = (), w_fs = Map.empty, w_log = [], w_open_err = Map.empty\<rparr>)"
  using extract_marks_table [where tbl = "[[''Code'', ''Subject''], [''CS3251'', ''Programming in C'', ''38'', ''52'', ''90'', ''PASS'']]" and ext = au_extractor_init and sem = None and w = "\<lparr>w_drv = (), w_fs = Map.empty, w_log = [], w_open_err = Map.empty\<rparr>"]
  by (simp add: row_subject_def)

text \<open>
  Claim C34 (error).  If a data row of the marks table has fewer than six cells,
  \<^verbatim>\<open>extract_marks\<close> raises \<^verbatim>\<open>IndexError\<close> and logs it once.
\<close>

theorem extract_marks_short_row:
  assumes "\<not> list_all (\<lambda>r. 6 \<le> length r) (drop 1 tbl)"
  shows "extract_marks ext (page_driver tbl) sem w =
           (Inl IndexError, w\<lparr>w_log := w_log w @ [(ERROR, MsgExtractMarksError IndexError)]\<rparr>)"
  using assms
  by (simp add: extract_marks_page marks_rows_page pyst_simps list_all_nth_upt_drop [where P = "\<lambda>r. 6 \<le> length r"])

theorem extract_marks_short_row_witness:
  "extract_marks au_extractor_init (page_driver [[''Code'', ''Subject''], [''CS3251'', ''Programming in C'']]) (Some ''5'') \<lparr>w_drv = (), w_fs = Map.empty, w_log = [], w_open_err = Map.empty\<rparr> =
     (Inl IndexError, \<lparr>w_drv = (), w_fs = Map.empty, w_log = [(ERROR, MsgExtractMarksError IndexError)], w_open_err = Map.empty\<rparr>)"
  using extract_marks_short_row [where tbl = "[[''Code'', ''Subject''], [''CS3251'', ''Programming in C'']]" and ext = au_extractor_init and sem = "Some ''5''" and w = "\<lparr>w_drv = (), w_fs = Map.empty, w_log = [], w_open_err = Map.empty\<rparr>"]
  by simp

text \<open>
  Claim C36 (roundtrip, a defect of the code).  Read as an XPath 1.0 selector, the
  string built at line 195 is the test "option text equals the semester" exactly when
  the semester contains no apostrophe: the f-string always delimits the literal with
  apostrophes and does not switch to double quotes (or \<^verbatim>\<open>concat()\<close>) when the value
  holds one, so a semester such as \<^verbatim>\<open>x' or 'a'='a\<close> ends the literal early and yields
  a different XPath.
\<close>

theorem semester_xpath_literal:
  "option_text_literal (semester_xpath s) = (if CHR 0x27 \<in> set s then None else Some s)"
proof -
  have d: "drop 16 (semester_xpath s) = CHR 0x27 # s @ [CHR 0x27] @ '']''"
    and t: "take 16 (semester_xpath s) = ''//option[text()=''"
    by (simp_all add: semester_xpath_def)
  show ?thesis
  proof (cases "CHR 0x27 \<in> set s")
    case True
    then obtain a b where s: "s = a @ CHR 0x27 # b" and a: "CHR 0x27 \<notin> set a"
      by (blast dest: split_list_first)
    have "takeWhile (\<lambda>c. c \<noteq> CHR 0x27) (s @ [CHR 0x27] @ '']'') = a"
      using a by (simp add: s takeWhile_append2 takeWhile_tail) blast
    then have "xpath_literal (drop 16 (semester_xpath s)) = Some (a, b @ [CHR 0x27] @ '']'')"
      unfolding d by (simp add: xpath_literal_def Let_def s)
    then show ?thesis using True by (simp add: option_text_literal_def t)
  next
    case False
    then have "takeWhile (\<lambda>c. c \<noteq> CHR 0x27) (s @ [CHR 0x27] @ '']'') = s"
      by (simp add: takeWhile_append2 takeWhile_tail) blast
    then have "xpath_literal (drop 16 (semester_xpath s)) = Some (s, '']'')"
      unfolding d by (simp add: xpath_literal_def Let_def)
    then show ?thesis using False by (simp add: option_text_literal_def t)
  qed
qed

text \<open>The statements a whole run of \<^verbatim>\<open>extract_info\<close> unfolds to, for concrete runs.\<close>

lemmas extract_info_run =
  extract_info_def extract_info_try_def extract_info_finally_def setup_driver_def bind_driver_def
  in_world_def login_def login_loop_unfold login_attempt_def login_try_def login_navigate_def
  login_capture_def login_solve_def login_submit_def login_await_def set_captcha_path_def
  login_except_def login_finally_def pyst_simps Let_def py_finally_def world.extend_def
  world.truncate_def login_frame.fields_def info_frame.fields_def remove_if_exists_def

lemma solve_empty_grey:
  "fs p = Some [1] \<Longrightarrow> solve (be_grey 7) \<lparr>test_set = [], char_map = cm\<rparr> fs p l =
     (Inr [], l @ map (\<lambda>i. (WARNING, MsgLowConfidence i)) [0..<6])"
proof -
  have "\<And>p. pil_decode (be_grey 7) p [1] = Inr \<lparr>im_width = 1, im_height = 1, im_pixels = [[7]]\<rparr>"
    by (simp add: be_grey_def)
  then show "fs p = Some [1] \<Longrightarrow> ?thesis" using solve_empty_decoded by blast
qed

lemma extract_marks_page_rows:
  "list_all (\<lambda>r. 6 \<le> length r) (drop 1 tbl) \<Longrightarrow>
   extract_marks ext (page_driver tbl) sem w = (Inr (map row_subject (drop 1 tbl)), w)"
  by (simp add: extract_marks_page marks_rows_page pyst_simps map_nth_upt_drop
      list_all_nth_upt_drop [where P = "\<lambda>r. 6 \<le> length r"])

text \<open>Reading the marks does not use \<^verbatim>\<open>quit()\<close>.\<close>

lemma marks_rows_drv_quit: "marks_rows (drv\<lparr>drv_quit := q\<rparr>) rows = marks_rows drv rows"
  by (induction rows) (simp_all add: subject_data_def col_text_def)

lemma extract_marks_drv_quit: "extract_marks ext (drv\<lparr>drv_quit := q\<rparr>) sem = extract_marks ext drv sem"
  by (cases sem) (simp_all add: extract_marks_def select_semester_def marks_rows_drv_quit)

text \<open>
  Claim C8 (functional, the composition of launch, login, extraction and quit).  With
  a solver that returns (here an empty library, which returns the empty string after
  six low-confidence warnings), a working directory where the capture can be written,
  and a site that lets the first submission through and
  serves a well-formed marks table, \<^verbatim>\<open>extract_info\<close> logs in at the first attempt,
  returns one record per data row, removes the capture and logs exactly the attempt,
  the warnings, the solution and the success.
\<close>

theorem extract_info_returns_marks:
  assumes "list_all (\<lambda>r. 6 \<le> length r) (drop 1 tbl)" "w_open_err w (temp_captcha_path 0) = None"
  shows "extract_info (be_grey 7) (au_extractor_init\<lparr>captcha_solver_of := \<lparr>test_set = [], char_map = char_map_default\<rparr>\<rparr>)
           (ret ()) (page_driver tbl) u pw sem w =
         (Inr (map row_subject (drop 1 tbl)),
          w\<lparr>w_fs := (w_fs w)(temp_captcha_path 0 := None),
            w_log := w_log w @ [(INFO, MsgLoginAttempt 1 3)] @ map (\<lambda>i. (WARNING, MsgLowConfidence i)) [0..<6] @
                     [(INFO, MsgCaptchaSolution []), (INFO, MsgLoginSuccessful)]\<rparr>)"
  using assms by (simp add: extract_info_run extract_marks_page_rows solve_empty_grey)
theorem extract_info_returns_marks_witness:
  "list_all (\<lambda>r. 6 \<le> length r) (drop 1 [[''Code'', ''Subject''], [''CS3251'', ''Programming in C'', ''38'', ''52'', ''90'', ''PASS'']]) \<and>
   fst (extract_info (be_grey 7) (au_extractor_init\<lparr>captcha_solver_of := \<lparr>test_set = [], char_map = char_map_default\<rparr>\<rparr>)
          (ret ()) (page_driver [[''Code'', ''Subject''], [''CS3251'', ''Programming in C'', ''38'', ''52'', ''90'', ''PASS'']])
          ''user'' ''pw'' None \<lparr>w_drv = (), w_fs = Map.empty, w_log = [], w_open_err = Map.empty\<rparr>) =
     Inr [\<lparr>subj_code = ''CS3251'', subj_name = ''Programming in C'', subj_internal = ''38'',
           subj_external = ''52'', subj_total = ''90'', subj_result = ''PASS''\<rparr>]"
  using extract_info_returns_marks [where tbl = "[[''Code'', ''Subject''], [''CS3251'', ''Programming in C'', ''38'', ''52'', ''90'', ''PASS'']]"
      and u = "''user''" and pw = "''pw''" and sem = None and w = "\<lparr>w_drv = (), w_fs = Map.empty, w_log = [], w_open_err = Map.empty\<rparr>"]
  by (simp add: row_subject_def)

text \<open>
  Claim C9 (error path).  When the browser cannot be launched, \<^verbatim>\<open>extract_info\<close>
  logs the exception twice (\<^verbatim>\<open>setup_driver\<close>, line 132, and its own handler,
  line 239), never calls \<^verbatim>\<open>quit()\<close> (\<^verbatim>\<open>driver\<close> is still \<^verbatim>\<open>None\<close>), and raises that
  exception, whatever the solver and the site.
\<close>

theorem extract_info_setup_failure:
  assumes "chrome (w_drv w) = (Inl e, d1)"
  shows "extract_info be ext chrome drv u pw sem w =
           (Inl e, w\<lparr>w_drv := d1, w_log := w_log w @ [(ERROR, MsgDriverSetupError e), (ERROR, MsgExtractInfoError e)]\<rparr>)"
  using assms by (simp add: extract_info_run on_drv_def wlog_def with_fs_def emit_def)

theorem extract_info_setup_failure_witness:
  "(throw (WebDriverException ''chromedriver not found'') :: (unit, unit) pyst) () = (Inl (WebDriverException ''chromedriver not found''), ()) \<and>
   extract_info (be_grey 7) au_extractor_init (throw (WebDriverException ''chromedriver not found'')) (ok_driver :: unit webdriver)
     ''user'' ''pw'' None \<lparr>w_drv = (), w_fs = Map.empty, w_log = [], w_open_err = Map.empty\<rparr> =
   (Inl (WebDriverException ''chromedriver not found''),
    \<lparr>w_drv = (), w_fs = Map.empty,
       w_log = [(ERROR, MsgDriverSetupError (WebDriverException ''chromedriver not found'')),
                (ERROR, MsgExtractInfoError (WebDriverException ''chromedriver not found''))], w_open_err = Map.empty\<rparr>)"
  using extract_info_setup_failure [where chrome = "throw (WebDriverException ''chromedriver not found'')"
      and w = "\<lparr>w_drv = (), w_fs = Map.empty, w_log = [], w_open_err = Map.empty\<rparr>" and e = "WebDriverException ''chromedriver not found''"
      and be = "be_grey 7" and ext = au_extractor_init and drv = "ok_driver :: unit webdriver"
      and u = "''user''" and pw = "''pw''" and sem = None]
  by (simp add: pyst_simps)

text \<open>
  Claim C10 (error path, the \<^verbatim>\<open>finally\<close> clause).  If \<^verbatim>\<open>driver.quit()\<close> raises after a
  successful login and extraction, the records are lost: \<^verbatim>\<open>extract_info\<close> raises the
  exception of \<^verbatim>\<open>quit()\<close> instead of returning them, and logs nothing for it, since
  its handler covers only the \<^verbatim>\<open>try\<close> body.
\<close>

theorem extract_info_quit_error:
  assumes "list_all (\<lambda>r. 6 \<le> length r) (drop 1 tbl)" "w_open_err w (temp_captcha_path 0) = None"
  shows "extract_info (be_grey 7) (au_extractor_init\<lparr>captcha_solver_of := \<lparr>test_set = [], char_map = char_map_default\<rparr>\<rparr>)
           (ret ()) ((page_driver tbl)\<lparr>drv_quit := throw q\<rparr>) u pw sem w =
         (Inl q,
          w\<lparr>w_fs := (w_fs w)(temp_captcha_path 0 := None),
            w_log := w_log w @ [(INFO, MsgLoginAttempt 1 3)] @ map (\<lambda>i. (WARNING, MsgLowConfidence i)) [0..<6] @
                     [(INFO, MsgCaptchaSolution []), (INFO, MsgLoginSuccessful)]\<rparr>)"
  using assms
  by (simp add: extract_info_run extract_marks_drv_quit extract_marks_page_rows solve_empty_grey on_drv_def)

theorem extract_info_quit_error_witness:
  "list_all (\<lambda>r. 6 \<le> length r) (drop 1 [[''Code''], [''CS3251'', ''Programming in C'', ''38'', ''52'', ''90'', ''PASS'']]) \<and>
   fst (extract_info (be_grey 7) (au_extractor_init\<lparr>captcha_solver_of := \<lparr>test_set = [], char_map = char_map_default\<rparr>\<rparr>)
          (ret ()) ((page_driver [[''Code''], [''CS3251'', ''Programming in C'', ''38'', ''52'', ''90'', ''PASS'']])\<lparr>drv_quit := throw (WebDriverException ''invalid session id'')\<rparr>)
          ''user'' ''pw'' None \<lparr>w_drv = (), w_fs = Map.empty, w_log = [], w_open_err = Map.empty\<rparr>) =
     Inl (WebDriverException ''invalid session id'')"
  using extract_info_quit_error [where tbl = "[[''Code''], [''CS3251'', ''Programming in C'', ''38'', ''52'', ''90'', ''PASS'']]"
      and q = "WebDriverException ''invalid session id''" and u = "''user''" and pw = "''pw''" and sem = None
      and w = "\<lparr>w_drv = (), w_fs = Map.empty, w_log = [], w_open_err = Map.empty\<rparr>"]
  by simp

end
