(* ===== verification/CLI.thy ===== *)
theory CLI
  imports Extract
begin

text \<open>
  \<^verbatim>\<open>main()\<close> (\<^verbatim>\<open>src/scraper-script.py\<close>, lines 246--277).  The parsed command line is the
  record \<open>cli_args\<close> (argument parsing itself, \<^verbatim>\<open>argparse\<close>, is not modelled); the
  process state \<open>'d proc\<close> extends the world with what \<^verbatim>\<open>print\<close> wrote to standard
  output, one string per call.  \<^verbatim>\<open>json.dump(marks_data, f, indent=2)\<close> is the
  parameter \<open>json_dump\<close>, the bytes it writes.  \<^verbatim>\<open>sys.exit(1)\<close> ends the process:
  \<open>main_cli\<close> returns the exit status.
\<close>

record cli_args =
  arg_username :: string
  arg_password :: string
  arg_semester :: "string option"
  arg_output :: "path option"

record 'd proc = "'d world" +
  stdout :: "string list"

definition py_print :: "string \<Rightarrow> ('d proc, unit) pyst" where
  "py_print s = (\<lambda>f. (Inr (), f\<lparr>stdout := stdout f @ [s]\<rparr>))"

definition print_subject :: "subject \<Rightarrow> ('d proc, unit) pyst" where
  "print_subject subject =
     pbind (py_print ([CHR 0x0A] @ ''Subject: '' @ subj_name subject @ '' ('' @ subj_code subject @ '')'')) (\<lambda>_.
     pbind (py_print (''Internal: '' @ subj_internal subject)) (\<lambda>_.
     pbind (py_print (''External: '' @ subj_external subject)) (\<lambda>_.
     pbind (py_print (''Total: '' @ subj_total subject)) (\<lambda>_.
     py_print (''Result: '' @ subj_result subject)))))"

fun print_marks :: "subject list \<Rightarrow> ('d proc, unit) pyst" where
  "print_marks [] = ret ()"
| "print_marks (subject # marks_data) = pbind (print_subject subject) (\<lambda>_. print_marks marks_data)"

definition save_marks :: "(subject list \<Rightarrow> bytes) \<Rightarrow> path \<Rightarrow> subject list \<Rightarrow> ('d proc, unit) pyst" where
  "save_marks json_dump output marks_data =
     pbind (write_file output (json_dump marks_data)) (\<lambda>_. wlog INFO (MsgSaved output))"

text \<open>\<^verbatim>\<open>if marks_data:\<close> and \<^verbatim>\<open>if args.output:\<close> test truthiness: the empty list and the
  empty path count as absent.\<close>

definition report_marks :: "(subject list \<Rightarrow> bytes) \<Rightarrow> cli_args \<Rightarrow> subject list \<Rightarrow> ('d proc, unit) pyst" where
  "report_marks json_dump args marks_data =
     (if marks_data = [] then ret ()
      else (case arg_output args of
              Some output \<Rightarrow> if output \<noteq> [] then save_marks json_dump output marks_data
                             else print_marks marks_data
            | None \<Rightarrow> print_marks marks_data))"

definition main_try ::
  "pil_backend \<Rightarrow> ('d, unit) pyst \<Rightarrow> 'd webdriver \<Rightarrow> (subject list \<Rightarrow> bytes) \<Rightarrow> cli_args \<Rightarrow> ('d proc, unit) pyst" where
  "main_try be chrome drv json_dump args =
     pbind (in_world (extract_info be au_extractor_init chrome drv
                        (arg_username args) (arg_password args) (arg_semester args))) (\<lambda>marks_data.
     report_marks json_dump args marks_data)"

definition main_cli ::
  "pil_backend \<Rightarrow> ('d, unit) pyst \<Rightarrow> 'd webdriver \<Rightarrow> (subject list \<Rightarrow> bytes) \<Rightarrow> cli_args \<Rightarrow> ('d proc, nat) pyst" where
  "main_cli be chrome drv json_dump args =
     (\<lambda>f. case main_try be chrome drv json_dump args f of
            (Inr _, f') \<Rightarrow> (Inr 0, f')
          | (Inl e, f') \<Rightarrow> (Inr 1, snd (wlog ERROR (MsgMainError e) f')))"

text \<open>The lines \<^verbatim>\<open>main\<close> prints for one record.\<close>

definition subject_lines :: "subject \<Rightarrow> string list" where
  "subject_lines s =
     [[CHR 0x0A] @ ''Subject: '' @ subj_name s @ '' ('' @ subj_code s @ '')'',
      ''Internal: '' @ subj_internal s, ''External: '' @ subj_external s,
      ''Total: '' @ subj_total s, ''Result: '' @ subj_result s]"

lemma print_marks_out:
  "print_marks ms f = (Inr (), f\<lparr>stdout := stdout f @ concat (map subject_lines ms)\<rparr>)"
  by (induction ms arbitrary: f)
     (simp_all add: pyst_simps print_subject_def py_print_def subject_lines_def)

text \<open>The shipped solver on the one-byte capture of \<open>ok_driver\<close>, decoded by \<open>be_grey 7\<close>.\<close>

lemma solve_shipped_grey:
  "fs p = Some [1] \<Longrightarrow> solve (be_grey 7) captcha_solver_init fs p l =
     (Inl (BroadcastError (20, 10) (10, 8)),
      l @ [(ERROR, MsgMatchError (BroadcastError (20, 10) (10, 8))), (ERROR, MsgSolveError (BroadcastError (20, 10) (10, 8)))])"
proof -
  have "\<And>p. pil_decode (be_grey 7) p [1] = Inr \<lparr>im_width = 1, im_height = 1, im_pixels = [[7]]\<rparr>"
    by (simp add: be_grey_def)
  then show "fs p = Some [1] \<Longrightarrow> ?thesis" using solve_shipped_decoded by blast
qed

section \<open>Properties of the command line\<close>

text \<open>
  Claim C18 (functional).  Without an output path (none, or the empty path, which
  \<^verbatim>\<open>if args.output:\<close> treats as absent) the records are printed, five lines per
  record in table order, and nothing else changes; an empty list prints nothing.
\<close>

theorem report_marks_print:
  assumes "arg_output args = None \<or> arg_output args = Some []"
  shows "report_marks json_dump args ms f = (Inr (), f\<lparr>stdout := stdout f @ concat (map subject_lines ms)\<rparr>)"
  using assms by (auto simp: report_marks_def print_marks_out pyst_simps)

theorem report_marks_print_witness:
  "report_marks (\<lambda>_. [1]) \<lparr>arg_username = ''u'', arg_password = ''p'', arg_semester = None, arg_output = None\<rparr> [\<lparr>subj_code = ''CS3251'', subj_name = ''Programming in C'', subj_internal = ''38'', subj_external = ''52'', subj_total = ''90'', subj_result = ''PASS''\<rparr>] (\<lparr>w_drv = (), w_fs = Map.empty, w_log = [], w_open_err = Map.empty, stdout = []\<rparr> :: unit proc) =
     (Inr (), \<lparr>w_drv = (), w_fs = Map.empty, w_log = [], w_open_err = Map.empty,
        stdout = [[CHR 0x0A] @ ''Subject: Programming in C (CS3251)'', ''Internal: 38'', ''External: 52'',
                  ''Total: 90'', ''Result: PASS'']\<rparr>)"
  using report_marks_print [of "\<lparr>arg_username = ''u'', arg_password = ''p'', arg_semester = None, arg_output = None\<rparr>" "\<lambda>_. [1]" "[\<lparr>subj_code = ''CS3251'', subj_name = ''Programming in C'', subj_internal = ''38'', subj_external = ''52'', subj_total = ''90'', subj_result = ''PASS''\<rparr>]" "\<lparr>w_drv = (), w_fs = Map.empty, w_log = [], w_open_err = Map.empty, stdout = []\<rparr> :: unit proc"]
  by (simp add: subject_lines_def)

text \<open>
  Claim C17 (functional and error path).  With a non-empty output path and at least
  one record, \<^verbatim>\<open>main\<close> opens the path for writing: when that succeeds the JSON dump
  of the records is written there, \<^verbatim>\<open>Marks data saved to ...\<close> is logged and
  nothing is printed; when \<^verbatim>\<open>open\<close> raises (a missing directory, no permission, a
  directory of that name) the \<^verbatim>\<open>OSError\<close> propagates with nothing written, logged or
  printed, for \<^verbatim>\<open>main\<close>'s handler to report.
\<close>

theorem report_marks_save:
  assumes "arg_output args = Some p" "p \<noteq> []" "ms \<noteq> []"
  shows "report_marks json_dump args ms f =
           (case w_open_err f p of
              None \<Rightarrow> (Inr (), f\<lparr>w_fs := (w_fs f)(p \<mapsto> json_dump ms), w_log := w_log f @ [(INFO, MsgSaved p)]\<rparr>)
            | Some e \<Rightarrow> (Inl e, f))"
  using assms
  by (simp add: report_marks_def save_marks_def write_file_def wlog_def with_fs_def pyst_simps split: option.splits)

theorem report_marks_save_witness:
  "report_marks (\<lambda>_. [1]) \<lparr>arg_username = ''u'', arg_password = ''p'', arg_semester = None, arg_output = Some ''marks.json''\<rparr> [\<lparr>subj_code = ''CS3251'', subj_name = ''Programming in C'', subj_internal = ''38'', subj_external = ''52'', subj_total = ''90'', subj_result = ''PASS''\<rparr>] (\<lparr>w_drv = (), w_fs = Map.empty, w_log = [], w_open_err = Map.empty, stdout = []\<rparr> :: unit proc) =
     (Inr (), \<lparr>w_drv = (), w_fs = [''marks.json'' \<mapsto> [1]], w_log = [(INFO, MsgSaved ''marks.json'')], w_open_err = Map.empty, stdout = []\<rparr>) \<and>
   report_marks (\<lambda>_. [1]) \<lparr>arg_username = ''u'', arg_password = ''p'', arg_semester = None, arg_output = Some ''out/marks.json''\<rparr> [\<lparr>subj_code = ''CS3251'', subj_name = ''Programming in C'', subj_internal = ''38'', subj_external = ''52'', subj_total = ''90'', subj_result = ''PASS''\<rparr>] (\<lparr>w_drv = (), w_fs = Map.empty, w_log = [], w_open_err = [''out/marks.json'' \<mapsto> FileNotFoundError ''out/marks.json''], stdout = []\<rparr> :: unit proc) =
     (Inl (FileNotFoundError ''out/marks.json''), \<lparr>w_drv = (), w_fs = Map.empty, w_log = [], w_open_err = [''out/marks.json'' \<mapsto> FileNotFoundError ''out/marks.json''], stdout = []\<rparr>)"
  using report_marks_save [of "\<lparr>arg_username = ''u'', arg_password = ''p'', arg_semester = None, arg_output = Some ''marks.json''\<rparr>" "''marks.json''" "[\<lparr>subj_code = ''CS3251'', subj_name = ''Programming in C'', subj_internal = ''38'', subj_external = ''52'', subj_total = ''90'', subj_result = ''PASS''\<rparr>]" "\<lambda>_. [1]" "\<lparr>w_drv = (), w_fs = Map.empty, w_log = [], w_open_err = Map.empty, stdout = []\<rparr> :: unit proc"]
        report_marks_save [of "\<lparr>arg_username = ''u'', arg_password = ''p'', arg_semester = None, arg_output = Some ''out/marks.json''\<rparr>" "''out/marks.json''" "[\<lparr>subj_code = ''CS3251'', subj_name = ''Programming in C'', subj_internal = ''38'', subj_external = ''52'', subj_total = ''90'', subj_result = ''PASS''\<rparr>]" "\<lambda>_. [1]" "\<lparr>w_drv = (), w_fs = Map.empty, w_log = [], w_open_err = [''out/marks.json'' \<mapsto> FileNotFoundError ''out/marks.json''], stdout = []\<rparr> :: unit proc"]
  by simp

text \<open>
  Claim C12 (safety, a defect of the code).  Whatever the browser, the site, the image
  library and the command line, \<^verbatim>\<open>main\<close> never reports marks: the extractor it
  builds carries the shipped template library, so every run exits with status 1,
  prints nothing and leaves no new file.
\<close>

theorem main_cli_always_fails:
  "fst (main_cli be chrome drv json_dump args f) = Inr 1 \<and>
   stdout (snd (main_cli be chrome drv json_dump args f)) = stdout f \<and>
   w_fs (snd (main_cli be chrome drv json_dump args f)) \<subseteq>\<^sub>m w_fs f"
proof -
  let ?ei = "extract_info be au_extractor_init chrome drv (arg_username args) (arg_password args) (arg_semester args)"
  obtain e where e: "fst (?ei (world.truncate f)) = Inl e" using extract_info_shipped by blast
  obtain w1 where ei: "?ei (world.truncate f) = (Inl e, w1)"
    using e by (cases "?ei (world.truncate f)") simp
  have fs1: "w_fs w1 \<subseteq>\<^sub>m w_fs f"
    using extract_info_fs [of be au_extractor_init chrome drv "arg_username args" "arg_password args"
        "arg_semester args" "world.truncate f"] ei by simp
  let ?f1 = "world.extend w1 (world.more f)"
  have iw: "in_world ?ei f = (Inl e, ?f1)" by (simp add: in_world_def ei)
  have mt: "main_try be chrome drv json_dump args f = (Inl e, ?f1)"
    unfolding main_try_def by (rule pbind_Inl [where m = "in_world _", OF iw])
  have "stdout ?f1 = stdout f" by (cases f) (simp add: world.extend_def)
  moreover have "w_fs ?f1 \<subseteq>\<^sub>m w_fs f" using fs1 by simp
  ultimately show ?thesis
    by (simp add: main_cli_def mt wlog_def with_fs_def split: prod.splits)
qed

text \<open>
  Claim C13 (error path, the spec's exhaustion scenario).  For any credentials,
  semester and output path, and any world in which the captcha's temporary paths are
  writable, a site that shows the captcha on every attempt makes \<^verbatim>\<open>main\<close> run three
  attempts, each logging its attempt line, the solver's two errors and its failure
  line; the last failure then reaches \<^verbatim>\<open>extract_info\<close> and \<^verbatim>\<open>main\<close>, which log the same
  exception again, and the process exits with status 1.  No line reports the exhaustion
  or the number of attempts, nothing is printed or saved, and the three temporary
  captcha files are removed.
\<close>

theorem main_cli_exhaustion_log:
  assumes "\<forall>i. w_open_err f (temp_captcha_path i) = None"
  shows "main_cli (be_grey 7) (ret ()) (ok_driver :: unit webdriver) dump args f =
   (Inr 1, f\<lparr>w_fs := (w_fs f)(temp_captcha_path 0 := None, temp_captcha_path 1 := None, temp_captcha_path 2 := None),
      w_log := w_log f @ concat (map (\<lambda>i. [(INFO, MsgLoginAttempt i 3),
                                 (ERROR, MsgMatchError (BroadcastError (20, 10) (10, 8))),
                                 (ERROR, MsgSolveError (BroadcastError (20, 10) (10, 8))),
                                 (ERROR, MsgAttemptFailed i (BroadcastError (20, 10) (10, 8)))]) [1, 2, 3]) @
              [(ERROR, MsgExtractInfoError (BroadcastError (20, 10) (10, 8))),
               (ERROR, MsgMainError (BroadcastError (20, 10) (10, 8)))]\<rparr>)"
  using assms
  by (cases f) (simp add: main_cli_def main_try_def extract_info_run solve_shipped_grey ok_driver_def numeral_2_eq_2 numeral_3_eq_3)

theorem main_cli_exhaustion_log_witness:
  "main_cli (be_grey 7) (ret ()) (ok_driver :: unit webdriver) (\<lambda>_. [])
     \<lparr>arg_username = ''user'', arg_password = ''pw'', arg_semester = Some ''5'', arg_output = Some ''m.json''\<rparr>
     \<lparr>w_drv = (), w_fs = [''notes.txt'' \<mapsto> [7]], w_log = [], w_open_err = Map.empty, stdout = []\<rparr> =
   (Inr 1, \<lparr>w_drv = (), w_fs = [''notes.txt'' \<mapsto> [7]],
      w_log = concat (map (\<lambda>i. [(INFO, MsgLoginAttempt i 3),
                                 (ERROR, MsgMatchError (BroadcastError (20, 10) (10, 8))),
                                 (ERROR, MsgSolveError (BroadcastError (20, 10) (10, 8))),
                                 (ERROR, MsgAttemptFailed i (BroadcastError (20, 10) (10, 8)))]) [1, 2, 3]) @
              [(ERROR, MsgExtractInfoError (BroadcastError (20, 10) (10, 8))),
               (ERROR, MsgMainError (BroadcastError (20, 10) (10, 8)))],
      w_open_err = Map.empty, stdout = []\<rparr>)"
  using main_cli_exhaustion_log [of "\<lparr>w_drv = (), w_fs = [''notes.txt'' \<mapsto> [7]], w_log = [], w_open_err = Map.empty, stdout = []\<rparr> :: unit proc" "\<lambda>_. []" "\<lparr>arg_username = ''user'', arg_password = ''pw'', arg_semester = Some ''5'', arg_output = Some ''m.json''\<rparr>"]
  by (simp add: temp_captcha_path_def fun_upd_twist)

end
