(* ===== verification/LoginSpec.thy ===== *)
theory LoginSpec
  imports Login
begin

text \<open>
  The login state machine of the specification (\<^verbatim>\<open>spec.md\<close>, section 4.6) and the
  refinement of \<^verbatim>\<open>AUInfoExtractor.login\<close> into it.  The machine \<open>spec_step m\<close> runs
  on pairs (phase, attempt counter): every phase but \<open>SUBMIT\<close> may fail into \<open>RETRY\<close>,
  \<open>RETRY\<close> goes back to \<open>NAVIGATE\<close> with the next counter or to \<open>FAILED\<close> once
  \<open>m\<close> attempts were made.  The code is related to it through what it logs: the
  \<^verbatim>\<open>Login attempt i/n\<close> lines (\<open>attempts_logged\<close>), and more generally the
  login lines \<open>login_lines\<close>, which also read the failure lines
  \<^verbatim>\<open>Login attempt i failed ...\<close>.  The solver logs no login line
  (\<open>keeps_quiet_solve\<close>), every attempt logs its attempt line and, unless it
  succeeds, its failure line (\<open>login_attempt_lines\<close>), and the loop simulates the
  machine attempt by attempt (\<open>login_loop_refines\<close>).
\<close>

datatype phase =
    START | NAVIGATE | CAPTURE_CAPTCHA | SOLVE | SUBMIT | AWAIT_RESULT | RETRY | SUCCESS | FAILED

inductive spec_step :: "nat \<Rightarrow> phase \<times> nat \<Rightarrow> phase \<times> nat \<Rightarrow> bool" for max_attempts :: nat where
  start: "spec_step max_attempts (START, 0) (NAVIGATE, 0)"
| navigate_ok: "spec_step max_attempts (NAVIGATE, a) (CAPTURE_CAPTCHA, a)"
| navigate_timeout: "spec_step max_attempts (NAVIGATE, a) (RETRY, a)"
| capture_ok: "spec_step max_attempts (CAPTURE_CAPTCHA, a) (SOLVE, a)"
| capture_error: "spec_step max_attempts (CAPTURE_CAPTCHA, a) (RETRY, a)"
| solve_ok: "spec_step max_attempts (SOLVE, a) (SUBMIT, a)"
| solve_error: "spec_step max_attempts (SOLVE, a) (RETRY, a)"
| submit: "spec_step max_attempts (SUBMIT, a) (AWAIT_RESULT, a)"
| await_success: "spec_step max_attempts (AWAIT_RESULT, a) (SUCCESS, a)"
| await_timeout: "spec_step max_attempts (AWAIT_RESULT, a) (RETRY, a)"
| retry_again: "Suc a < max_attempts \<Longrightarrow> spec_step max_attempts (RETRY, a) (NAVIGATE, Suc a)"
| retry_exhausted: "Suc a = max_attempts \<Longrightarrow> spec_step max_attempts (RETRY, a) (FAILED, Suc a)"

code_pred spec_step .

text \<open>The states the specification reaches from \<open>START\<close>, and its invariant on them.\<close>

definition spec_reach :: "nat \<Rightarrow> phase \<times> nat \<Rightarrow> bool" where
  "spec_reach max_attempts s \<longleftrightarrow> (spec_step max_attempts)\<^sup>*\<^sup>* (START, 0) s"

definition spec_inv :: "nat \<Rightarrow> phase \<times> nat \<Rightarrow> bool" where
  "spec_inv max_attempts s =
     (case s of
        (START, a) \<Rightarrow> a = 0
      | (FAILED, a) \<Rightarrow> a = max_attempts
      | (SUCCESS, a) \<Rightarrow> a < max_attempts
      | (_, a) \<Rightarrow> a < max_attempts)"

text \<open>The login lines of a log: \<^verbatim>\<open>Login attempt i/n\<close> (line 139) and the two
  failure lines \<^verbatim>\<open>Login attempt i failed (timeout)\<close> and \<^verbatim>\<open>Login attempt i failed: e\<close>
  (lines 169, 175).\<close>

datatype login_line = AttemptLine nat | FailureLine nat

fun login_lines :: "event list \<Rightarrow> login_line list" where
  "login_lines [] = []"
| "login_lines ((INFO, MsgLoginAttempt a m) # l) = AttemptLine a # login_lines l"
| "login_lines ((WARNING, MsgAttemptTimeout a) # l) = FailureLine a # login_lines l"
| "login_lines ((ERROR, MsgAttemptFailed a e) # l) = FailureLine a # login_lines l"
| "login_lines (ev # l) = login_lines l"

fun attempt_nums :: "login_line list \<Rightarrow> nat list" where
  "attempt_nums [] = []"
| "attempt_nums (AttemptLine a # l) = a # attempt_nums l"
| "attempt_nums (FailureLine a # l) = attempt_nums l"

text \<open>The lines of \<open>k\<close> attempts that all failed: attempt line and failure line of each.\<close>

definition failed_attempts :: "nat \<Rightarrow> nat \<Rightarrow> login_line list" where
  "failed_attempts a k = concat (map (\<lambda>i. [AttemptLine i, FailureLine i]) [Suc a..<Suc k])"

text \<open>Log relations: a statement adds no login line (\<open>quiet_log\<close>, \<open>quiet_frame\<close>), or
  adds exactly the line of attempt \<open>a + 1\<close> first (\<open>attempt_frame\<close>).\<close>

definition quiet_log :: "event list \<Rightarrow> event list \<Rightarrow> bool" where
  "quiet_log l l' \<longleftrightarrow> (\<exists>xs. l' = l @ xs \<and> login_lines xs = [])"

definition quiet_frame :: "('d, 'x) world_scheme \<Rightarrow> ('d, 'x) world_scheme \<Rightarrow> bool" where
  "quiet_frame f f' \<longleftrightarrow> quiet_log (w_log f) (w_log f')"

definition attempt_frame :: "nat \<Rightarrow> nat \<Rightarrow> ('d, 'x) world_scheme \<Rightarrow> ('d, 'x) world_scheme \<Rightarrow> bool" where
  "attempt_frame a n f f' \<longleftrightarrow> quiet_log (w_log f @ [(INFO, MsgLoginAttempt (Suc a) n)]) (w_log f')"

section \<open>The specification's invariant\<close>

lemma spec_inv_step: "spec_step m s t \<Longrightarrow> 0 < m \<Longrightarrow> spec_inv m s \<Longrightarrow> spec_inv m t"
  by (induction rule: spec_step.induct) (simp_all add: spec_inv_def)

lemma spec_inv_reach: "spec_reach m s \<Longrightarrow> 0 < m \<Longrightarrow> spec_inv m s"
  unfolding spec_reach_def
proof (induction rule: rtranclp_induct)
  case base
  then show ?case by (simp add: spec_inv_def)
next
  case (step t u)
  then show ?case by (blast intro: spec_inv_step)
qed

section \<open>Login lines in the log\<close>

lemma login_lines_append [simp]: "login_lines (l @ l') = login_lines l @ login_lines l'"
  by (induction l rule: login_lines.induct) simp_all

lemma attempt_nums_append [simp]: "attempt_nums (l @ l') = attempt_nums l @ attempt_nums l'"
  by (induction l rule: attempt_nums.induct) simp_all

lemma attempts_logged_lines: "attempts_logged l = attempt_nums (login_lines l)"
  by (induction l rule: login_lines.induct) simp_all

lemma reflp_quiet_log [simp]: "reflp quiet_log"
  unfolding reflp_def quiet_log_def by (metis append_Nil2 login_lines.simps(1))

lemma quiet_log_refl [simp]: "quiet_log l l"
  using reflp_quiet_log by (rule reflpD)

lemma quiet_log_trans: "quiet_log l l' \<Longrightarrow> quiet_log l' l'' \<Longrightarrow> quiet_log l l''"
  unfolding quiet_log_def by (metis append_assoc login_lines_append append_Nil)

lemma transp_quiet_log [simp]: "transp quiet_log"
  by (auto simp: transp_def intro: quiet_log_trans)

lemma keeps_quiet_emit:
  "login_lines [(lv, msg)] = [] \<Longrightarrow> keeps quiet_log (emit lv msg)"
  by (auto simp: keeps_def emit_def quiet_log_def)

lemma keeps_quiet_preprocess: "keeps quiet_log (preprocess_image be fs p)"
  unfolding preprocess_image_def Let_def
  by (intro keeps_intros keeps_quiet_emit reflp_quiet_log transp_quiet_log) simp

lemma keeps_quiet_match: "keeps quiet_log (calculate_match_percentage c t)"
  unfolding calculate_match_percentage_def Let_def
  by (intro keeps_intros keeps_quiet_emit reflp_quiet_log transp_quiet_log) simp

lemma keeps_quiet_match_templates: "keeps quiet_log (match_templates cm c idx ts best)"
proof (induction ts arbitrary: idx best)
  case Nil
  then show ?case by (simp add: keeps_intros)
next
  case (Cons t ts)
  then show ?case
    by (simp only: match_templates.simps)
       (intro keeps_intros keeps_quiet_match reflp_quiet_log transp_quiet_log Cons.IH)
qed

lemma keeps_quiet_solve_positions: "keeps quiet_log (solve_positions s m ps)"
proof (induction ps)
  case Nil
  then show ?case by (simp add: keeps_intros)
next
  case (Cons i ps)
  then show ?case
    unfolding solve_positions.simps Let_def
    by (intro keeps_intros keeps_quiet_emit keeps_quiet_match_templates reflp_quiet_log transp_quiet_log)
       simp_all
qed

lemma keeps_quiet_solve: "keeps quiet_log (solve be s fs p)"
  unfolding solve_def
  by (intro keeps_intros keeps_quiet_emit keeps_quiet_preprocess keeps_quiet_solve_positions
        reflp_quiet_log transp_quiet_log) simp_all

lemma reflp_quiet_frame [simp]: "reflp quiet_frame" and transp_quiet_frame [simp]: "transp quiet_frame"
  by (auto simp: reflp_def transp_def quiet_frame_def intro: quiet_log_trans reflpD [OF reflp_quiet_log])

lemma attempt_frame_quiet: "attempt_frame a n s t \<Longrightarrow> quiet_frame t u \<Longrightarrow> attempt_frame a n s u"
  by (auto simp: attempt_frame_def quiet_frame_def intro: quiet_log_trans)

lemma attempt_frame_lines:
  "attempt_frame a n f f' \<Longrightarrow> login_lines (w_log f') = login_lines (w_log f) @ [AttemptLine (Suc a)]"
  by (auto simp: attempt_frame_def quiet_log_def)

lemma keeps_quiet_on_drv [keeps_intros]: "keeps quiet_frame (on_drv m)"
  by (simp add: keeps_def on_drv_def quiet_frame_def split: prod.splits)

lemma keeps_quiet_with_fs:
  assumes "\<And>fs. keeps quiet_log (g fs)"
  shows "keeps quiet_frame (with_fs g)"
  unfolding keeps_def
proof
  fix s :: "('d, 'x) world_scheme"
  obtain r l where gl: "g (w_fs s) (w_log s) = (r, l)" by fastforce
  with assms have "quiet_log (w_log s) l" by (rule keepsD)
  with gl show "quiet_frame s (snd (with_fs g s))" by (simp add: with_fs_def quiet_frame_def)
qed

lemma keeps_quiet_wlog: "login_lines [(lv, msg)] = [] \<Longrightarrow> keeps quiet_frame (wlog lv msg)"
  unfolding wlog_def by (intro keeps_quiet_with_fs keeps_quiet_emit)

lemma keeps_quiet_set_captcha_path [keeps_intros]: "keeps quiet_frame (set_captcha_path p)"
  by (simp add: keeps_def set_captcha_path_def quiet_frame_def)

lemma keeps_quiet_save_screenshot [keeps_intros]: "keeps quiet_frame (save_screenshot p b)"
  by (simp add: keeps_def save_screenshot_def quiet_frame_def split: option.splits)

lemma keeps_attempt_login_try: "keeps (attempt_frame a n) (login_try be ext drv u pw n a)"
proof -
  have q: "keeps quiet_frame (wlog lv msg)" if "login_lines [(lv, msg)] = []" for lv msg
    using that by (rule keeps_quiet_wlog)
  have first: "keeps (attempt_frame a n) (wlog INFO (MsgLoginAttempt (Suc a) n))"
    by (simp add: keeps_def wlog_def with_fs_def emit_def attempt_frame_def)
  have solve: "keeps quiet_frame (login_solve be ext a)"
    unfolding login_solve_def
    by (intro keeps_intros keeps_quiet_with_fs keeps_quiet_solve q reflp_quiet_frame transp_quiet_frame) simp
  have rest: "keeps quiet_frame (login_capture drv el a)" "keeps quiet_frame (login_submit drv u pw sol)"
    "keeps quiet_frame (login_await drv)" for el sol
    unfolding login_capture_def login_submit_def login_await_def
    by (intro keeps_intros q reflp_quiet_frame transp_quiet_frame; simp)+
  have nav: "keeps (attempt_frame a n) (login_navigate ext drv n a)"
    unfolding login_navigate_def
    by (rule keeps_pbind_seq [OF first _ attempt_frame_quiet]) (auto intro!: keeps_intros)
  show ?thesis
    unfolding login_try_def
    by (rule keeps_pbind_seq [OF nav _ attempt_frame_quiet])
       (auto intro!: keeps_intros rest solve)
qed

lemma login_capture_path:
  "login_capture drv el a f = (Inr x, f') \<Longrightarrow> captcha_path f' = Some (temp_captcha_path a)"
  by (auto simp: login_capture_def set_captcha_path_def on_drv_def save_screenshot_def pyst_simps
           split: prod.splits sum.splits option.splits)

lemma login_try_path:
  assumes "login_try be ext drv u pw n a f = (Inr b, f')"
  shows "captcha_path f' = Some (temp_captcha_path a)"
proof -
  obtain el f1 where
    "pbind (login_capture drv el a) (\<lambda>_. pbind (login_solve be ext a) (\<lambda>sol.
       pbind (login_submit drv u pw sol) (\<lambda>_. login_await drv))) f1 = (Inr b, f')"
    using pbind_result_Inr [OF assms [unfolded login_try_def]] by blast
  from pbind_result_Inr [OF this] obtain x f2 where c: "login_capture drv el a f1 = (Inr x, f2)"
    and r: "pbind (login_solve be ext a) (\<lambda>sol. pbind (login_submit drv u pw sol) (\<lambda>_. login_await drv)) f2 = (Inr b, f')"
    by blast
  have "keeps same_frame (pbind (login_solve be ext a) (\<lambda>sol. pbind (login_submit drv u pw sol) (\<lambda>_. login_await drv)))"
    by (intro keeps_intros keeps_frame_solve keeps_frame_submit keeps_frame_await reflp_same_frame transp_same_frame)
  from this r have "same_frame f2 f'" by (rule keepsD)
  with login_capture_path [OF c] show ?thesis by (simp add: same_frame_def)
qed

lemma login_attempt_lines:
  assumes "login_attempt be ext drv u pw n a f = (ex, f')"
  shows "login_lines (w_log f') =
           login_lines (w_log f) @ AttemptLine (Suc a) # (if ex = Returned True then [] else [FailureLine (Suc a)])"
proof -
  obtain r f1 where t: "login_try be ext drv u pw n a f = (r, f1)" by fastforce
  then have "attempt_frame a n f f1" using keeps_attempt_login_try keepsD by metis
  then have af: "login_lines (w_log f1) = login_lines (w_log f) @ [AttemptLine (Suc a)]"
    by (rule attempt_frame_lines)
  show ?thesis
  proof (cases r)
    case (Inl e)
    obtain ex2 f2 where ex: "login_except n a e f1 = (ex2, f2)" by fastforce
    then have "login_lines (w_log f2) = login_lines (w_log f1) @ [FailureLine (Suc a)]" "ex2 \<noteq> Returned True"
      by (auto simp: login_except_def Let_def wlog_def with_fs_def emit_def split: if_splits)
    with t assms Inl ex af show ?thesis
      by (auto simp: login_attempt_def login_finally_def split: option.splits)
  next
    case (Inr b)
    with t have "b" and "captcha_path f1 = Some (temp_captcha_path a)"
      using login_try_result [of be ext drv u pw n a f] login_try_path [of be ext drv u pw n a f] by auto
    with t assms Inr af show ?thesis
      by (auto simp: login_attempt_def login_finally_def)
  qed
qed

lemma login_attempt_logged:
  "login_attempt be ext drv u pw n a f = (ex, f') \<Longrightarrow>
   attempts_logged (w_log f') = attempts_logged (w_log f) @ [Suc a]"
  by (drule login_attempt_lines) (simp add: attempts_logged_lines)

lemma login_attempt_raised:
  "login_attempt be ext drv u pw n a f = (Raised e, f') \<Longrightarrow> a < n \<Longrightarrow>
   Suc a = n \<or> e = UnboundLocalError ''captcha_path''"
  by (auto simp: login_attempt_def login_except_def login_finally_def Let_def
           split: prod.splits sum.splits option.splits if_splits)

section \<open>Simulation\<close>

lemma spec_attempt_success: "(spec_step m)\<^sup>*\<^sup>* (NAVIGATE, a) (SUCCESS, a)"
  by (meson converse_rtranclp_into_rtranclp rtranclp.rtrancl_refl spec_step.intros)

lemma spec_attempt_retry: "Suc a < m \<Longrightarrow> (spec_step m)\<^sup>*\<^sup>* (NAVIGATE, a) (NAVIGATE, Suc a)"
  by (meson converse_rtranclp_into_rtranclp rtranclp.rtrancl_refl spec_step.intros)

lemma spec_attempt_failed: "Suc a = m \<Longrightarrow> (spec_step m)\<^sup>*\<^sup>* (NAVIGATE, a) (FAILED, m)"
  by (metis converse_rtranclp_into_rtranclp rtranclp.rtrancl_refl spec_step.intros(3,12))

lemma login_loop_refines:
  assumes "a < n" "login_loop be ext drv u pw n a f = (r, f')"
    and "r \<noteq> Inl (UnboundLocalError ''captcha_path'')"
  shows "\<exists>k. a < k \<and> k \<le> n \<and> attempts_logged (w_log f') = attempts_logged (w_log f) @ [Suc a..<Suc k] \<and>
             (r = Inr True \<and> (spec_step n)\<^sup>*\<^sup>* (NAVIGATE, a) (SUCCESS, k - 1) \<or>
              (\<exists>e. r = Inl e) \<and> k = n \<and> (spec_step n)\<^sup>*\<^sup>* (NAVIGATE, a) (FAILED, n))"
  using assms
proof (induction "n - a" arbitrary: a f)
  case 0
  then show ?case by simp
next
  case (Suc j)
  obtain ex f1 where at: "login_attempt be ext drv u pw n a f = (ex, f1)" by fastforce
  have lg: "attempts_logged (w_log f1) = attempts_logged (w_log f) @ [Suc a]"
    using at by (rule login_attempt_logged)
  have loop: "login_loop be ext drv u pw n a f =
                (case ex of Returned b \<Rightarrow> (Inr b, f1) | Raised e \<Rightarrow> (Inl e, f1)
                 | Continued \<Rightarrow> login_loop be ext drv u pw n (Suc a) f1)"
    using Suc.prems(1) at by (simp add: login_loop_unfold [of be ext drv u pw n a f] split: loop_exit.split)
  consider "ex = Returned True" | e where "ex = Raised e" | "ex = Continued" "Suc a < n"
    using login_attempt_exit [OF at Suc.prems(1)] by blast
  then show ?case
  proof cases
    case 1
    with loop Suc.prems(2) have "r = Inr True" "f' = f1" by simp_all
    with lg show ?thesis using Suc.prems(1) spec_attempt_success [of n a] by (intro exI [of _ "Suc a"]) simp
  next
    case (2 e)
    with loop Suc.prems(2) have r: "r = Inl e" and f': "f' = f1" by simp_all
    with Suc.prems(3) login_attempt_raised [OF at [unfolded 2] Suc.prems(1)] have "Suc a = n" by auto
    with r f' lg show ?thesis using spec_attempt_failed [of a n] by (intro exI [of _ "Suc a"]) simp
  next
    case 3
    with loop Suc.prems(2) have lp: "login_loop be ext drv u pw n (Suc a) f1 = (r, f')" by simp
    have j: "j = n - Suc a" using Suc.hyps(2) by simp
    from Suc.hyps(1) [OF j 3(2) lp Suc.prems(3)]
    obtain k where k: "Suc a < k" "k \<le> n"
        and lg': "attempts_logged (w_log f') = attempts_logged (w_log f1) @ [Suc (Suc a)..<Suc k]"
        and out: "r = Inr True \<and> (spec_step n)\<^sup>*\<^sup>* (NAVIGATE, Suc a) (SUCCESS, k - 1) \<or>
                  (\<exists>e. r = Inl e) \<and> k = n \<and> (spec_step n)\<^sup>*\<^sup>* (NAVIGATE, Suc a) (FAILED, n)"
      by blast
    have "[Suc a..<Suc k] = Suc a # [Suc (Suc a)..<Suc k]" using k by (simp add: upt_conv_Cons)
    with lg lg' have "attempts_logged (w_log f') = attempts_logged (w_log f) @ [Suc a..<Suc k]" by simp
    moreover have "(spec_step n)\<^sup>*\<^sup>* (NAVIGATE, a) (NAVIGATE, Suc a)"
      using 3(2) by (rule spec_attempt_retry)
    ultimately show ?thesis using k out by (intro exI [of _ k]) (auto intro: rtranclp_trans)
  qed
qed

lemma w_log_truncate [simp]: "w_log (world.truncate f) = w_log f"
  by (simp add: world.truncate_def)

lemma w_log_extend [simp]: "w_log (world.extend w x) = w_log w"
  by (simp add: world.extend_def)

lemma spec_reach_navigate: "(spec_step m)\<^sup>*\<^sup>* (NAVIGATE, 0) s \<Longrightarrow> spec_reach m s"
  unfolding spec_reach_def by (rule converse_rtranclp_into_rtranclp [where r = "spec_step m", OF spec_step.start])

text \<open>
  Claim C11 (refinement).  Every run of \<^verbatim>\<open>login\<close> that does not end in the
  \<^verbatim>\<open>UnboundLocalError\<close> of the \<^verbatim>\<open>finally\<close> clause is a run of the specification's
  state machine: after the attempts numbered 1 to \<open>k\<close> (\<open>k \<le> max_retries\<close>, logged
  in order), a return of \<^verbatim>\<open>True\<close> is a reachable \<open>SUCCESS\<close> at attempt \<open>k\<close>, an
  exception is the reachable \<open>FAILED\<close> after exactly \<^verbatim>\<open>max_retries\<close> attempts, and
  \<^verbatim>\<open>False\<close> comes only with a budget of 0.
\<close>

theorem login_refines_spec:
  assumes "login be ext drv u pw n w = (r, w')" "r \<noteq> Inl (UnboundLocalError ''captcha_path'')"
  shows "\<exists>k. k \<le> n \<and> attempts_logged (w_log w') = attempts_logged (w_log w) @ [1..<Suc k] \<and>
             (r = Inr True \<and> 0 < k \<and> spec_reach n (SUCCESS, k - 1) \<or>
              r = Inr False \<and> n = 0 \<and> k = 0 \<or>
              (\<exists>e. r = Inl e) \<and> k = n \<and> spec_reach n (FAILED, n))"
proof (cases "0 < n")
  case True
  obtain r0 f' where lp: "login_loop be ext drv u pw n 0 (world.extend w (login_frame.fields None)) = (r0, f')"
    by fastforce
  with assms(1) have r0: "r0 = r" and w': "w' = world.truncate f'" by (simp_all add: login_def)
  from login_loop_refines [OF True lp [unfolded r0] assms(2)]
  obtain k where "0 < k" "k \<le> n"
      and "attempts_logged (w_log f') = attempts_logged (w_log w) @ [1..<Suc k]"
      and "r = Inr True \<and> (spec_step n)\<^sup>*\<^sup>* (NAVIGATE, 0) (SUCCESS, k - 1) \<or>
           (\<exists>e. r = Inl e) \<and> k = n \<and> (spec_step n)\<^sup>*\<^sup>* (NAVIGATE, 0) (FAILED, n)"
    by auto
  then show ?thesis using w' by (intro exI [of _ k]) (auto intro: spec_reach_navigate)
next
  case False
  with assms(1) have "r = Inr False" "w_log w' = w_log w" by (auto simp: login_def login_loop_unfold)
  with False show ?thesis by simp
qed

theorem login_refines_spec_witness:
  "fst (login (be_grey 7) (au_extractor_init\<lparr>captcha_solver_of := \<lparr>test_set = [], char_map = char_map_default\<rparr>\<rparr>)
          (dashboard_after 2) ''user'' ''pw'' 3 \<lparr>w_drv = 0, w_fs = Map.empty, w_log = [], w_open_err = Map.empty\<rparr>) = Inr True
   \<and> spec_reach 3 (SUCCESS, 2)"
proof -
  have "\<exists>w'. login (be_grey 7) (au_extractor_init\<lparr>captcha_solver_of := \<lparr>test_set = [], char_map = char_map_default\<rparr>\<rparr>)
          (dashboard_after 2) ''user'' ''pw'' 3 \<lparr>w_drv = 0, w_fs = Map.empty, w_log = [], w_open_err = Map.empty\<rparr> = (Inr True, w')
        \<and> attempts_logged (w_log w') = [1, 2, 3]"
    by (simp add: login_def login_loop_unfold login_attempt_def login_try_def login_navigate_def
        login_capture_def login_solve_def login_submit_def login_await_def set_captcha_path_def
        login_except_def login_finally_def pyst_simps world.extend_def world.truncate_def
        login_frame.fields_def dashboard_after_def ok_driver_def solve_empty_decoded be_grey_def
        remove_if_exists_def)
  then obtain w' where l: "login (be_grey 7) (au_extractor_init\<lparr>captcha_solver_of := \<lparr>test_set = [], char_map = char_map_default\<rparr>\<rparr>)
          (dashboard_after 2) ''user'' ''pw'' 3 \<lparr>w_drv = 0, w_fs = Map.empty, w_log = [], w_open_err = Map.empty\<rparr> = (Inr True, w')"
      and a: "attempts_logged (w_log w') = [1, 2, 3]"
    by blast
  from login_refines_spec [OF l] obtain k
    where k1: "attempts_logged (w_log w') = attempts_logged [] @ [1..<Suc k]"
      and k2: "Inr True = (Inr True :: py_exc + bool) \<and> 0 < k \<and> spec_reach 3 (SUCCESS, k - 1) \<or>
               Inr True = (Inr False :: py_exc + bool) \<and> (3::nat) = 0 \<and> k = 0 \<or>
               (\<exists>e. Inr True = (Inl e :: py_exc + bool)) \<and> k = 3 \<and> spec_reach 3 (FAILED, 3)"
    by auto
  have "length (attempts_logged (w_log w')) = k" using k1 by simp
  with a have "k = 3" by simp
  with k2 l show ?thesis by simp
qed

end
