(* ===== verification/LoginInv.thy ===== *)
theory LoginInv
  imports LoginSpec
begin

text \<open>
  The states of the retry loop of \<^verbatim>\<open>AUInfoExtractor.login\<close> as a reachability
  relation: \<open>login_reach \<dots> f0 (a, f)\<close> holds when the loop, started in frame \<open>f0\<close>,
  begins attempt \<open>a\<close> in frame \<open>f\<close>, every earlier attempt having ended in
  \<^verbatim>\<open>continue\<close>.  The invariant \<open>login_inv\<close> of these states is proved by rule
  induction; the bound on the number of attempts is the loop's variant.
\<close>

inductive login_reach ::
  "pil_backend \<Rightarrow> au_extractor \<Rightarrow> 'd webdriver \<Rightarrow> string \<Rightarrow> string \<Rightarrow> nat \<Rightarrow> 'd login_frame \<Rightarrow>
   nat \<times> 'd login_frame \<Rightarrow> bool"
  for be ext drv u pw n f0 where
  start: "login_reach be ext drv u pw n f0 (0, f0)"
| continue: "login_reach be ext drv u pw n f0 (a, f) \<Longrightarrow> a < n \<Longrightarrow>
             login_attempt be ext drv u pw n a f = (Continued, f') \<Longrightarrow>
             login_reach be ext drv u pw n f0 (Suc a, f')"

definition login_inv :: "fs \<Rightarrow> nat \<Rightarrow> nat \<Rightarrow> 'd login_frame \<Rightarrow> bool" where
  "login_inv fs0 n a f \<longleftrightarrow>
     a \<le> n \<and> w_fs f \<subseteq>\<^sub>m fs0 \<and>
     (if a = 0 then captcha_path f = None else \<exists>i<a. captcha_path f = Some (temp_captcha_path i))"

section \<open>The loop invariant\<close>

lemma login_attempt_continued_path:
  assumes "login_attempt be ext drv u pw n a f = (Continued, f')"
  shows "captcha_path f' = captcha_path f \<or> captcha_path f' = Some (temp_captcha_path a)"
    and "captcha_path f' \<noteq> None"
proof -
  obtain r f1 where t: "login_try be ext drv u pw n a f = (r, f1)" by fastforce
  then have eff: "try_effect (temp_captcha_path a) f f1" using keeps_try_effect_try keepsD by metis
  obtain ex2 f2 where f2: "login_finally ex2 f2 = (Continued, f')" and s: "same_frame f1 f2"
    using assms t by (cases r) (auto simp: login_attempt_def same_frame_def split: prod.splits
                                    dest: login_except_frame)
  from f2 have "captcha_path f2 \<noteq> None" and "captcha_path f' = captcha_path f2"
    by (auto simp: login_finally_def split: option.splits)
  with s eff show "captcha_path f' = captcha_path f \<or> captcha_path f' = Some (temp_captcha_path a)"
      and "captcha_path f' \<noteq> None"
    by (auto simp: same_frame_def try_effect_def)
qed

lemma login_loop_attempts:
  "a \<le> n \<Longrightarrow> \<exists>k. a \<le> k \<and> k \<le> n \<and>
     attempts_logged (w_log (snd (login_loop be ext drv u pw n a f))) = attempts_logged (w_log f) @ [Suc a..<Suc k]"
proof (induction "n - a" arbitrary: a f)
  case 0
  then have "a = n" "\<not> a < n" by simp_all
  then have "login_loop be ext drv u pw n a f = (Inr False, f)" by (subst login_loop_unfold) simp
  with \<open>a = n\<close> show ?case by (intro exI [of _ a]) simp
next
  case (Suc j)
  then have lt: "a < n" and j: "j = n - Suc a" by simp_all
  obtain ex f1 where at: "login_attempt be ext drv u pw n a f = (ex, f1)" by fastforce
  have lg: "attempts_logged (w_log f1) = attempts_logged (w_log f) @ [Suc a]"
    using at by (rule login_attempt_logged)
  show ?case
  proof (cases ex)
    case Continued
    from Suc.hyps(1) [OF j] lt obtain k where k: "Suc a \<le> k" "k \<le> n"
      and lg': "attempts_logged (w_log (snd (login_loop be ext drv u pw n (Suc a) f1))) =
                attempts_logged (w_log f1) @ [Suc (Suc a)..<Suc k]"
      by auto
    have "[Suc a..<Suc k] = Suc a # [Suc (Suc a)..<Suc k]" using k by (simp add: upt_conv_Cons)
    with k lg lg' lt at Continued show ?thesis
      by (intro exI [of _ k]) (simp add: login_loop_unfold [of be ext drv u pw n a f])
  qed (use lt at lg in \<open>(intro exI [of _ "Suc a"], simp add: login_loop_unfold [of be ext drv u pw n a f])+\<close>)
qed

lemma failed_attempts_Suc:
  "a < k \<Longrightarrow> failed_attempts a k = [AttemptLine (Suc a), FailureLine (Suc a)] @ failed_attempts (Suc a) k"
  by (simp add: failed_attempts_def upt_conv_Cons)

lemma failed_attempts_empty [simp]: "failed_attempts a a = []"
  by (simp add: failed_attempts_def)

lemma login_loop_lines:
  "a \<le> n \<Longrightarrow> \<exists>k. a \<le> k \<and> k \<le> n \<and> (fst (login_loop be ext drv u pw n a f) = Inr True \<longrightarrow> a < k) \<and>
     login_lines (w_log (snd (login_loop be ext drv u pw n a f))) =
       login_lines (w_log f) @
       (if fst (login_loop be ext drv u pw n a f) = Inr True then butlast else id) (failed_attempts a k)"
proof (induction "n - a" arbitrary: a f)
  case 0
  then have "a = n" "\<not> a < n" by simp_all
  then have "login_loop be ext drv u pw n a f = (Inr False, f)" by (subst login_loop_unfold) simp
  with \<open>a = n\<close> show ?case by (intro exI [of _ a]) simp
next
  case (Suc j)
  then have lt: "a < n" and j: "j = n - Suc a" by simp_all
  obtain ex f1 where at: "login_attempt be ext drv u pw n a f = (ex, f1)" by fastforce
  have lg: "login_lines (w_log f1) =
              login_lines (w_log f) @ AttemptLine (Suc a) # (if ex = Returned True then [] else [FailureLine (Suc a)])"
    using at by (rule login_attempt_lines)
  have one: "failed_attempts a (Suc a) = [AttemptLine (Suc a), FailureLine (Suc a)]"
    by (simp add: failed_attempts_Suc)
  have unf: "login_loop be ext drv u pw n a f =
               (case ex of Returned b \<Rightarrow> (Inr b, f1) | Raised e \<Rightarrow> (Inl e, f1)
                | Continued \<Rightarrow> login_loop be ext drv u pw n (Suc a) f1)"
    using lt at by (simp add: login_loop_unfold [of be ext drv u pw n a f] split: loop_exit.split)
  consider "ex = Returned True" | e where "ex = Raised e" | "ex = Continued" "Suc a < n"
    using login_attempt_exit [OF at lt] by blast
  then show ?case
  proof cases
    case 1
    with unf lg one lt show ?thesis by (intro exI [of _ "Suc a"]) simp
  next
    case (2 e)
    with unf lg one lt show ?thesis by (intro exI [of _ "Suc a"]) simp
  next
    case 3
    let ?r = "login_loop be ext drv u pw n (Suc a) f1"
    from Suc.hyps(1) [OF j] 3(2) obtain k where k: "Suc a \<le> k" "k \<le> n"
      and ok: "fst ?r = Inr True \<longrightarrow> Suc a < k"
      and lg': "login_lines (w_log (snd ?r)) =
                  login_lines (w_log f1) @ (if fst ?r = Inr True then butlast else id) (failed_attempts (Suc a) k)"
      by auto
    have fa: "failed_attempts a k = [AttemptLine (Suc a), FailureLine (Suc a)] @ failed_attempts (Suc a) k"
      using k by (simp add: failed_attempts_Suc)
    have ne: "fst ?r = Inr True \<Longrightarrow> failed_attempts (Suc a) k \<noteq> []"
      using ok by (simp add: failed_attempts_Suc)
    show ?thesis
      using k lg lg' fa ne 3 unf by (intro exI [of _ k]) (auto simp: butlast_append)
  qed
qed

section \<open>Properties of the loop\<close>

text \<open>
  Claim C14 (invariant).  At the start of every attempt the loop reaches, the attempt
  counter is within the budget, the working directory holds no file that was not
  there before the call, and \<^verbatim>\<open>captcha_path\<close> is unbound only before the first
  attempt; later it names the temporary file of some earlier attempt (so a later
  attempt that fails before line 147 removes that earlier file name again).
\<close>

theorem login_reach_inv:
  assumes "login_reach be ext drv u pw n f0 s" "captcha_path f0 = None"
  shows "login_inv (w_fs f0) n (fst s) (snd s)"
  using assms(1)
proof (induction rule: login_reach.induct)
  case start
  then show ?case using assms(2) by (simp add: login_inv_def)
next
  case (continue a f f')
  have fs: "w_fs f' \<subseteq>\<^sub>m w_fs f" using continue.hyps(3) by (rule login_attempt_fs)
  from login_attempt_continued_path [OF continue.hyps(3)]
  have p: "captcha_path f' = captcha_path f \<or> captcha_path f' = Some (temp_captcha_path a)"
    and nn: "captcha_path f' \<noteq> None" by blast+
  have "\<exists>i<Suc a. captcha_path f' = Some (temp_captcha_path i)"
  proof (cases "captcha_path f' = Some (temp_captcha_path a)")
    case False
    with p nn continue.IH show ?thesis by (auto simp: login_inv_def split: if_splits) (blast intro: less_SucI)
  qed blast
  with fs continue.IH continue.hyps(2) show ?case
    by (auto simp: login_inv_def intro: map_le_trans)
qed

theorem login_reach_inv_witness:
  "login_inv Map.empty 3 1
     (snd (login_attempt (be_grey 7) (au_extractor_init\<lparr>captcha_solver_of := \<lparr>test_set = [], char_map = char_map_default\<rparr>\<rparr>)
             (dashboard_after 2) ''user'' ''pw'' 3 0 \<lparr>w_drv = 0, w_fs = Map.empty, w_log = [], w_open_err = Map.empty, captcha_path = None\<rparr>))"
proof -
  let ?ext = "au_extractor_init\<lparr>captcha_solver_of := \<lparr>test_set = [], char_map = char_map_default\<rparr>\<rparr>"
  let ?f0 = "\<lparr>w_drv = 0, w_fs = Map.empty, w_log = [], w_open_err = Map.empty, captcha_path = None\<rparr> :: nat login_frame"
  have "fst (login_attempt (be_grey 7) ?ext (dashboard_after 2) ''user'' ''pw'' 3 0 ?f0) = Continued"
    by (simp add: login_attempt_def login_try_def login_navigate_def login_capture_def login_solve_def
        login_submit_def login_await_def set_captcha_path_def login_except_def login_finally_def pyst_simps
        dashboard_after_def ok_driver_def solve_empty_decoded be_grey_def remove_if_exists_def)
  then have at: "login_attempt (be_grey 7) ?ext (dashboard_after 2) ''user'' ''pw'' 3 0 ?f0 =
                   (Continued, snd (login_attempt (be_grey 7) ?ext (dashboard_after 2) ''user'' ''pw'' 3 0 ?f0))"
    by (metis prod.collapse)
  have "login_reach (be_grey 7) ?ext (dashboard_after 2) ''user'' ''pw'' 3 ?f0
          (1, snd (login_attempt (be_grey 7) ?ext (dashboard_after 2) ''user'' ''pw'' 3 0 ?f0))"
    using login_reach.continue [OF login_reach.start _ at] by simp
  from login_reach_inv [OF this] show ?thesis by simp
qed

text \<open>
  Claim C15 (termination).  On every path, the \<^verbatim>\<open>UnboundLocalError\<close> one included,
  \<^verbatim>\<open>login\<close> ends after at most \<^verbatim>\<open>max_retries\<close> attempts, numbered 1 to \<open>k\<close>
  in the log.
\<close>

theorem login_attempts_bounded:
  "\<exists>k\<le>n. attempts_logged (w_log (snd (login be ext drv u pw n w))) = attempts_logged (w_log w) @ [1..<Suc k]"
  using login_loop_attempts [of 0 n be ext drv u pw "world.extend w (login_frame.fields None)"]
  by (auto simp: login_def split: prod.splits)

text \<open>
  Claim C16 (functional).  The log of every run of \<^verbatim>\<open>login\<close>, read for its login lines,
  is \<^verbatim>\<open>Login attempt 1/n\<close>, \<^verbatim>\<open>Login attempt 1 failed ...\<close>, \<open>\<dots>\<close>,
  \<^verbatim>\<open>Login attempt k/n\<close>, \<^verbatim>\<open>Login attempt k failed ...\<close> for some \<open>k \<le> max_retries\<close>,
  except that a successful run ends at its last attempt line: every failure is logged
  with its attempt number before the next attempt, the last one included, and no
  other line of the run reads as a login line.
\<close>

theorem login_failures_logged:
  "\<exists>k\<le>n. (fst (login be ext drv u pw n w) = Inr True \<longrightarrow> 0 < k) \<and>
     login_lines (w_log (snd (login be ext drv u pw n w))) =
       login_lines (w_log w) @ (if fst (login be ext drv u pw n w) = Inr True then butlast else id) (failed_attempts 0 k)"
  using login_loop_lines [of 0 n be ext drv u pw "world.extend w (login_frame.fields None)"]
  by (auto simp: login_def split: prod.splits)

theorem login_failures_logged_witness:
  "\<exists>k\<le>3. (fst (login (be_grey 7) au_extractor_init (ok_driver :: unit webdriver) ''user'' ''pw'' 3
                 \<lparr>w_drv = (), w_fs = Map.empty, w_log = [], w_open_err = Map.empty\<rparr>) = Inr True \<longrightarrow> 0 < k) \<and>
     login_lines (w_log (snd (login (be_grey 7) au_extractor_init (ok_driver :: unit webdriver) ''user'' ''pw'' 3
                 \<lparr>w_drv = (), w_fs = Map.empty, w_log = [], w_open_err = Map.empty\<rparr>))) =
       (if fst (login (be_grey 7) au_extractor_init (ok_driver :: unit webdriver) ''user'' ''pw'' 3
                 \<lparr>w_drv = (), w_fs = Map.empty, w_log = [], w_open_err = Map.empty\<rparr>) = Inr True then butlast else id) (failed_attempts 0 k)"
  using login_failures_logged [of 3 "be_grey 7" au_extractor_init "ok_driver :: unit webdriver" "''user''" "''pw''"
      "\<lparr>w_drv = (), w_fs = Map.empty, w_log = [], w_open_err = Map.empty\<rparr>"]
  by simp

end
