(* ===== verification/Logging.thy ===== *)
theory Logging
  imports Prelude
begin

text \<open>
  The logging configuration of the script (lines 17--22) and the text of its log.
  \<^verbatim>\<open>logging.basicConfig(level=logging.INFO, format=...)\<close> installs one handler on
  standard error that writes every record of level \<^verbatim>\<open>INFO\<close> or higher as
  \<^verbatim>\<open>asctime - levelname - message\<close>; \<^verbatim>\<open>logger = logging.getLogger(__name__)\<close>
  propagates to it.  The levels are ordered by logging's numbers, an instance of
  \<open>linorder\<close>; \<open>render_message\<close> is the f-string of each \<^verbatim>\<open>logger\<close> call, with
  \<^verbatim>\<open>str(e)\<close> of an exception a parameter; \<open>log_output\<close> is the character stream
  written to standard error for a list of events, each formatted record followed by a
  newline, \<open>asctime\<close> giving the time stamp of the record at each position.
  \<open>split_lines\<close> and \<open>read_log_line\<close> read the stream back, as a user or a log
  scanner does; they are not code.  Records of other libraries' loggers (urllib3,
  selenium) reach the same handler and interleave with these; they are not modelled.
\<close>

section \<open>Levels and the handler\<close>

fun levelno :: "log_level \<Rightarrow> nat" where
  "levelno INFO = 20"
| "levelno WARNING = 30"
| "levelno ERROR = 40"

instantiation log_level :: linorder
begin

definition less_eq_log_level_def: "lv \<le> lv' \<longleftrightarrow> levelno lv \<le> levelno lv'"

definition less_log_level_def: "lv < lv' \<longleftrightarrow> levelno lv < levelno lv'"

instance
proof
  fix x y z :: log_level
  show "x < y \<longleftrightarrow> x \<le> y \<and> \<not> y \<le> x"
    by (auto simp: less_eq_log_level_def less_log_level_def)
  show "x \<le> x" by (simp add: less_eq_log_level_def)
  show "x \<le> y \<Longrightarrow> y \<le> z \<Longrightarrow> x \<le> z" by (simp add: less_eq_log_level_def)
  show "x \<le> y \<Longrightarrow> y \<le> x \<Longrightarrow> x = y"
    by (cases x; cases y) (simp_all add: less_eq_log_level_def)
  show "x \<le> y \<or> y \<le> x" by (auto simp: less_eq_log_level_def)
qed

end

text \<open>\<^verbatim>\<open>level=logging.INFO\<close>: the threshold of the root logger.\<close>

definition log_threshold :: log_level where
  "log_threshold = INFO"

definition log_enabled :: "log_level \<Rightarrow> bool" where
  "log_enabled lv \<longleftrightarrow> log_threshold \<le> lv"

fun level_name :: "log_level \<Rightarrow> string" where
  "level_name INFO = ''INFO''"
| "level_name WARNING = ''WARNING''"
| "level_name ERROR = ''ERROR''"

section \<open>The messages\<close>

fun render_message :: "(py_exc \<Rightarrow> string) \<Rightarrow> message \<Rightarrow> string" where
  "render_message exc_str (MsgPreprocessError e) = ''Error preprocessing image: '' @ exc_str e"
| "render_message exc_str (MsgMatchError e) = ''Error calculating match percentage: '' @ exc_str e"
| "render_message exc_str (MsgLowConfidence i) = ''Low confidence match for character at position '' @ py_str_nat i"
| "render_message exc_str (MsgSolveError e) = ''Error solving captcha: '' @ exc_str e"
| "render_message exc_str (MsgDriverSetupError e) = ''Error setting up WebDriver: '' @ exc_str e"
| "render_message exc_str (MsgLoginAttempt a n) = ''Login attempt '' @ py_str_nat a @ ''/'' @ py_str_nat n"
| "render_message exc_str (MsgCaptchaSolution s) = ''Captcha solution: '' @ s"
| "render_message exc_str MsgLoginSuccessful = ''Login successful''"
| "render_message exc_str (MsgAttemptTimeout a) = ''Login attempt '' @ py_str_nat a @ '' failed (timeout)''"
| "render_message exc_str (MsgAttemptFailed a e) = ''Login attempt '' @ py_str_nat a @ '' failed: '' @ exc_str e"
| "render_message exc_str (MsgExtractMarksError e) = ''Error extracting marks: '' @ exc_str e"
| "render_message exc_str (MsgExtractInfoError e) = ''Error in information extraction: '' @ exc_str e"
| "render_message exc_str (MsgSaved p) = ''Marks data saved to '' @ p"
| "render_message exc_str (MsgMainError e) = ''Error: '' @ exc_str e"

text \<open>\<^verbatim>\<open>format='%(asctime)s - %(levelname)s - %(message)s'\<close>.\<close>

definition format_record :: "string \<Rightarrow> log_level \<Rightarrow> string \<Rightarrow> string" where
  "format_record asctime lv msg = asctime @ '' - '' @ level_name lv @ '' - '' @ msg"

text \<open>
  \<^verbatim>\<open>StreamHandler.emit\<close> writes \<^verbatim>\<open>self.format(record) + self.terminator\<close> to standard
  error, the terminator being \<^verbatim>\<open>"\n"\<close>: the log is one character stream, and a
  message that contains a newline (the \<^verbatim>\<open>str\<close> of a selenium exception has several
  lines) is written as it is, over several lines.
\<close>

fun log_from :: "(nat \<Rightarrow> string) \<Rightarrow> (py_exc \<Rightarrow> string) \<Rightarrow> nat \<Rightarrow> event list \<Rightarrow> string" where
  "log_from asctime exc_str i [] = []"
| "log_from asctime exc_str i ((lv, m) # evs) =
     (if log_enabled lv then format_record (asctime i) lv (render_message exc_str m) @ [CHR 0x0A] else []) @
     log_from asctime exc_str (Suc i) evs"

definition log_output :: "(nat \<Rightarrow> string) \<Rightarrow> (py_exc \<Rightarrow> string) \<Rightarrow> event list \<Rightarrow> string" where
  "log_output asctime exc_str evs = log_from asctime exc_str 0 evs"

section \<open>Reading the log back\<close>

text \<open>The completed lines of a character stream, as a reader of standard error sees them.\<close>

fun split_lines :: "string \<Rightarrow> string \<Rightarrow> string list" where
  "split_lines acc [] = []"
| "split_lines acc (c # cs) =
     (if c = CHR 0x0A then rev acc # split_lines [] cs else split_lines (c # acc) cs)"

text \<open>The line up to the first \<^verbatim>\<open>" - "\<close>, and the rest.\<close>

fun split_sep :: "string \<Rightarrow> (string \<times> string) option" where
  "split_sep [] = None"
| "split_sep (c # r) =
     (if c # take 2 r = '' - '' then Some ([], drop 2 r) else map_option (apfst (Cons c)) (split_sep r))"

text \<open>A time stamp such as \<^verbatim>\<open>2026-11-09 10:00:00,123\<close> has no space followed by a dash.\<close>

fun no_space_dash :: "string \<Rightarrow> bool" where
  "no_space_dash (c # d # r) = (\<not> (c = CHR '' '' \<and> d = CHR ''-'') \<and> no_space_dash (d # r))"
| "no_space_dash _ = True"

definition read_log_line :: "string \<Rightarrow> (string \<times> string \<times> string) option" where
  "read_log_line l =
     (case split_sep l of
        None \<Rightarrow> None
      | Some (asctime, r) \<Rightarrow> (case split_sep r of None \<Rightarrow> None | Some (lvl, msg) \<Rightarrow> Some (asctime, lvl, msg)))"

lemma log_enabled_all: "log_enabled lv"
  by (cases lv) (simp_all add: log_enabled_def log_threshold_def less_eq_log_level_def)

lemma no_space_dash_Cons: "no_space_dash (c # a) \<Longrightarrow> no_space_dash a"
  by (cases a) simp_all

section \<open>Printing and reading agree\<close>

lemma split_lines_append:
  "CHR 0x0A \<notin> set l \<Longrightarrow> split_lines acc (l @ CHR 0x0A # r) = (rev acc @ l) # split_lines [] r"
  by (induction l arbitrary: acc) auto

lemma split_sep_append:
  "no_space_dash a \<Longrightarrow> split_sep (a @ CHR '' '' # CHR ''-'' # CHR '' '' # b) = Some (a, b)"
proof (induction a)
  case Nil
  show ?case by simp
next
  case (Cons c a)
  have "c # take 2 (a @ CHR '' '' # CHR ''-'' # CHR '' '' # b) \<noteq> '' - ''"
    using Cons.prems by (cases a) auto
  with Cons.IH [OF no_space_dash_Cons [OF Cons.prems]] show ?case by simp
qed

lemma no_space_dash_level_name [simp]: "no_space_dash (level_name lv)"
  by (cases lv) simp_all

lemma newline_level_name [simp]: "CHR 0x0A \<notin> set (level_name lv)"
  by (cases lv) simp_all

lemma read_log_line_format:
  "no_space_dash asctime \<Longrightarrow>
   read_log_line (format_record asctime lv msg) = Some (asctime, level_name lv, msg)"
  by (simp add: read_log_line_def format_record_def split_sep_append)

lemma newline_format_record:
  "CHR 0x0A \<notin> set (format_record asctime lv msg) \<longleftrightarrow> CHR 0x0A \<notin> set asctime \<and> CHR 0x0A \<notin> set msg"
  by (auto simp: format_record_def)

lemma log_from_lines:
  assumes "\<forall>i. no_space_dash (asctime i) \<and> CHR 0x0A \<notin> set (asctime i)"
  shows "\<forall>e\<in>set evs. CHR 0x0A \<notin> set (render_message exc_str (snd e)) \<Longrightarrow>
         map read_log_line (split_lines [] (log_from asctime exc_str k evs)) =
           map (\<lambda>(i, lv, m). Some (asctime i, level_name lv, render_message exc_str m)) (enumerate k evs)"
proof (induction evs arbitrary: k)
  case Nil
  then show ?case by simp
next
  case (Cons e evs)
  obtain lv m where e: "e = (lv, m)" by (cases e)
  have "CHR 0x0A \<notin> set (format_record (asctime k) lv (render_message exc_str m))"
    using Cons.prems assms by (simp add: e newline_format_record)
  then show ?case
    using Cons assms by (simp add: e log_enabled_all split_lines_append read_log_line_format)
qed

lemma char_of_digit [simp]:
  "char_of (48::nat) = CHR ''0''" "char_of (49::nat) = CHR ''1''" "char_of (50::nat) = CHR ''2''"
  "char_of (51::nat) = CHR ''3''" "char_of (52::nat) = CHR ''4''" "char_of (53::nat) = CHR ''5''"
  "char_of (54::nat) = CHR ''6''" "char_of (55::nat) = CHR ''7''" "char_of (56::nat) = CHR ''8''"
  "char_of (57::nat) = CHR ''9''"
  by code_simp+

lemma log_output_multiline:
  "split_lines [] (log_output (\<lambda>_. ''2026-11-09 10:00:00,123'') (\<lambda>_. ''Message: timeout'' @ [CHR 0x0A] @ ''Stacktrace: ...'')
     [(ERROR, MsgMainError TimeoutException)]) =
   [''2026-11-09 10:00:00,123 - ERROR - Error: Message: timeout'', ''Stacktrace: ...'']"
  by (simp add: log_output_def format_record_def log_enabled_all)

section \<open>Properties of the log\<close>

text \<open>
  Claim C35 (roundtrip).  With time stamps that have neither a newline nor a space
  followed by a dash (logging's \<^verbatim>\<open>asctime\<close>, \<^verbatim>\<open>2026-11-09 10:00:00,123\<close>, has
  neither), and messages without a newline, standard error splits into exactly one
  line per event, in order (the \<^verbatim>\<open>INFO\<close> threshold lets every level the script uses
  through), and reading each line back gives its time stamp, the level's name and the
  rendered message: no message can shift the fields of its line.  A message with a
  newline is written over several lines (\<open>log_output_multiline\<close>).
\<close>

theorem log_output_lines:
  assumes "\<forall>i. no_space_dash (asctime i) \<and> CHR 0x0A \<notin> set (asctime i)"
    and "\<forall>e\<in>set evs. CHR 0x0A \<notin> set (render_message exc_str (snd e))"
  shows "map read_log_line (split_lines [] (log_output asctime exc_str evs)) =
           map (\<lambda>(i, lv, m). Some (asctime i, level_name lv, render_message exc_str m)) (enumerate 0 evs)"
  unfolding log_output_def using assms by (rule log_from_lines)

theorem log_output_lines_witness:
  "(\<forall>i. no_space_dash ((\<lambda>_. ''2026-11-09 10:00:00,123'') i) \<and> CHR 0x0A \<notin> set ((\<lambda>_. ''2026-11-09 10:00:00,123'') i)) \<and>
   map read_log_line (split_lines [] (log_output (\<lambda>_. ''2026-11-09 10:00:00,123'') (\<lambda>_. ''boom - again'')
      [(INFO, MsgLoginAttempt 1 3), (ERROR, MsgAttemptFailed 1 TimeoutException)])) =
   [Some (''2026-11-09 10:00:00,123'', ''INFO'', ''Login attempt 1/3''),
    Some (''2026-11-09 10:00:00,123'', ''ERROR'', ''Login attempt 1 failed: boom - again'')]"
  using log_output_lines [of "\<lambda>_. ''2026-11-09 10:00:00,123''" "[(INFO, MsgLoginAttempt 1 3), (ERROR, MsgAttemptFailed 1 TimeoutException)]"
      "\<lambda>_. ''boom - again''"]
  by (simp add: py_str_nat.simps)

end
