(* ===== verification/Spec2Isabelle.thy ===== *)
theory Spec2Isabelle
  imports CLI LoginInv Logging
begin

text \<open>
  \<^bold>\<open>A verification development of \<^verbatim>\<open>src/scraper-script.py\<close>\<close>, the Anna University
  marks scraper.  The script has two classes and a command-line entry point:

  \<^item> \<^verbatim>\<open>CaptchaSolver\<close> (lines 22--110) reads the login captcha: it loads a library of
    labelled template bitmaps (\<^verbatim>\<open>_load_test_set\<close>), binarises the captured image to a
    20 \<open>\<times>\<close> 70 matrix (\<^verbatim>\<open>_preprocess_image\<close>), cuts it into 10-column cells
    (\<^verbatim>\<open>_extract_character\<close>), scores each cell against each template
    (\<^verbatim>\<open>_calculate_match_percentage\<close>) and keeps, for six positions, the label of the
    first best template (\<^verbatim>\<open>solve\<close>).
  \<^item> \<^verbatim>\<open>AUInfoExtractor\<close> (lines 112--244) drives a browser through selenium: it logs in
    with up to \<^verbatim>\<open>max_retries\<close> attempts, each one capturing the captcha to a temporary
    file, solving it and submitting the form (\<^verbatim>\<open>login\<close>); it then reads the marks table
    (\<^verbatim>\<open>extract_marks\<close>); \<^verbatim>\<open>extract_info\<close> composes browser launch
    (\<^verbatim>\<open>setup_driver\<close>), login, extraction and \<^verbatim>\<open>driver.quit()\<close>.
  \<^item> \<^verbatim>\<open>main\<close> (lines 246--277) parses arguments and prints or saves the records.

  \<^bold>\<open>Theories.\<close>  Each theory models one part, in the order of the code:

  \<^item> \<open>Prelude\<close>: the Python semantics the script relies on.  A statement is a value of
    \<open>('s, 'a) pyst = 's \<Rightarrow> (py_exc + 'a) \<times> 's\<close>, a state transformer that returns or
    raises (\<open>Inl\<close> carries the exception, a constructor of \<open>py_exc\<close> per exception the
    code can meet); \<open>pbind\<close> is sequencing with propagation, \<open>catch_log_raise\<close> the
    recurring \<^verbatim>\<open>except Exception as e: logger.error(...); raise\<close>, \<open>py_finally\<close> the
    \<^verbatim>\<open>finally\<close> clause, \<open>loop_exit\<close> the \<^verbatim>\<open>return\<close>/\<^verbatim>\<open>raise\<close>/\<^verbatim>\<open>continue\<close> of a
    loop body.  The logger is a list of events (level, message); every message the
    code logs is a constructor of \<open>message\<close>.  \<open>keeps R m\<close> is the frame
    predicate (\<open>m\<close> relates its initial and final states by \<open>R\<close>) with its
    composition rules in the collection \<open>keeps_intros\<close>.
  \<^item> \<open>Numpy\<close>: arrays as lists of rows, \<open>dims\<close> for their shape, slicing
    \<open>np_cols\<close>, the broadcasting comparison \<open>np_eq\<close> (numpy 1.25 and later: a
    \<^verbatim>\<open>ValueError\<close>, here \<open>BroadcastError\<close>, on incompatible shapes), \<open>np_sum\<close>,
    \<open>np_size\<close>, the threshold \<open>np_gt\<close>, the scalings \<open>np_bool_mul\<close> (int64) and
    \<open>np_u8_mul\<close> (uint8, wrapping modulo 256 as \<open>8 word\<close>).
  \<^item> \<open>Templates\<close>: \<^verbatim>\<open>CaptchaSolver.__init__\<close> and \<^verbatim>\<open>_load_test_set\<close> as the record
    \<open>captcha_solver\<close>, \<open>template_0\<close>, \<open>load_test_set\<close>, \<open>char_map_default\<close>.
  \<^item> \<open>Preprocess\<close>: \<open>preprocess_image\<close>.  PIL is a backend record \<open>pil_backend\<close>:
    \<open>pil_decode\<close> is \<^verbatim>\<open>Image.open(...).convert('L')\<close> on the file's bytes, returning
    the image or the exception PIL raises (\<^verbatim>\<open>UnidentifiedImageError\<close>, or \<^verbatim>\<open>OSError\<close>
    on truncated data), and the resampling filter; a missing file raises
    \<^verbatim>\<open>FileNotFoundError\<close>; \<^verbatim>\<open>resize\<close> is modelled by its size guarantee, the
    threshold and scaling exactly.
  \<^item> \<open>Segment\<close>: \<open>extract_character\<close>.
  \<^item> \<open>Matcher\<close>: \<open>calculate_match_percentage\<close> (percentages are exact rationals,
    where Python computes a float of the same ratio), the template loop of \<^verbatim>\<open>solve\<close>
    as \<open>match_templates\<close>, and its reference specification \<open>classify_spec\<close>.
  \<^item> \<open>Solver\<close>: \<open>solve_positions\<close> (the \<^verbatim>\<open>for i in range(6)\<close> loop) and \<open>solve\<close>.
  \<^item> \<open>Driver\<close>: selenium as an interface, the record \<open>'d webdriver\<close> of the calls the
    script makes over an abstract driver state \<open>'d\<close> (elements are handles
    \<open>elem\<close>); the world \<open>'d world\<close> of driver state, working directory (a map from
    paths to bytes), log, and \<open>w_open_err\<close>, the exception \<^verbatim>\<open>open(p, 'w')\<close> raises
    for each unusable path (\<^verbatim>\<open>FileNotFoundError\<close>, \<^verbatim>\<open>PermissionError\<close>,
    \<^verbatim>\<open>IsADirectoryError\<close>).  \<open>write_file\<close> (the \<^verbatim>\<open>open\<close> of \<^verbatim>\<open>main\<close>) raises it;
    \<open>save_screenshot\<close> (selenium's \<^verbatim>\<open>screenshot\<close>, which catches the \<^verbatim>\<open>OSError\<close> and
    returns \<^verbatim>\<open>False\<close>) writes nothing and returns.  Every theorem holds for every
    driver unless it says what the driver does.
  \<^item> \<open>Login\<close>: \<^verbatim>\<open>AUInfoExtractor.__init__\<close> (\<open>au_extractor_init\<close>) and \<^verbatim>\<open>login\<close>, split
    into its phases \<open>login_navigate\<close>, \<open>login_capture\<close>, \<open>login_solve\<close>,
    \<open>login_submit\<close>, \<open>login_await\<close> (together \<open>login_try\<close>), the two \<^verbatim>\<open>except\<close>
    clauses \<open>login_except\<close>, the \<^verbatim>\<open>finally\<close> clause \<open>login_finally\<close>, one iteration
    \<open>login_attempt\<close> and the loop \<open>login_loop\<close>.  The local \<^verbatim>\<open>captcha_path\<close> lives in
    the frame \<open>'d login_frame\<close> as an option: \<open>None\<close> while Python has not bound it.
  \<^item> \<open>Extract\<close>: \<open>setup_driver\<close>, \<open>extract_marks\<close> (with \<open>select_semester\<close>,
    \<open>marks_rows\<close>, \<open>subject_data\<close>) and \<open>extract_info\<close>, whose local \<^verbatim>\<open>driver\<close> is
    the flag \<open>driver_bound\<close> of \<open>'d info_frame\<close>.
  \<^item> \<open>LoginSpec\<close>: the login state machine of the specification (section 4.6 of
    \<^verbatim>\<open>spec.md\<close>) as the inductive relation \<open>spec_step\<close> over (phase, attempt
    counter), its reachable states \<open>spec_reach\<close> and invariant \<open>spec_inv\<close> (by rule
    induction), and the refinement of the code's \<open>login\<close> into it.
  \<^item> \<open>LoginInv\<close>: the states the retry loop reaches, \<open>login_reach\<close> (an inductive
    relation over attempt counter and frame), their invariant \<open>login_inv\<close>, and the
    bound on the attempts of every run.
  \<^item> \<open>Logging\<close>: \<^verbatim>\<open>logging.basicConfig\<close> and \<^verbatim>\<open>logger\<close> (lines 17--22).  The
    levels are ordered by logging's numbers (\<open>levelno\<close>, an instance of
    \<open>linorder\<close>); \<open>log_enabled\<close> is the \<^verbatim>\<open>INFO\<close> threshold, \<open>render_message\<close>
    the f-string of each \<^verbatim>\<open>logger\<close> call (\<^verbatim>\<open>str(e)\<close> a parameter),
    \<open>format_record\<close> the format string and \<open>log_output\<close> the character stream on
    standard error (each record followed by a newline, a newline inside a message
    written as it is), time stamps a parameter.  The readers \<open>split_lines\<close> and
    \<open>read_log_line\<close> are not code: they read the stream back.
  \<^item> \<open>CLI\<close>: \<^verbatim>\<open>main\<close>.  The parsed arguments are the record \<open>cli_args\<close>, the process
    state \<open>'d proc\<close> extends the world with standard output; \<open>report_marks\<close> is the
    print-or-save branch, \<open>main_try\<close> the \<^verbatim>\<open>try\<close> block, \<open>main_cli\<close> the whole
    function, returning the exit status (0 on return, 1 after \<^verbatim>\<open>sys.exit(1)\<close>).

  \<^bold>\<open>What is proved.\<close>
  \<^item> Preprocessing: a successful call returns a 20 \<open>\<times>\<close> 70 matrix of 0/255 values,
    the threshold is strict at 128.
  \<^item> Segmentation: cell \<open>p\<close> holds columns \<open>10p..10p+9\<close>, the seven cells of a row
    rebuild it, positions past the image give empty cells instead of an error.
  \<^item> Matching: on one shape \<open>r \<times> c\<close> the score is the number of equal pixel
    positions over \<open>r * c\<close>, times 100, so it lies in [0, 100]; it is 100 iff the cell equals the
    template and 0 iff no pixel agrees; shapes 20 \<open>\<times>\<close> 10 and 10 \<open>\<times>\<close> 8 raise.  The loop
    \<open>match_templates\<close> equals the reference \<open>classify_spec\<close> (first index of the
    maximum score, if positive), hence ties go to the lower library index.
  \<^item> Solving: with the shipped library \<open>solve\<close> always raises; with an empty library
    it returns the empty string; for any library of 20 \<open>\<times>\<close> 10 templates \<open>solve\<close>
    equals its specification (per position the label of the first template of maximal
    score, nothing when every score is 0, a warning exactly below 50), so a
    solution can have fewer than six characters.
  \<^item> Login: with the shipped library login never succeeds, and with a driver that
    reaches the captcha it makes exactly \<^verbatim>\<open>max_retries\<close> attempts before raising;
    a first-attempt navigation timeout ends the loop with \<^verbatim>\<open>UnboundLocalError\<close>;
    \<^verbatim>\<open>False\<close> is returned only for a budget of 0; no temporary file survives any run;
    with a site whose dashboard appears at submission \<open>k + 1\<close>, login succeeds after
    \<open>k + 1\<close> attempts when \<open>k < max_retries\<close> and raises the timeout otherwise.  The
    exception of the shipped-library runs is the solver's \<^verbatim>\<open>ValueError\<close> when the last
    capture path is writable (otherwise the solver's \<^verbatim>\<open>FileNotFoundError\<close>).
  \<^item> Refinement: every run of \<open>login\<close> not ended by that \<^verbatim>\<open>UnboundLocalError\<close> is a
    run of the specification's machine, read off the \<^verbatim>\<open>Login attempt i/n\<close> lines
    of the log: \<^verbatim>\<open>True\<close> is \<open>SUCCESS\<close> at the last logged attempt, an exception is
    \<open>FAILED\<close> after exactly \<^verbatim>\<open>max_retries\<close> attempts.
  \<^item> Extraction: a well-formed marks table gives one record per data row, a short row
    raises \<^verbatim>\<open>IndexError\<close>, and \<^verbatim>\<open>extract_info\<close> quits the browser exactly once iff it
    was launched, and never leaves a new file behind.  With a solver that returns,
    a writable capture path and a site that accepts the first submission, \<^verbatim>\<open>extract_info\<close> composes
    launch, login, extraction and quit into the table's records.  On the error
    paths, a failed launch is logged twice and never quits, and an exception of
    \<^verbatim>\<open>quit()\<close> in \<^verbatim>\<open>finally\<close> replaces extracted records without being logged.  The semester selector is
    the intended option-text test (read with XPath 1.0's two quote styles) exactly
    for semesters without an apostrophe (the f-string does not escape it).
  \<^item> Loop invariant: at the start of every attempt the counter is within the budget,
    no new file exists, and \<^verbatim>\<open>captcha_path\<close> is unbound exactly before the first
    attempt; every run of \<^verbatim>\<open>login\<close> logs the attempts 1 to \<open>k\<close>, \<open>k \<le> max_retries\<close>,
    each failed one followed by its failure line before the next attempt
    (\<open>login_lines\<close> of \<open>LoginSpec\<close> reads both kinds of line).
  \<^item> Command line: without an output path the records are printed five lines each,
    with one they are saved as JSON when the path opens for writing, and the
    \<^verbatim>\<open>OSError\<close> of \<^verbatim>\<open>open\<close> propagates otherwise; and, composing all of the above, \<^verbatim>\<open>main\<close> as
    shipped exits with status 1 on every run, printing nothing; in the spec's
    exhaustion scenario, for any arguments, the last failure is logged three times (by \<^verbatim>\<open>login\<close>,
    \<^verbatim>\<open>extract_info\<close> and \<^verbatim>\<open>main\<close>) and no line reports the exhaustion.
  \<^item> Log text: every event reaches standard error; when no message contains a
    newline the stream splits into one line per event and each line reads back as
    time stamp, level and message, even when the message contains the separator
    \<^verbatim>\<open> - \<close> (a round trip of \<open>format_record\<close>, \<open>split_lines\<close> and
    \<open>read_log_line\<close>).  A message with a newline, such as the text of a selenium
    exception, spans several lines (\<open>log_output_multiline\<close>).

  \<^bold>\<open>Loops and termination.\<close>  No fuel is used.  The loops over \<^verbatim>\<open>range(6)\<close>, the
  template list and the table rows are structural recursion on lists; the retry loop
  is a \<open>function\<close> whose termination is proved by the measure
  \<open>max_retries - attempt\<close>, so every theorem about \<open>login\<close> is about a total function.

  \<^bold>\<open>Not modelled.\<close>  Argument parsing (\<^verbatim>\<open>argparse\<close>: its result is the record
  \<open>cli_args\<close>); the serialisation of \<^verbatim>\<open>json.dump\<close>, a parameter giving the bytes
  written; the time stamps of the log records; the Chrome options; PIL's decoder and
  resampling filter, and selenium's behaviour, which are parameters; the pixel
  content of a screenshot; directories in the working directory (it holds files
  only, so \<^verbatim>\<open>Image.open\<close> on a directory, which raises \<^verbatim>\<open>IsADirectoryError\<close>, is not
  a case of the model; the same error of \<^verbatim>\<open>open(p, 'w')\<close> is, through
  \<open>w_open_err\<close>); errors of \<^verbatim>\<open>json.dump\<close> or of the write after a successful
  \<^verbatim>\<open>open\<close>; the records other libraries (urllib3, selenium) send to the same log
  handler.  The imports (lines 1--16) and the guard
  \<^verbatim>\<open>if __name__ == "__main__": main()\<close> (lines 278--280) have no behaviour of
  their own beyond making the names available and calling \<open>main_cli\<close>.
\<close>

end
